theory Spec2Isabelle
  imports Main
begin

section \<open>Applicant resolution on a Proposal\<close>

text \<open>
  The applicant columns of \<^verbatim>\<open>Proposal\<close> (proposals/models.py):
  \<^verbatim>\<open>ind_applicant\<close>, \<^verbatim>\<open>proxy_applicant\<close> and \<^verbatim>\<open>submitter\<close> are nullable
  integer columns holding a ledger user id, \<^verbatim>\<open>org_applicant\<close> is a nullable foreign key.
  Python's \<^verbatim>\<open>if self.ind_applicant:\<close> is false for \<^verbatim>\<open>None\<close> and for \<^verbatim>\<open>0\<close>;
  a foreign key is false only when it is \<^verbatim>\<open>None\<close>.
\<close>

record applicant_fields =
  org_applicant :: "nat option"
  ind_applicant :: "int option"
  proxy_applicant :: "int option"
  submitter :: "int option"

definition truthy_int :: "int option \<Rightarrow> bool" where
  "truthy_int v = (case v of None \<Rightarrow> False | Some n \<Rightarrow> n \<noteq> 0)"

definition truthy_fk :: "nat option \<Rightarrow> bool" where
  "truthy_fk v = (case v of None \<Rightarrow> False | Some _ \<Rightarrow> True)"

text \<open>
  What an accessor hands back: the organisation row, the \<^verbatim>\<open>ProposalApplicant\<close> row of the
  proposal (\<^verbatim>\<open>self.proposal_applicant\<close>), the ledger user fetched by
  \<^verbatim>\<open>retrieve_email_user(id)\<close>, or the literal string \<^verbatim>\<open>"No Applicant"\<close>.
\<close>

datatype applicant_value =
    OrganisationRow nat
  | ProposalApplicantRow
  | EmailUser "int option"
  | NoApplicantString

text \<open>\<^verbatim>\<open>Proposal.applicant\<close>\<close>

definition applicant :: "'a applicant_fields_scheme \<Rightarrow> applicant_value" where
  "applicant p =
     (if truthy_fk (org_applicant p) then OrganisationRow (the (org_applicant p))
      else if truthy_int (ind_applicant p) then ProposalApplicantRow
      else if truthy_int (proxy_applicant p) then EmailUser (proxy_applicant p)
      else NoApplicantString)"

text \<open>\<^verbatim>\<open>Proposal.relevant_applicant\<close>\<close>

definition relevant_applicant :: "'a applicant_fields_scheme \<Rightarrow> applicant_value" where
  "relevant_applicant p =
     (if truthy_int (ind_applicant p) then EmailUser (ind_applicant p)
      else if truthy_fk (org_applicant p) then OrganisationRow (the (org_applicant p))
      else if truthy_int (proxy_applicant p) then EmailUser (proxy_applicant p)
      else EmailUser (submitter p))"

text \<open>\<^verbatim>\<open>Proposal.applicant_type\<close>, with the four \<^verbatim>\<open>APPLICANT_TYPE_*\<close> constants.\<close>

definition APPLICANT_TYPE_ORGANISATION :: string where
  "APPLICANT_TYPE_ORGANISATION = ''ORG''"

definition APPLICANT_TYPE_INDIVIDUAL :: string where
  "APPLICANT_TYPE_INDIVIDUAL = ''IND''"

definition APPLICANT_TYPE_PROXY :: string where
  "APPLICANT_TYPE_PROXY = ''PRX''"

definition APPLICANT_TYPE_SUBMITTER :: string where
  "APPLICANT_TYPE_SUBMITTER = ''SUB''"

definition applicant_type :: "'a applicant_fields_scheme \<Rightarrow> string" where
  "applicant_type p =
     (if truthy_fk (org_applicant p) then APPLICANT_TYPE_ORGANISATION
      else if truthy_int (ind_applicant p) then APPLICANT_TYPE_INDIVIDUAL
      else if truthy_int (proxy_applicant p) then APPLICANT_TYPE_PROXY
      else APPLICANT_TYPE_SUBMITTER)"

text \<open>\<^verbatim>\<open>Proposal.applicant_field\<close>, the name of the authoritative column.\<close>

definition applicant_field :: "'a applicant_fields_scheme \<Rightarrow> string" where
  "applicant_field p =
     (if truthy_fk (org_applicant p) then ''org_applicant''
      else if truthy_int (ind_applicant p) then ''ind_applicant''
      else if truthy_int (proxy_applicant p) then ''proxy_applicant''
      else ''submitter'')"

section \<open>Invoice ledger\<close>

text \<open>
  Python's \<^verbatim>\<open>Decimal\<close> with a non-positive exponent: the value is
  \<open>coefficient / 10 ^ places\<close>. \<^verbatim>\<open>Decimal("0.00")\<close> is \<open>Decimal 0 2\<close>. Addition and
  subtraction align both operands to the larger number of places; comparison is by value.
  The context precision of 28 digits is not reached by columns of at most 10 digits.
\<close>

datatype decimal = Decimal (coefficient: int) (places: nat)

definition dec_add :: "decimal \<Rightarrow> decimal \<Rightarrow> decimal" where
  "dec_add a b =
     (let p = max (places a) (places b)
      in Decimal (coefficient a * 10 ^ (p - places a) + coefficient b * 10 ^ (p - places b)) p)"

definition dec_sub :: "decimal \<Rightarrow> decimal \<Rightarrow> decimal" where
  "dec_sub a b =
     (let p = max (places a) (places b)
      in Decimal (coefficient a * 10 ^ (p - places a) - coefficient b * 10 ^ (p - places b)) p)"

definition dec_eq :: "decimal \<Rightarrow> decimal \<Rightarrow> bool" where
  "dec_eq a b = (coefficient (dec_sub a b) = 0)"

text \<open>
  \<^verbatim>\<open>quantize\<close> rounds with the context's default mode, half to even, on the magnitude.
\<close>

definition round_half_even :: "int \<Rightarrow> int \<Rightarrow> int" where
  "round_half_even n d =
     (let q = \<bar>n\<bar> div d; r = \<bar>n\<bar> mod d;
          m = (if 2 * r > d \<or> (2 * r = d \<and> odd q) then q + 1 else q)
      in if n < 0 then - m else m)"

definition quantize :: "decimal \<Rightarrow> nat \<Rightarrow> decimal" where
  "quantize d k =
     (if places d \<le> k then Decimal (coefficient d * 10 ^ (k - places d)) k
      else Decimal (round_half_even (coefficient d) (10 ^ (places d - k))) k)"

text \<open>
  The aggregate \<^verbatim>\<open>Sum\<close> is \<^verbatim>\<open>NULL\<close> over no rows, and \<^verbatim>\<open>Coalesce\<close> replaces
  \<^verbatim>\<open>NULL\<close> by its second argument.
\<close>

fun Sum_agg :: "decimal list \<Rightarrow> decimal option" where
  "Sum_agg [] = None"
| "Sum_agg (x # xs) = Some (foldl dec_add x xs)"

definition Coalesce :: "'a option \<Rightarrow> 'a \<Rightarrow> 'a" where
  "Coalesce v d = (case v of None \<Rightarrow> d | Some x \<Rightarrow> x)"

datatype invoice_status = Unpaid | Paid | Void | PendingUploadOracleInvoice

text \<open>
  The columns of \<^verbatim>\<open>Invoice\<close> and \<^verbatim>\<open>InvoiceTransaction\<close> that the ledger operations
  read or write. \<^verbatim>\<open>status\<close> and \<^verbatim>\<open>amount\<close> are nullable; times are seconds.
\<close>

record invoice =
  inv_id :: nat
  inv_uuid :: string
  inv_status :: "invoice_status option"
  inv_amount :: "decimal option"
  inv_date_paid :: "nat option"

record invoice_transaction =
  tx_invoice :: nat
  tx_credit :: decimal
  tx_debit :: decimal

record ledger =
  invoices :: "invoice list"
  transactions :: "invoice_transaction list"

datatype ledger_error = TypeError | IntegrityError | DoesNotExist | MultipleObjectsReturned

definition invoice_transactions :: "ledger \<Rightarrow> invoice \<Rightarrow> invoice_transaction list" where
  "invoice_transactions db self = filter (\<lambda>t. tx_invoice t = inv_id self) (transactions db)"

text \<open>\<^verbatim>\<open>Invoice.balance\<close>; a null amount makes the addition raise \<^verbatim>\<open>TypeError\<close>.\<close>

definition balance :: "ledger \<Rightarrow> invoice \<Rightarrow> ledger_error + decimal" where
  "balance db self =
     (let txs = invoice_transactions db self;
          credit = Coalesce (Sum_agg (map tx_credit txs)) (Decimal 0 2);
          debit = Coalesce (Sum_agg (map tx_debit txs)) (Decimal 0 2)
      in case inv_amount self of
           None \<Rightarrow> Inl TypeError
         | Some amount \<Rightarrow> Inr (quantize (dec_sub (dec_add amount credit) debit) 2))"

record rt_request =
  req_is_finance_officer :: bool
  req_credit :: "decimal option"
  req_debit :: "decimal option"

datatype response =
    Response_message
  | Response_errors_400
  | Response_status nat
  | Response_invoice invoice
  | Http404
  | Http500 ledger_error

definition get_object :: "ledger \<Rightarrow> nat \<Rightarrow> invoice option" where
  "get_object db pk = find (\<lambda>i. inv_id i = pk) (invoices db)"

definition save_invoice :: "invoice \<Rightarrow> ledger \<Rightarrow> ledger" where
  "save_invoice i db =
     db\<lparr>invoices := map (\<lambda>j. if inv_id j = inv_id i then i else j) (invoices db)\<rparr>"

definition create_transaction :: "invoice_transaction \<Rightarrow> ledger \<Rightarrow> ledger" where
  "create_transaction t db = db\<lparr>transactions := transactions db @ [t]\<rparr>"

text \<open>
  \<^verbatim>\<open>InvoiceViewSet.record_transaction\<close> (invoicing/api.py). The serializer's validation is
  the parameter \<open>is_valid\<close>; the saved row holds the amounts at the two places of its
  \<^verbatim>\<open>DecimalField(max_digits=9, decimal_places=2)\<close> columns. The view is not wrapped in a
  transaction: what was written before an exception stays written. The response is built
  from \<^verbatim>\<open>instance\<close>, the row read before the transaction was saved.
\<close>

definition record_transaction ::
  "(decimal \<Rightarrow> decimal \<Rightarrow> bool) \<Rightarrow> rt_request \<Rightarrow> nat \<Rightarrow> ledger \<Rightarrow> response \<times> ledger" where
  "record_transaction is_valid request pk db =
     (if \<not> req_is_finance_officer request then (Response_message, db)
      else case get_object db pk of
        None \<Rightarrow> (Http404, db)
      | Some instance \<Rightarrow>
          let credit = Coalesce (req_credit request) (Decimal 0 2);
              debit = Coalesce (req_debit request) (Decimal 0 2)
          in if \<not> is_valid credit debit then (Response_errors_400, db)
             else
               let invoice_transaction =
                     \<lparr>tx_invoice = inv_id instance, tx_credit = quantize credit 2,
                      tx_debit = quantize debit 2\<rparr>;
                   db1 = create_transaction invoice_transaction db
               in case get_object db1 (tx_invoice invoice_transaction) of
                    None \<Rightarrow> (Http500 DoesNotExist, db1)
                  | Some invoice \<Rightarrow>
                      (case balance db1 invoice of
                         Inl e \<Rightarrow> (Http500 e, db1)
                       | Inr b \<Rightarrow>
                           if dec_eq (Decimal 0 2) b
                           then (Response_invoice instance,
                                 save_invoice (invoice\<lparr>inv_status := Some Paid\<rparr>) db1)
                           else (Response_invoice instance, db1)))"

text \<open>\<^verbatim>\<open>@transaction.atomic\<close> on a view: an exception restores the database.\<close>

definition atomic ::
  "(ledger \<Rightarrow> ledger_error + response \<times> ledger) \<Rightarrow> ledger \<Rightarrow> response \<times> ledger" where
  "atomic body db = (case body db of Inl e \<Rightarrow> (Http500 e, db) | Inr r \<Rightarrow> r)"

text \<open>
  \<^verbatim>\<open>PayInvoiceSuccessCallbackView.get\<close>. \<^verbatim>\<open>Invoice.objects.get(uuid=uuid)\<close> raises when
  no row or more than one row has the uuid; the debit column is not nullable.
\<close>

definition pay_invoice_success_callback :: "nat \<Rightarrow> string \<Rightarrow> ledger \<Rightarrow> response \<times> ledger" where
  "pay_invoice_success_callback now uuid =
     atomic (\<lambda>db.
       if uuid \<noteq> [] \<and> (\<exists>i\<in>set (invoices db). inv_uuid i = uuid \<and> inv_status i = Some Unpaid)
       then case filter (\<lambda>i. inv_uuid i = uuid) (invoices db) of
              [] \<Rightarrow> Inl DoesNotExist
            | [invoice] \<Rightarrow>
                (case inv_amount invoice of
                   None \<Rightarrow> Inl IntegrityError
                 | Some amount \<Rightarrow>
                     let db1 = create_transaction
                                 \<lparr>tx_invoice = inv_id invoice, tx_credit = Decimal 0 2,
                                  tx_debit = quantize amount 2\<rparr> db
                     in Inr (Response_status 200,
                             save_invoice
                               (invoice\<lparr>inv_status := Some Paid, inv_date_paid := Some now\<rparr>) db1))
            | _ \<Rightarrow> Inl MultipleObjectsReturned
       else Inr (Response_status 400, db))"

text \<open>The scale of the stored amounts: every decimal column has two places.\<close>

definition stored_2dp :: "ledger \<Rightarrow> bool" where
  "stored_2dp db =
     ((\<forall>i\<in>set (invoices db). \<forall>a. inv_amount i = Some a \<longrightarrow> places a = 2)
      \<and> (\<forall>t\<in>set (transactions db). places (tx_credit t) = 2 \<and> places (tx_debit t) = 2))"

text \<open>A ledger with an unpaid invoice of 100.50 and a paid invoice of 5.00.\<close>

definition invoice_100_50 :: invoice where
  "invoice_100_50 = \<lparr>inv_id = 1, inv_uuid = ''u1'', inv_status = Some Unpaid,
     inv_amount = Some (Decimal 10050 2), inv_date_paid = None\<rparr>"

definition invoice_5_00 :: invoice where
  "invoice_5_00 = \<lparr>inv_id = 2, inv_uuid = ''u2'', inv_status = Some Paid,
     inv_amount = Some (Decimal 500 2), inv_date_paid = Some 5\<rparr>"

definition ledger_example :: ledger where
  "ledger_example = \<lparr>invoices = [invoice_100_50, invoice_5_00],
     transactions = [\<lparr>tx_invoice = 2, tx_credit = Decimal 0 2, tx_debit = Decimal 500 2\<rparr>]\<rparr>"

section \<open>Referrals\<close>

text \<open>
  \<^verbatim>\<open>Proposal.processing_status\<close> and \<^verbatim>\<open>Referral.processing_status\<close>, with the values
  of their \<^verbatim>\<open>PROCESSING_STATUS_*\<close> constants.
\<close>

datatype processing_status =
    Draft
  | AmendmentRequired
  | WithAssessor
  | WithAssessorConditions
  | WithApprover
  | WithReferral
  | WithReferralConditions
  | ApprovedApplication
  | ApprovedCompetitiveProcess
  | ApprovedEditingInvoicing
  | Approved
  | Declined
  | Discarded

datatype referral_status = ReferralWithReferral | ReferralRecalled | ReferralCompleted

record referral =
  r_id :: nat
  r_proposal :: nat
  r_processing_status :: referral_status
  r_sent_from :: int

record referral_proposal = applicant_fields +
  rp_id :: nat
  rp_processing_status :: processing_status

record referral_db =
  rd_proposals :: "referral_proposal list"
  rd_referrals :: "referral list"

datatype referral_error = AttributeError | ProposalDoesNotExist

text \<open>
  \<^verbatim>\<open>Model.save()\<close> on a row read from the table: the row with the primary key is
  replaced, and inserted when the key is not there.
\<close>

definition save_referral :: "referral \<Rightarrow> referral_db \<Rightarrow> referral_db" where
  "save_referral r db =
     (if \<exists>x\<in>set (rd_referrals db). r_id x = r_id r
      then db\<lparr>rd_referrals := map (\<lambda>x. if r_id x = r_id r then r else x) (rd_referrals db)\<rparr>
      else db\<lparr>rd_referrals := rd_referrals db @ [r]\<rparr>)"

definition save_referral_proposal :: "referral_proposal \<Rightarrow> referral_db \<Rightarrow> referral_db" where
  "save_referral_proposal p db =
     (if \<exists>x\<in>set (rd_proposals db). rp_id x = rp_id p
      then db\<lparr>rd_proposals := map (\<lambda>x. if rp_id x = rp_id p then p else x) (rd_proposals db)\<rparr>
      else db\<lparr>rd_proposals := rd_proposals db @ [p]\<rparr>)"

definition pending_referral_exists :: "referral_db \<Rightarrow> nat \<Rightarrow> bool" where
  "pending_referral_exists db pid =
     (\<exists>x\<in>set (rd_referrals db). r_proposal x = pid \<and> r_processing_status x = ReferralWithReferral)"

text \<open>
  \<^verbatim>\<open>Referral.complete\<close>, inside \<^verbatim>\<open>transaction.atomic()\<close>: an exception leaves the
  database as it was, so an error is returned without a database. \<^verbatim>\<open>self.applicant\<close> is \<^verbatim>\<open>self.proposal.applicant\<close>; when that is the
  string \<^verbatim>\<open>"No Applicant"\<close> the call of \<^verbatim>\<open>log_user_action\<close> on it raises
  \<^verbatim>\<open>AttributeError\<close>. The attached referral document, the action log and the emails touch
  no status and are left out.
\<close>

definition complete :: "referral \<Rightarrow> referral_db \<Rightarrow> referral_error + referral_db" where
  "complete self db =
     (let self1 = self\<lparr>r_processing_status := ReferralCompleted\<rparr>;
          db1 = save_referral self1 db
      in case find (\<lambda>p. rp_id p = r_proposal self) (rd_proposals db1) of
           None \<Rightarrow> Inl ProposalDoesNotExist
         | Some proposal \<Rightarrow>
             if applicant proposal = NoApplicantString then Inl AttributeError
             else if \<not> pending_referral_exists db1 (r_proposal self)
             then Inr (save_referral_proposal
                    (proposal\<lparr>rp_processing_status :=
                        (if r_sent_from self = 1 then WithAssessor else WithApprover)\<rparr>) db1)
             else Inr db1)"

text \<open>A proposal sent to two referees by the assessor, both referrals pending.\<close>

definition referral_10 :: referral where
  "referral_10 = \<lparr>r_id = 10, r_proposal = 1, r_processing_status = ReferralWithReferral,
     r_sent_from = 1\<rparr>"

definition referral_11 :: referral where
  "referral_11 = \<lparr>r_id = 11, r_proposal = 1, r_processing_status = ReferralWithReferral,
     r_sent_from = 1\<rparr>"

definition referred_proposal :: referral_proposal where
  "referred_proposal = \<lparr>org_applicant = Some 7, ind_applicant = None, proxy_applicant = None,
     submitter = Some 9, rp_id = 1, rp_processing_status = WithReferral\<rparr>"

definition referral_example :: referral_db where
  "referral_example =
     \<lparr>rd_proposals = [referred_proposal], rd_referrals = [referral_10, referral_11]\<rparr>"

section \<open>Calendar dates\<close>

text \<open>
  \<^verbatim>\<open>datetime.date\<close> as the standard library computes it: a date is a year, a month and a
  day; \<^verbatim>\<open>toordinal\<close> counts days from 0001-01-01 = 1, \<^verbatim>\<open>fromordinal\<close> inverts it by
  the cycles of 400, 100, 4 and 1 years; adding a \<^verbatim>\<open>timedelta\<close> goes through the ordinal and
  raises \<^verbatim>\<open>OverflowError\<close> outside 0001-01-01 .. 9999-12-31. Dates compare as
  (year, month, day).
\<close>

datatype date = Date (year: int) (month: int) (day: int)

definition is_leap :: "int \<Rightarrow> bool" where
  "is_leap y = (y mod 4 = 0 \<and> (y mod 100 \<noteq> 0 \<or> y mod 400 = 0))"

definition days_before_year :: "int \<Rightarrow> int" where
  "days_before_year y = (let y1 = y - 1 in y1 * 365 + y1 div 4 - y1 div 100 + y1 div 400)"

definition DAYS_IN_MONTH :: "int \<Rightarrow> int" where
  "DAYS_IN_MONTH m =
     (if m = 2 then 28 else if m = 4 \<or> m = 6 \<or> m = 9 \<or> m = 11 then 30 else 31)"

definition DAYS_BEFORE_MONTH :: "int \<Rightarrow> int" where
  "DAYS_BEFORE_MONTH m =
     (if m = 1 then 0 else if m = 2 then 31 else if m = 3 then 59 else if m = 4 then 90
      else if m = 5 then 120 else if m = 6 then 151 else if m = 7 then 181
      else if m = 8 then 212 else if m = 9 then 243 else if m = 10 then 273
      else if m = 11 then 304 else 334)"

definition days_in_month :: "int \<Rightarrow> int \<Rightarrow> int" where
  "days_in_month y m = (if m = 2 \<and> is_leap y then 29 else DAYS_IN_MONTH m)"

definition days_before_month :: "int \<Rightarrow> int \<Rightarrow> int" where
  "days_before_month y m = DAYS_BEFORE_MONTH m + (if m > 2 \<and> is_leap y then 1 else 0)"

definition toordinal :: "date \<Rightarrow> int" where
  "toordinal d = days_before_year (year d) + days_before_month (year d) (month d) + day d"

definition fromordinal :: "int \<Rightarrow> date" where
  "fromordinal n0 =
     (let n = n0 - 1;
          n400 = n div 146097; n = n mod 146097;
          n100 = n div 36524; n = n mod 36524;
          n4 = n div 1461; n = n mod 1461;
          n1 = n div 365; n = n mod 365;
          y = n400 * 400 + 1 + n100 * 100 + n4 * 4 + n1
      in if n1 = 4 \<or> n100 = 4 then Date (y - 1) 12 31
         else
           let leapyear = (n1 = 3 \<and> (n4 \<noteq> 24 \<or> n100 = 3));
               m = (n + 50) div 32;
               preceding = DAYS_BEFORE_MONTH m + (if m > 2 \<and> leapyear then 1 else 0)
           in if preceding > n
              then let m = m - 1;
                       preceding = preceding
                         - (DAYS_IN_MONTH m + (if m = 2 \<and> leapyear then 1 else 0))
                   in Date y m (n - preceding + 1)
              else Date y m (n - preceding + 1))"

definition MAXORDINAL :: int where
  "MAXORDINAL = 3652059"

definition date_less :: "date \<Rightarrow> date \<Rightarrow> bool" where
  "date_less a b =
     (year a < year b \<or> (year a = year b \<and>
        (month a < month b \<or> (month a = month b \<and> day a < day b))))"

definition date_le :: "date \<Rightarrow> date \<Rightarrow> bool" where
  "date_le a b = (date_less a b \<or> a = b)"

datatype date_error = OverflowError | ValueError

definition add_days :: "date \<Rightarrow> int \<Rightarrow> date_error + date" where
  "add_days d n =
     (let ord = toordinal d + n
      in if 0 < ord \<and> ord \<le> MAXORDINAL then Inr (fromordinal ord) else Inl OverflowError)"

definition diff_days :: "date \<Rightarrow> date \<Rightarrow> int" where
  "diff_days a b = toordinal a - toordinal b"

text \<open>
  \<^verbatim>\<open>dateutil.relativedelta\<close> added to a date: the plural arguments (\<^verbatim>\<open>weeks\<close>,
  \<^verbatim>\<open>years\<close>) are relative, the singular \<^verbatim>\<open>month=1\<close> is absolute and replaces the month
  by January. The day is clipped to the length of the resulting month, the date is rebuilt
  with \<^verbatim>\<open>replace\<close> (which rejects a year above 9999), and the relative days are added.
\<close>

definition relativedelta_weeks_1 :: "date \<Rightarrow> date_error + date" where
  "relativedelta_weeks_1 d = add_days d 7"

definition relativedelta_month_1 :: "date \<Rightarrow> date_error + date" where
  "relativedelta_month_1 d =
     add_days (Date (year d) 1 (min (days_in_month (year d) 1) (day d))) 0"

definition relativedelta_years_1 :: "date \<Rightarrow> date_error + date" where
  "relativedelta_years_1 d =
     (let y = year d + 1
      in if y > 9999 then Inl ValueError
         else add_days (Date y (month d) (min (days_in_month y (month d)) (day d))) 0)"

section \<open>Compliance generation\<close>

text \<open>
  The columns of \<^verbatim>\<open>ProposalRequirement\<close> and \<^verbatim>\<open>Compliance\<close> that
  \<^verbatim>\<open>Proposal.generate_compliances\<close> reads or writes. \<open>req_gross_turnover_required\<close> is
  \<^verbatim>\<open>standard_requirement__gross_turnover_required=True\<close>; \<^verbatim>\<open>recurrence_schedule\<close> is a
  nullable integer column.
\<close>

datatype compliance_status = Due | Future | Overdue | Completed | ComplianceDiscarded

record requirement =
  req_id :: nat
  req_is_deleted :: bool
  req_gross_turnover_required :: bool
  req_due_date :: "date option"
  req_recurrence :: bool
  req_recurrence_pattern :: int
  req_recurrence_schedule :: "int option"

record compliance =
  c_proposal :: nat
  c_approval :: nat
  c_requirement :: nat
  c_due_date :: date
  c_processing_status :: compliance_status

datatype generate_error = DateError date_error | RangeTypeError | MultipleCompliances

text \<open>
  \<^verbatim>\<open>Compliance.objects.get(requirement=req, due_date=current_date)\<close>, and on
  \<^verbatim>\<open>DoesNotExist\<close> the \<^verbatim>\<open>create\<close>; more than one match raises.
\<close>

definition get_or_create_compliance ::
  "nat \<Rightarrow> nat \<Rightarrow> requirement \<Rightarrow> date \<Rightarrow> compliance list \<Rightarrow> generate_error + compliance list" where
  "get_or_create_compliance proposal approval req current_date cs =
     (case filter (\<lambda>c. c_requirement c = req_id req \<and> c_due_date c = current_date) cs of
        [] \<Rightarrow> Inr (cs @ [\<lparr>c_proposal = proposal, c_approval = approval,
                 c_requirement = req_id req, c_due_date = current_date,
                 c_processing_status = Future\<rparr>])
      | [c] \<Rightarrow> Inr cs
      | _ \<Rightarrow> Inl MultipleCompliances)"

text \<open>One pass of the body of \<^verbatim>\<open>for x in range(req.recurrence_schedule)\<close>.\<close>

definition recurrence_step :: "int \<Rightarrow> date \<Rightarrow> date_error + date" where
  "recurrence_step pattern d =
     (if pattern = 1 then relativedelta_weeks_1 d
      else if pattern = 2 then relativedelta_month_1 d
      else if pattern = 3 then relativedelta_years_1 d
      else Inr d)"

fun advance_due_date :: "nat \<Rightarrow> int \<Rightarrow> date \<Rightarrow> date_error + date" where
  "advance_due_date 0 pattern d = Inr d"
| "advance_due_date (Suc k) pattern d =
     (case recurrence_step pattern d of
        Inl e \<Rightarrow> Inl e
      | Inr d' \<Rightarrow> advance_due_date k pattern d')"

text \<open>
  \<^verbatim>\<open>while current_date < approval.expiry_date\<close>. The loop may not return: its value is
  then \<open>None\<close>. A null schedule makes \<^verbatim>\<open>range\<close> raise \<^verbatim>\<open>TypeError\<close>; a schedule of
  zero or less runs the inner loop no times.
\<close>

partial_function (option) recurrence_loop ::
  "nat \<Rightarrow> nat \<Rightarrow> date \<Rightarrow> requirement \<Rightarrow> date \<Rightarrow> compliance list
     \<Rightarrow> (generate_error + compliance list) option" where
  "recurrence_loop proposal approval expiry_date req current_date cs =
     (if date_less current_date expiry_date
      then case req_recurrence_schedule req of
             None \<Rightarrow> Some (Inl RangeTypeError)
           | Some schedule \<Rightarrow>
               (case advance_due_date (nat schedule) (req_recurrence_pattern req) current_date of
                  Inl e \<Rightarrow> Some (Inl (DateError e))
                | Inr next_date \<Rightarrow>
                    if date_le next_date expiry_date
                    then case get_or_create_compliance proposal approval req next_date cs of
                           Inl e \<Rightarrow> Some (Inl e)
                         | Inr cs' \<Rightarrow>
                             recurrence_loop proposal approval expiry_date req next_date cs'
                    else recurrence_loop proposal approval expiry_date req next_date cs)
      else Some (Inr cs))"

declare recurrence_loop.simps [code]

definition generate_for_requirement ::
  "date \<Rightarrow> nat \<Rightarrow> nat \<Rightarrow> date \<Rightarrow> requirement \<Rightarrow> compliance list
     \<Rightarrow> (generate_error + compliance list) option" where
  "generate_for_requirement today proposal approval expiry_date req cs =
     (case req_due_date req of
        None \<Rightarrow> Some (Inr cs)
      | Some due \<Rightarrow>
          if date_le today due
          then case get_or_create_compliance proposal approval req due cs of
                 Inl e \<Rightarrow> Some (Inl e)
               | Inr cs' \<Rightarrow>
                   if req_recurrence req
                   then recurrence_loop proposal approval expiry_date req due cs'
                   else Some (Inr cs')
          else Some (Inr cs))"

fun generate_for_requirements ::
  "date \<Rightarrow> nat \<Rightarrow> nat \<Rightarrow> date \<Rightarrow> requirement list \<Rightarrow> compliance list
     \<Rightarrow> (generate_error + compliance list) option" where
  "generate_for_requirements today proposal approval expiry_date [] cs = Some (Inr cs)"
| "generate_for_requirements today proposal approval expiry_date (req # reqs) cs =
     (case generate_for_requirement today proposal approval expiry_date req cs of
        None \<Rightarrow> None
      | Some (Inl e) \<Rightarrow> Some (Inl e)
      | Some (Inr cs') \<Rightarrow> generate_for_requirements today proposal approval expiry_date reqs cs')"

text \<open>
  \<^verbatim>\<open>Proposal.generate_compliances\<close>, the pass over the requirements that are neither
  deleted nor gross-turnover requirements. \<open>requirements\<close> are the rows of the proposal,
  \<open>cs\<close> is the compliance table. The re-pointing of an amendment's due compliances
  before the pass and \<^verbatim>\<open>generate_gross_turnover_compliances\<close> after it are not part of it.
\<close>

definition generate_compliances ::
  "date \<Rightarrow> nat \<Rightarrow> nat \<Rightarrow> date \<Rightarrow> requirement list \<Rightarrow> compliance list
     \<Rightarrow> (generate_error + compliance list) option" where
  "generate_compliances today proposal approval expiry_date requirements cs =
     generate_for_requirements today proposal approval expiry_date
       (filter (\<lambda>r. \<not> req_is_deleted r \<and> \<not> req_gross_turnover_required r) requirements) cs"

text \<open>A requirement due on 2024-03-15 that recurs every month.\<close>

definition monthly_requirement :: requirement where
  "monthly_requirement = \<lparr>req_id = 2, req_is_deleted = False, req_gross_turnover_required = False,
     req_due_date = Some (Date 2024 3 15), req_recurrence = True, req_recurrence_pattern = 2,
     req_recurrence_schedule = Some 1\<rparr>"

section \<open>Renewal of an approval\<close>

text \<open>
  \<^verbatim>\<open>proposed_issuance_approval\<close> is a JSON object; its two date strings are held as the
  dates that \<^verbatim>\<open>strptime(..., "%Y-%m-%d")\<close> reads from them, \<open>None\<close> when the string is
  missing. The proposal columns are those \<^verbatim>\<open>renew_approval\<close> queries or sets.
\<close>

record issuance =
  pi_details :: "string option"
  pi_approved_on :: "nat option"
  pi_approved_by :: "nat option"
  pi_start_date :: "date option"
  pi_expiry_date :: "date option"

datatype proposal_type = New | Renewal | Amendment

record renewal_proposal =
  np_id :: nat
  np_previous_application :: "nat option"
  np_processing_status :: processing_status
  np_proposal_type :: "proposal_type option"
  np_proposed_issuance_approval :: "issuance option"

datatype renew_error =
    AlreadyLodged string
  | MultipleProposals
  | ProposalMissing
  | IssuanceMissing
  | RenewDateError date_error

definition fresh_id :: "renewal_proposal list \<Rightarrow> nat" where
  "fresh_id db = Suc (fold max (map np_id db) 0)"

text \<open>
  \<^verbatim>\<open>Proposal.renew_approval\<close>, inside \<^verbatim>\<open>transaction.atomic()\<close>. The clone is created
  with the default status \<^verbatim>\<open>draft\<close> and \<^verbatim>\<open>previous_application\<close> set; the copies of
  geometry, documents, groups and requirements do not touch the dates and are left out.
\<close>

definition renew_approval ::
  "renewal_proposal \<Rightarrow> renewal_proposal list
     \<Rightarrow> renew_error + renewal_proposal \<times> renewal_proposal list" where
  "renew_approval self db =
     (case filter (\<lambda>p. np_previous_application p = Some (np_id self)
                        \<and> np_processing_status p = WithAssessor) db of
        [p] \<Rightarrow> Inl (AlreadyLodged
          ''A renewal/ amendment for this licence has already been lodged and is awaiting review.'')
      | p # q # ps \<Rightarrow> Inl MultipleProposals
      | [] \<Rightarrow>
          (case filter (\<lambda>p. np_id p = np_id self) db of
             [] \<Rightarrow> Inl ProposalMissing
           | p # q # ps \<Rightarrow> Inl MultipleProposals
           | [previous_proposal] \<Rightarrow>
               (case np_proposed_issuance_approval previous_proposal of
                  None \<Rightarrow> Inl IssuanceMissing
                | Some proposed_issuance \<Rightarrow>
                    (case (pi_start_date proposed_issuance, pi_expiry_date proposed_issuance) of
                       (Some original_start_date, Some original_expiry_date) \<Rightarrow>
                         (case add_days original_expiry_date 1 of
                            Inl e \<Rightarrow> Inl (RenewDateError e)
                          | Inr start_date \<Rightarrow>
                              (case add_days original_expiry_date
                                      (diff_days original_expiry_date original_start_date) of
                                 Inl e \<Rightarrow> Inl (RenewDateError e)
                               | Inr expiry_date \<Rightarrow>
                                   let proposal =
                                     \<lparr>np_id = fresh_id db,
                                      np_previous_application = Some (np_id previous_proposal),
                                      np_processing_status = Draft,
                                      np_proposal_type = Some Renewal,
                                      np_proposed_issuance_approval =
                                        Some (proposed_issuance
                                          \<lparr>pi_details := None, pi_approved_on := None,
                                           pi_approved_by := None,
                                           pi_start_date := Some start_date,
                                           pi_expiry_date := Some expiry_date\<rparr>)\<rparr>
                                   in Inr (proposal, db @ [proposal])))
                     | _ \<Rightarrow> Inl IssuanceMissing))))"

text \<open>An approved proposal for the period 2024-01-01 to 2024-12-31.\<close>

definition proposal_2024 :: renewal_proposal where
  "proposal_2024 = \<lparr>np_id = 1, np_previous_application = None, np_processing_status = Approved,
     np_proposal_type = Some New,
     np_proposed_issuance_approval = Some \<lparr>pi_details = Some ''ok'', pi_approved_on = Some 100,
       pi_approved_by = Some 3, pi_start_date = Some (Date 2024 1 1),
       pi_expiry_date = Some (Date 2024 12 31)\<rparr>\<rparr>"

section \<open>Gross turnover requirements\<close>

text \<open>
  The settings constants that \<^verbatim>\<open>update_gross_turnover_requirements\<close> compares keys and
  codes with. Their values are not part of the sources at hand and are taken as given.
\<close>

record settings =
  CHARGE_METHOD_PERCENTAGE_OF_GROSS_TURNOVER_IN_ADVANCE :: string
  CHARGE_METHOD_PERCENTAGE_OF_GROSS_TURNOVER_IN_ARREARS :: string
  REPETITION_TYPE_QUARTERLY :: string
  REPETITION_TYPE_MONTHLY :: string
  INVOICING_PERCENTAGE_GROSS_TURNOVER_ANNUALLY :: string
  INVOICING_PERCENTAGE_GROSS_TURNOVER_QUARTERLY :: string
  INVOICING_PERCENTAGE_GROSS_TURNOVER_MONTHLY :: string

text \<open>
  The rows of \<^verbatim>\<open>ProposalStandardRequirement\<close> and \<^verbatim>\<open>ProposalRequirement\<close>, and what the
  method reads through \<^verbatim>\<open>self.invoicing_details\<close>: the keys of the charge method and of
  the invoicing repetition type, \<^verbatim>\<open>invoicing_details.approval.current_proposal\<close> and
  \<^verbatim>\<open>invoicing_details.proposal.approval.start_date\<close>, each \<open>None\<close> when a foreign key on
  the way is null.
\<close>

record standard_requirement =
  sr_id :: nat
  sr_code :: string
  sr_gross_turnover_required :: bool

record proposal_requirement =
  pr_id :: nat
  pr_proposal :: nat
  pr_standard_requirement :: "nat option"
  pr_is_deleted :: bool
  pr_due_date :: "date option"
  pr_reminder_date :: "date option"
  pr_recurrence :: bool
  pr_recurrence_pattern :: int
  pr_recurrence_schedule :: "int option"
  pr_req_order :: "int option"

record invoicing_details =
  charge_method_key :: "string option"
  invoicing_repetition_type_key :: "string option"
  approval_current_proposal :: "nat option"
  proposal_approval_start_date :: "date option"

record requirements_db =
  standard_requirements :: "standard_requirement list"
  proposal_requirements :: "proposal_requirement list"

datatype requirement_error =
    NoneAttributeError
  | StandardRequirementDoesNotExist
  | StandardRequirementMultipleObjectsReturned
  | RequirementMultipleObjectsReturned
  | ReminderDateError date_error

text \<open>The joins \<^verbatim>\<open>standard_requirement__code\<close> and \<^verbatim>\<open>standard_requirement__in\<close>.\<close>

definition standard_requirement_of ::
  "requirements_db \<Rightarrow> proposal_requirement \<Rightarrow> standard_requirement option" where
  "standard_requirement_of db r =
     (case pr_standard_requirement r of
        None \<Rightarrow> None
      | Some k \<Rightarrow> find (\<lambda>s. sr_id s = k) (standard_requirements db))"

definition standard_requirement_code :: "requirements_db \<Rightarrow> proposal_requirement \<Rightarrow> string option" where
  "standard_requirement_code db r = map_option sr_code (standard_requirement_of db r)"

definition is_gross_turnover_requirement :: "requirements_db \<Rightarrow> proposal_requirement \<Rightarrow> bool" where
  "is_gross_turnover_requirement db r =
     (case standard_requirement_of db r of
        None \<Rightarrow> False
      | Some s \<Rightarrow> sr_gross_turnover_required s)"

text \<open>\<^verbatim>\<open>ProposalStandardRequirement.objects.get(code=...)\<close>\<close>

definition get_standard_requirement ::
  "requirements_db \<Rightarrow> string \<Rightarrow> requirement_error + standard_requirement" where
  "get_standard_requirement db code =
     (case filter (\<lambda>s. sr_code s = code) (standard_requirements db) of
        [] \<Rightarrow> Inl StandardRequirementDoesNotExist
      | [s] \<Rightarrow> Inr s
      | _ \<Rightarrow> Inl StandardRequirementMultipleObjectsReturned)"

text \<open>\<^verbatim>\<open>ProposalRequirement.objects.filter(...).update(is_deleted=True)\<close>\<close>

definition update_is_deleted ::
  "(proposal_requirement \<Rightarrow> bool) \<Rightarrow> requirements_db \<Rightarrow> requirements_db" where
  "update_is_deleted selected db =
     db\<lparr>proposal_requirements :=
          map (\<lambda>r. if selected r then r\<lparr>pr_is_deleted := True\<rparr> else r) (proposal_requirements db)\<rparr>"

text \<open>
  \<^verbatim>\<open>ProposalRequirement.save\<close> of a new row takes the next primary key and sets
  \<^verbatim>\<open>req_order\<close> to one more than the largest order of the proposal, or to 1 when that
  is null or zero; of a row read from the table it replaces the row with its key.
\<close>

definition next_req_order :: "nat \<Rightarrow> requirements_db \<Rightarrow> int" where
  "next_req_order proposal db =
     (let orders = List.map_filter
            (\<lambda>r. if pr_proposal r = proposal then pr_req_order r else None)
            (proposal_requirements db)
      in case orders of
           [] \<Rightarrow> 1
         | x # xs \<Rightarrow> (let max_req_order = fold max xs x
                      in if max_req_order = 0 then 1 else max_req_order + 1))"

definition next_requirement_id :: "requirements_db \<Rightarrow> nat" where
  "next_requirement_id db = Suc (fold max (map pr_id (proposal_requirements db)) 0)"

definition save_requirement :: "proposal_requirement \<Rightarrow> requirements_db \<Rightarrow> requirements_db" where
  "save_requirement obj db =
     db\<lparr>proposal_requirements :=
          map (\<lambda>r. if pr_id r = pr_id obj then obj else r) (proposal_requirements db)\<rparr>"

text \<open>
  \<^verbatim>\<open>ProposalRequirement.objects.get_or_create(proposal=self, standard_requirement=sr)\<close>,
  with \<^verbatim>\<open>is_deleted=False\<close> among the lookups when \<open>not_deleted\<close> is set. The other
  columns of a created row take their defaults.
\<close>

definition get_or_create_requirement ::
  "nat \<Rightarrow> standard_requirement \<Rightarrow> bool \<Rightarrow> requirements_db
     \<Rightarrow> requirement_error + proposal_requirement \<times> bool \<times> requirements_db" where
  "get_or_create_requirement self sr not_deleted db =
     (case filter (\<lambda>r. pr_proposal r = self \<and> pr_standard_requirement r = Some (sr_id sr)
                       \<and> (not_deleted \<longrightarrow> \<not> pr_is_deleted r)) (proposal_requirements db) of
        [] \<Rightarrow>
          let obj = \<lparr>pr_id = next_requirement_id db, pr_proposal = self,
                     pr_standard_requirement = Some (sr_id sr), pr_is_deleted = False,
                     pr_due_date = None, pr_reminder_date = None, pr_recurrence = False,
                     pr_recurrence_pattern = 1, pr_recurrence_schedule = None,
                     pr_req_order = Some (next_req_order self db)\<rparr>
          in Inr (obj, True, db\<lparr>proposal_requirements := proposal_requirements db @ [obj]\<rparr>)
      | [obj] \<Rightarrow> Inr (obj, False, db)
      | _ \<Rightarrow> Inl RequirementMultipleObjectsReturned)"

text \<open>
  One cadence branch of the arrears case: the requirements of the other cadence's code, of
  \<^verbatim>\<open>invoicing_details.approval.current_proposal\<close> and not yet deleted, are marked deleted;
  the requirement of this cadence's code is fetched or created for \<^verbatim>\<open>self\<close> and, when
  it was there, marked not deleted. An exception leaves what was written before it, so an
  error comes with the database at that point.
\<close>

definition ensure_cadence_requirement ::
  "string \<Rightarrow> string \<Rightarrow> nat \<Rightarrow> invoicing_details \<Rightarrow> requirements_db
     \<Rightarrow> requirement_error \<times> requirements_db + requirements_db" where
  "ensure_cadence_requirement other_code this_code self invoicing_details db =
     (case approval_current_proposal invoicing_details of
        None \<Rightarrow> Inl (NoneAttributeError, db)
      | Some current_proposal \<Rightarrow>
          let db1 = update_is_deleted
                (\<lambda>r. standard_requirement_code db r = Some other_code
                      \<and> pr_proposal r = current_proposal \<and> \<not> pr_is_deleted r) db
          in case get_standard_requirement db1 this_code of
               Inl e \<Rightarrow> Inl (e, db1)
             | Inr turnover_requirement \<Rightarrow>
                 (case get_or_create_requirement self turnover_requirement False db1 of
                    Inl e \<Rightarrow> Inl (e, db1)
                  | Inr (obj, created, db2) \<Rightarrow>
                      if \<not> created
                      then Inr (save_requirement (obj\<lparr>pr_is_deleted := False\<rparr>) db2)
                      else Inr db2))"

text \<open>
  The end of the method: the annual requirement, not deleted, is fetched or created for
  \<^verbatim>\<open>self\<close> and its dates and recurrence are set. \<^verbatim>\<open>end_of_next_financial_year\<close> is a
  helper of the invoicing utilities, given as a parameter.
\<close>

definition ensure_annual_requirement ::
  "settings \<Rightarrow> (date \<Rightarrow> date) \<Rightarrow> nat \<Rightarrow> invoicing_details \<Rightarrow> requirements_db
     \<Rightarrow> requirement_error \<times> requirements_db + requirements_db" where
  "ensure_annual_requirement st end_of_next_financial_year self invoicing_details db =
     (case proposal_approval_start_date invoicing_details of
        None \<Rightarrow> Inl (NoneAttributeError, db)
      | Some start_date \<Rightarrow>
          let end_of_first_financial_year = end_of_next_financial_year start_date;
              first_annual_due_date = Date (year end_of_first_financial_year) 10 31
          in case get_standard_requirement db (INVOICING_PERCENTAGE_GROSS_TURNOVER_ANNUALLY st) of
               Inl e \<Rightarrow> Inl (e, db)
             | Inr annual_turnover_requirement \<Rightarrow>
                 (case get_or_create_requirement self annual_turnover_requirement True db of
                    Inl e \<Rightarrow> Inl (e, db)
                  | Inr (obj, created, db1) \<Rightarrow>
                      (case add_days end_of_first_financial_year 1 of
                         Inl e \<Rightarrow> Inl (ReminderDateError e, db1)
                       | Inr reminder_date \<Rightarrow>
                           Inr (save_requirement
                                 (obj\<lparr>pr_due_date := Some first_annual_due_date,
                                      pr_reminder_date := Some reminder_date,
                                      pr_recurrence := True,
                                      pr_recurrence_pattern := 3,
                                      pr_recurrence_schedule := Some 1\<rparr>) db1))))"

text \<open>\<^verbatim>\<open>Proposal.update_gross_turnover_requirements\<close>\<close>

definition update_gross_turnover_requirements ::
  "settings \<Rightarrow> (date \<Rightarrow> date) \<Rightarrow> nat \<Rightarrow> invoicing_details \<Rightarrow> requirements_db
     \<Rightarrow> requirement_error \<times> requirements_db + requirements_db" where
  "update_gross_turnover_requirements st end_of_next_financial_year self invoicing_details db =
     (case charge_method_key invoicing_details of
        None \<Rightarrow> Inl (NoneAttributeError, db)
      | Some key \<Rightarrow>
          if key \<notin> set [CHARGE_METHOD_PERCENTAGE_OF_GROSS_TURNOVER_IN_ADVANCE st,
                          CHARGE_METHOD_PERCENTAGE_OF_GROSS_TURNOVER_IN_ARREARS st]
          then case approval_current_proposal invoicing_details of
                 None \<Rightarrow> Inl (NoneAttributeError, db)
               | Some current_proposal \<Rightarrow>
                   Inr (update_is_deleted
                         (\<lambda>r. is_gross_turnover_requirement db r
                               \<and> pr_proposal r = current_proposal) db)
          else
            let db1 =
                  (if key = CHARGE_METHOD_PERCENTAGE_OF_GROSS_TURNOVER_IN_ADVANCE st
                   then update_is_deleted
                          (\<lambda>r. standard_requirement_code db r \<in>
                                  Some ` set [INVOICING_PERCENTAGE_GROSS_TURNOVER_MONTHLY st,
                                              INVOICING_PERCENTAGE_GROSS_TURNOVER_QUARTERLY st]) db
                   else db)
            in case
                 (if key = CHARGE_METHOD_PERCENTAGE_OF_GROSS_TURNOVER_IN_ARREARS st
                  then case invoicing_repetition_type_key invoicing_details of
                         None \<Rightarrow> Inl (NoneAttributeError, db1)
                       | Some repetition \<Rightarrow>
                           if repetition = REPETITION_TYPE_QUARTERLY st
                           then ensure_cadence_requirement
                                  (INVOICING_PERCENTAGE_GROSS_TURNOVER_MONTHLY st)
                                  (INVOICING_PERCENTAGE_GROSS_TURNOVER_QUARTERLY st)
                                  self invoicing_details db1
                           else if repetition = REPETITION_TYPE_MONTHLY st
                           then ensure_cadence_requirement
                                  (INVOICING_PERCENTAGE_GROSS_TURNOVER_QUARTERLY st)
                                  (INVOICING_PERCENTAGE_GROSS_TURNOVER_MONTHLY st)
                                  self invoicing_details db1
                           else Inr db1
                  else Inr db1)
               of
                 Inl e \<Rightarrow> Inl e
               | Inr db2 \<Rightarrow>
                   ensure_annual_requirement st end_of_next_financial_year self
                     invoicing_details db2)"

text \<open>
  Primary keys are unique, and a later table keeps the rows of an earlier one when every
  row is still there, at its place, with its key, its proposal and its standard requirement.
\<close>

definition primary_keys_distinct :: "requirements_db \<Rightarrow> bool" where
  "primary_keys_distinct db =
     (distinct (map pr_id (proposal_requirements db))
      \<and> distinct (map sr_id (standard_requirements db)))"

definition same_key :: "proposal_requirement \<Rightarrow> proposal_requirement \<Rightarrow> bool" where
  "same_key r r' =
     (pr_id r' = pr_id r \<and> pr_proposal r' = pr_proposal r
      \<and> pr_standard_requirement r' = pr_standard_requirement r)"

definition keeps_rows :: "requirements_db \<Rightarrow> requirements_db \<Rightarrow> bool" where
  "keeps_rows db db' =
     (length (proposal_requirements db) \<le> length (proposal_requirements db')
      \<and> (\<forall>i<length (proposal_requirements db).
            same_key (proposal_requirements db ! i) (proposal_requirements db' ! i)))"

text \<open>
  Settings, standard requirements and an end-of-financial-year helper (30 June next after
  the date) to run the method on.
\<close>

definition settings_example :: settings where
  "settings_example =
     \<lparr>CHARGE_METHOD_PERCENTAGE_OF_GROSS_TURNOVER_IN_ADVANCE = ''percentage_of_gross_turnover_in_advance'',
      CHARGE_METHOD_PERCENTAGE_OF_GROSS_TURNOVER_IN_ARREARS = ''percentage_of_gross_turnover'',
      REPETITION_TYPE_QUARTERLY = ''quarterly'',
      REPETITION_TYPE_MONTHLY = ''monthly'',
      INVOICING_PERCENTAGE_GROSS_TURNOVER_ANNUALLY = ''annual_turnover'',
      INVOICING_PERCENTAGE_GROSS_TURNOVER_QUARTERLY = ''quarterly_turnover'',
      INVOICING_PERCENTAGE_GROSS_TURNOVER_MONTHLY = ''monthly_turnover''\<rparr>"

definition standard_requirements_example :: "standard_requirement list" where
  "standard_requirements_example =
     [\<lparr>sr_id = 1, sr_code = ''annual_turnover'', sr_gross_turnover_required = True\<rparr>,
      \<lparr>sr_id = 2, sr_code = ''quarterly_turnover'', sr_gross_turnover_required = True\<rparr>,
      \<lparr>sr_id = 3, sr_code = ''monthly_turnover'', sr_gross_turnover_required = True\<rparr>]"

definition end_of_financial_year_example :: "date \<Rightarrow> date" where
  "end_of_financial_year_example d = Date (if month d \<le> 6 then year d else year d + 1) 6 30"

definition quarterly_row :: "nat \<Rightarrow> nat \<Rightarrow> proposal_requirement" where
  "quarterly_row k proposal =
     \<lparr>pr_id = k, pr_proposal = proposal, pr_standard_requirement = Some 2, pr_is_deleted = False,
      pr_due_date = Some (Date 2024 10 30), pr_reminder_date = Some (Date 2024 7 1),
      pr_recurrence = True, pr_recurrence_pattern = 2, pr_recurrence_schedule = Some 3,
      pr_req_order = Some 1\<rparr>"

definition requirements_example :: requirements_db where
  "requirements_example =
     \<lparr>standard_requirements = standard_requirements_example,
      proposal_requirements = [quarterly_row 1 10, quarterly_row 2 20]\<rparr>"

definition arrears_monthly :: invoicing_details where
  "arrears_monthly =
     \<lparr>charge_method_key = Some ''percentage_of_gross_turnover'',
      invoicing_repetition_type_key = Some ''monthly'',
      approval_current_proposal = Some 10,
      proposal_approval_start_date = Some (Date 2024 2 1)\<rparr>"

definition in_advance :: invoicing_details where
  "in_advance =
     \<lparr>charge_method_key = Some ''percentage_of_gross_turnover_in_advance'',
      invoicing_repetition_type_key = Some ''annually'',
      approval_current_proposal = Some 10,
      proposal_approval_start_date = Some (Date 2024 2 1)\<rparr>"

section \<open>Issuing an approval\<close>

text \<open>
  What \<^verbatim>\<open>Proposal.final_approval\<close> reads and writes. A document attached by the assessor
  (\<^verbatim>\<open>LeaseLicenceApprovalDocument\<close>) carries its approval type and the three flags of its
  document type. The \<^verbatim>\<open>details\<close> of the request and the stored
  \<^verbatim>\<open>proposed_issuance_approval\<close> are JSON objects; a missing or empty entry is \<open>None\<close>,
  a date string is the date it parses to with \<^verbatim>\<open>"%Y-%m-%d"\<close> or is unreadable.
\<close>

datatype application_type = RegistrationOfInterest | LeaseLicence | OtherApplicationType

datatype date_string = DateString date | UnreadableDateString

record document_type =
  is_license_document :: bool
  is_cover_letter :: bool
  is_sign_off_sheet :: bool

record approval_document =
  ld_id :: nat
  ld_proposal :: nat
  ld_approval_type :: nat
  ld_document_type_id :: nat
  ld_document_type :: document_type

record approval_details =
  ad_details :: "string option"
  ad_decision :: "string option"
  ad_approval_type :: "nat option"
  ad_start_date :: "date_string option"
  ad_expiry_date :: "date_string option"
  ad_record_management_number :: "string option"

record proposed_issuance =
  fi_details :: "string option"
  fi_decision :: "string option"
  fi_approval_type :: "nat option"
  fi_start_date :: "date_string option"
  fi_expiry_date :: "date_string option"
  fi_record_management_number :: "string option"
  fi_assessed_by :: "nat option"
  fi_approved_by :: "nat option"

record approval_proposal = applicant_fields +
  fp_id :: nat
  fp_proposal_type :: "proposal_type option"
  fp_application_type :: application_type
  fp_processing_status :: processing_status
  fp_proposed_decline_status :: bool
  fp_proposed_issuance_approval :: "proposed_issuance option"
  fp_applicant_address :: bool
  fp_previous_application :: "nat option"
  fp_generated_proposal :: "nat option"
  fp_generated_competitive_process :: "nat option"
  fp_approval :: "nat option"
  fp_invoicing_details :: "nat option"
  fp_approved_by :: "nat option"

record approval =
  ap_id :: nat
  ap_current_proposal :: nat
  ap_start_date :: "date option"
  ap_expiry_date :: "date option"
  ap_approval_type :: "nat option"
  ap_lodgement_number :: nat
  ap_record_management_number :: "string option"
  ap_licence_document :: "nat option"
  ap_cover_letter_document :: "nat option"
  ap_sign_off_sheet_document :: "nat option"

record approval_request =
  rq_user :: nat
  rq_in_assessor_group :: bool
  rq_in_approver_group :: bool

record approval_db =
  fd_proposals :: "approval_proposal list"
  fd_approvals :: "approval list"
  fd_competitive_processes :: "nat list"
  fd_invoicing_details :: "nat list"
  fd_documents :: "approval_document list"
  fd_approval_types :: "nat list"
  fd_mandatory_document_types :: "(nat \<times> nat) list"
  fd_action_log :: "nat list"

text \<open>
  The exceptions. \<^verbatim>\<open>ExactlyOne c n\<close> is the \<^verbatim>\<open>ValidationError\<close> of
  \<^verbatim>\<open>generate_license_documents\<close>, "There must be exactly one \<open>c\<close> for
  \<open>approval type\<close>, but found \<open>n\<close>.", with \<open>c\<close> one of "license document",
  "cover letter" and "sign-off sheet".
\<close>

datatype document_category = LicenseDocument | CoverLetter | SignOffSheet

datatype approval_error =
    ProposalNotAuthorized
  | ValidationError string
  | ExactlyOne document_category nat
  | SerializerValidationError "string list"
  | NoneAttributeAccess
  | ApprovalTypeDoesNotExist
  | ApprovalMultipleObjectsReturned
  | ProposalApplicantDoesNotExist
  | StrptimeError
  | DateOutOfRange date_error
  | GenerateCompliancesError

definition category_name :: "document_category \<Rightarrow> string" where
  "category_name c =
     (case c of LicenseDocument \<Rightarrow> ''license document''
              | CoverLetter \<Rightarrow> ''cover letter''
              | SignOffSheet \<Rightarrow> ''sign-off sheet'')"

text \<open>
  \<^verbatim>\<open>Proposal.can_assess\<close>. The two further assessor statuses it names, \<^verbatim>\<open>on_hold\<close>
  and \<^verbatim>\<open>with_qa_officer\<close>, are not among the declared processing statuses.
\<close>

definition can_assess :: "approval_proposal \<Rightarrow> approval_request \<Rightarrow> bool" where
  "can_assess self request =
     (if fp_processing_status self \<in> set [WithAssessor, WithReferral, WithReferralConditions,
                                             WithAssessorConditions]
      then rq_in_assessor_group request
      else if fp_processing_status self = WithApprover then rq_in_approver_group request
      else False)"

text \<open>\<^verbatim>\<open>self.save()\<close> and \<^verbatim>\<open>approval.save()\<close>: the row with the key is replaced.\<close>

definition save_proposal :: "approval_proposal \<Rightarrow> approval_db \<Rightarrow> approval_db" where
  "save_proposal p db =
     db\<lparr>fd_proposals := map (\<lambda>x. if fp_id x = fp_id p then p else x) (fd_proposals db)\<rparr>"

definition save_approval :: "approval \<Rightarrow> approval_db \<Rightarrow> approval_db" where
  "save_approval a db =
     db\<lparr>fd_approvals := map (\<lambda>x. if ap_id x = ap_id a then a else x) (fd_approvals db)\<rparr>"

definition truthy_string :: "string option \<Rightarrow> bool" where
  "truthy_string v = (case v of None \<Rightarrow> False | Some s \<Rightarrow> s \<noteq> [])"

text \<open>
  \<^verbatim>\<open>Proposal.store_proposed_approval_data\<close>: the input checks, the stored values, the
  check of the mandatory documents of the approval type, the approver stamp, and the save.
\<close>

definition input_errors :: "approval_proposal \<Rightarrow> approval_details \<Rightarrow> string list" where
  "input_errors self details =
     (if \<not> truthy_string (ad_details details) then [''You must add details text''] else [])
     @ (if fp_application_type self = RegistrationOfInterest
           \<and> \<not> truthy_string (ad_decision details)
        then [''You must choose a decision radio button'']
        else if fp_application_type self = LeaseLicence
        then (if ad_approval_type details = None then [''You must select an Approval Type'']
              else [])
           @ (if ad_start_date details = None then [''You must select a Start Date''] else [])
           @ (if ad_expiry_date details = None then [''You must select an Expiry Date''] else [])
        else [])"

definition missing_mandatory_documents ::
  "approval_proposal \<Rightarrow> approval_details \<Rightarrow> approval_db \<Rightarrow> (nat \<times> nat) list" where
  "missing_mandatory_documents self details db =
     filter (\<lambda>(approval_type, document_type).
               Some approval_type = ad_approval_type details
               \<and> \<not> (\<exists>d\<in>set (fd_documents db). ld_proposal d = fp_id self
                        \<and> ld_approval_type d = approval_type
                        \<and> ld_document_type_id d = document_type))
       (fd_mandatory_document_types db)"

definition store_proposed_approval_data ::
  "approval_proposal \<Rightarrow> approval_request \<Rightarrow> approval_details \<Rightarrow> approval_db
     \<Rightarrow> approval_error + approval_proposal \<times> approval_db" where
  "store_proposed_approval_data self request details db =
     (if input_errors self details \<noteq> [] then Inl (SerializerValidationError (input_errors self details))
      else
        let stored =
              (if fp_application_type self = RegistrationOfInterest
               then Some \<lparr>fi_details = ad_details details, fi_decision = ad_decision details,
                          fi_approval_type = None, fi_start_date = None, fi_expiry_date = None,
                          fi_record_management_number = ad_record_management_number details,
                          fi_assessed_by = None, fi_approved_by = None\<rparr>
               else if fp_application_type self = LeaseLicence
               then Some \<lparr>fi_details = ad_details details, fi_decision = None,
                          fi_approval_type = ad_approval_type details,
                          fi_start_date = ad_start_date details,
                          fi_expiry_date = ad_expiry_date details,
                          fi_record_management_number = ad_record_management_number details,
                          fi_assessed_by = None, fi_approved_by = None\<rparr>
               else fp_proposed_issuance_approval self)
        in if fp_application_type self = LeaseLicence
              \<and> missing_mandatory_documents self details db \<noteq> []
           then Inl (SerializerValidationError
                  (map (\<lambda>m. ''Missing mandatory document/s'')
                     (missing_mandatory_documents self details db)))
           else
             case stored of
               None \<Rightarrow>
                 if fp_processing_status self \<in> set [WithAssessor, WithAssessorConditions,
                                                         WithApprover]
                 then Inl NoneAttributeAccess
                 else Inr (self, save_proposal self db)
             | Some issuance \<Rightarrow>
                 let issuance1 =
                       (if fp_processing_status self \<in> set [WithAssessor, WithAssessorConditions]
                        then issuance\<lparr>fi_assessed_by := Some (rq_user request)\<rparr>
                        else issuance);
                     issuance2 =
                       (if fp_processing_status self = WithApprover
                        then issuance1\<lparr>fi_approved_by := Some (rq_user request)\<rparr>
                        else issuance1);
                     self1 = self\<lparr>fp_proposed_issuance_approval := Some issuance2\<rparr>
                 in Inr (self1, save_proposal self1 db))"

text \<open>
  \<^verbatim>\<open>Proposal.generate_license_documents\<close>: the documents of the proposal whose approval
  type is the approval's are sorted by the first flag that holds, and each of the three
  lists must have exactly one element.
\<close>

definition documents_in_category ::
  "approval_db \<Rightarrow> approval_proposal \<Rightarrow> nat option \<Rightarrow> document_category \<Rightarrow> approval_document list" where
  "documents_in_category db self approval_type c =
     filter (\<lambda>d. ld_proposal d = fp_id self \<and> Some (ld_approval_type d) = approval_type
                  \<and> (case c of
                        LicenseDocument \<Rightarrow> is_license_document (ld_document_type d)
                      | CoverLetter \<Rightarrow> \<not> is_license_document (ld_document_type d)
                                          \<and> is_cover_letter (ld_document_type d)
                      | SignOffSheet \<Rightarrow> \<not> is_license_document (ld_document_type d)
                                          \<and> \<not> is_cover_letter (ld_document_type d)
                                          \<and> is_sign_off_sheet (ld_document_type d)))
       (fd_documents db)"

definition generate_license_documents ::
  "approval_proposal \<Rightarrow> approval \<Rightarrow> approval_db \<Rightarrow> approval_error + approval" where
  "generate_license_documents self approval db =
     (let license_documents = documents_in_category db self (ap_approval_type approval) LicenseDocument;
          cover_letter = documents_in_category db self (ap_approval_type approval) CoverLetter;
          sign_off_sheets = documents_in_category db self (ap_approval_type approval) SignOffSheet
      in if length license_documents \<noteq> 1
         then Inl (ExactlyOne LicenseDocument (length license_documents))
         else if length cover_letter \<noteq> 1
         then Inl (ExactlyOne CoverLetter (length cover_letter))
         else if length sign_off_sheets \<noteq> 1
         then Inl (ExactlyOne SignOffSheet (length sign_off_sheets))
         else Inr (approval\<lparr>ap_licence_document := Some (ld_id (hd license_documents)),
                            ap_cover_letter_document := Some (ld_id (hd cover_letter)),
                            ap_sign_off_sheet_document := Some (ld_id (hd sign_off_sheets))\<rparr>))"

text \<open>
  \<^verbatim>\<open>Approval.objects.update_or_create(current_proposal=..., defaults=...)\<close>: \<open>set_defaults\<close>
  writes the defaults into the row found or into a new row.
\<close>

definition next_approval_id :: "approval_db \<Rightarrow> nat" where
  "next_approval_id db = Suc (fold max (map ap_id (fd_approvals db)) 0)"

definition update_or_create_approval ::
  "nat \<Rightarrow> (approval \<Rightarrow> approval) \<Rightarrow> approval_db \<Rightarrow> approval_error + approval \<times> approval_db" where
  "update_or_create_approval current_proposal set_defaults db =
     (case filter (\<lambda>a. ap_current_proposal a = current_proposal) (fd_approvals db) of
        [] \<Rightarrow>
          let a = set_defaults
                \<lparr>ap_id = next_approval_id db, ap_current_proposal = current_proposal,
                 ap_start_date = None, ap_expiry_date = None, ap_approval_type = None,
                 ap_lodgement_number = next_approval_id db, ap_record_management_number = None,
                 ap_licence_document = None, ap_cover_letter_document = None,
                 ap_sign_off_sheet_document = None\<rparr>
          in Inr (a, db\<lparr>fd_approvals := fd_approvals db @ [a]\<rparr>)
      | [a] \<Rightarrow> Inr (set_defaults a, save_approval (set_defaults a) db)
      | _ \<Rightarrow> Inl ApprovalMultipleObjectsReturned)"

definition parse_date :: "date_string option \<Rightarrow> approval_error + date" where
  "parse_date v =
     (case v of
        None \<Rightarrow> Inl NoneAttributeAccess
      | Some UnreadableDateString \<Rightarrow> Inl StrptimeError
      | Some (DateString d) \<Rightarrow> Inr d)"

text \<open>
  \<^verbatim>\<open>Proposal.generate_invoicing_details\<close> and \<^verbatim>\<open>Proposal.generate_competitive_process\<close>:
  each refuses a second generation.
\<close>

definition generate_invoicing_details ::
  "approval_proposal \<Rightarrow> approval_db \<Rightarrow> approval_error + approval_proposal \<times> approval_db" where
  "generate_invoicing_details self db =
     (if fp_invoicing_details self \<noteq> None
      then Inl (ValidationError ''Couldn't generate an invoicing details.'')
      else
        let new_id = Suc (fold max (fd_invoicing_details db) 0);
            self1 = self\<lparr>fp_invoicing_details := Some new_id\<rparr>
        in Inr (self1, save_proposal self1
                  (db\<lparr>fd_invoicing_details := fd_invoicing_details db @ [new_id]\<rparr>)))"

definition generate_competitive_process ::
  "approval_proposal \<Rightarrow> approval_db \<Rightarrow> approval_error + approval_proposal \<times> approval_db" where
  "generate_competitive_process self db =
     (if fp_generated_competitive_process self \<noteq> None
      then Inl (ValidationError ''Couldn't generate a competitive process.'')
      else
        let new_id = Suc (fold max (fd_competitive_processes db) 0);
            self1 = self\<lparr>fp_generated_competitive_process := Some new_id\<rparr>
        in Inr (self1, save_proposal self1
                  (db\<lparr>fd_competitive_processes := fd_competitive_processes db @ [new_id]\<rparr>)))"

text \<open>
  \<^verbatim>\<open>Proposal.create_lease_licence_from_registration_of_interest\<close>: a new lease/licence
  proposal with the applicants and the proposal type of this one. Without an organisation
  applicant the \<^verbatim>\<open>ProposalApplicant\<close> row of this proposal is copied; \<open>has_applicant_row\<close>
  says whether that row exists. Geometry, site name, groups and GIS data are copied to the
  new proposal and are not part of this state.
\<close>

definition next_proposal_id :: "approval_db \<Rightarrow> nat" where
  "next_proposal_id db = Suc (fold max (map fp_id (fd_proposals db)) 0)"

definition create_lease_licence_from_registration_of_interest ::
  "bool \<Rightarrow> approval_proposal \<Rightarrow> approval_db \<Rightarrow> approval_error + approval_proposal \<times> approval_db" where
  "create_lease_licence_from_registration_of_interest has_applicant_row self db =
     (let lease_licence_proposal =
            \<lparr>org_applicant = org_applicant self, ind_applicant = ind_applicant self,
             proxy_applicant = None, submitter = None,
             fp_id = next_proposal_id db, fp_proposal_type = fp_proposal_type self,
             fp_application_type = LeaseLicence, fp_processing_status = Draft,
             fp_proposed_decline_status = False, fp_proposed_issuance_approval = None,
             fp_applicant_address = fp_applicant_address self,
             fp_previous_application = None, fp_generated_proposal = None,
             fp_generated_competitive_process = None, fp_approval = None,
             fp_invoicing_details = None, fp_approved_by = None\<rparr>
      in if \<not> truthy_fk (org_applicant self) \<and> \<not> has_applicant_row
         then Inl ProposalApplicantDoesNotExist
         else Inr (lease_licence_proposal,
                   db\<lparr>fd_proposals := fd_proposals db @ [lease_licence_proposal]\<rparr>))"

text \<open>
  The branches of \<^verbatim>\<open>final_approval\<close>. \<open>compliances\<close> is the outcome of
  \<^verbatim>\<open>generate_compliances\<close>, modelled above on its own tables: \<open>None\<close> when it returns,
  an error when it raises. Notification emails are left out.
\<close>

definition approval_type_exists :: "approval_db \<Rightarrow> nat option \<Rightarrow> bool" where
  "approval_type_exists db t = (case t of None \<Rightarrow> False | Some k \<Rightarrow> k \<in> set (fd_approval_types db))"

text \<open>Lease/licence, new: the \<^verbatim>\<open># Lease Licence (New)\<close> branch.\<close>

definition issue_new_lease_licence ::
  "approval_error option \<Rightarrow> string option \<Rightarrow> approval_proposal \<Rightarrow> approval_details
     \<Rightarrow> approval_db \<Rightarrow> approval_error + approval_proposal \<times> approval_db" where
  "issue_new_lease_licence compliances record_management_number self details db =
     (if \<not> approval_type_exists db (ad_approval_type details) then Inl ApprovalTypeDoesNotExist
      else case parse_date (ad_expiry_date details) of
        Inl e \<Rightarrow> Inl e
      | Inr expiry_date \<Rightarrow>
        (case parse_date (ad_start_date details) of
           Inl e \<Rightarrow> Inl e
         | Inr start_date \<Rightarrow>
           (case update_or_create_approval (fp_id self)
                   (\<lambda>a. a\<lparr>ap_expiry_date := Some expiry_date, ap_start_date := Some start_date,
                           ap_record_management_number := record_management_number,
                           ap_approval_type := ad_approval_type details\<rparr>) db of
              Inl e \<Rightarrow> Inl e
            | Inr (approval, db1) \<Rightarrow>
              (case generate_license_documents self approval db1 of
                 Inl e \<Rightarrow> Inl e
               | Inr approval1 \<Rightarrow>
                   let db2 = save_approval approval1 db1;
                       self1 = self\<lparr>fp_approval := Some (ap_id approval1)\<rparr>;
                       db3 = save_proposal self1 db2
                   in case compliances of
                        Some e \<Rightarrow> Inl e
                      | None \<Rightarrow>
                        (case generate_invoicing_details self1 db3 of
                           Inl e \<Rightarrow> Inl e
                         | Inr (self2, db4) \<Rightarrow>
                             Inr (self2\<lparr>fp_processing_status := ApprovedEditingInvoicing\<rparr>,
                                  db4))))))"

text \<open>Registration of interest, new: the \<^verbatim>\<open># Registration of Interest (New)\<close> branch.\<close>

definition issue_registration_of_interest ::
  "bool \<Rightarrow> approval_proposal \<Rightarrow> approval_db \<Rightarrow> approval_error + approval_proposal \<times> approval_db" where
  "issue_registration_of_interest has_applicant_row self db =
     (case fp_proposed_issuance_approval self of
        None \<Rightarrow> Inl NoneAttributeAccess
      | Some issuance \<Rightarrow>
          if fi_decision issuance = Some ''approve_lease_licence''
             \<and> fp_generated_proposal self = None
          then case create_lease_licence_from_registration_of_interest has_applicant_row self db of
                 Inl e \<Rightarrow> Inl e
               | Inr (lease_licence, db1) \<Rightarrow>
                   Inr (self\<lparr>fp_generated_proposal := Some (fp_id lease_licence),
                             fp_processing_status := ApprovedApplication\<rparr>, db1)
          else if fi_decision issuance = Some ''approve_competitive_process''
                  \<and> fp_generated_proposal self = None
          then case generate_competitive_process self db of
                 Inl e \<Rightarrow> Inl e
               | Inr (self1, db1) \<Rightarrow>
                   Inr (self1\<lparr>fp_processing_status := ApprovedCompetitiveProcess\<rparr>, db1)
          else Inr (self, db))"

text \<open>Lease/licence, renewal: the \<^verbatim>\<open># Lease License (Renewal)\<close> branch.\<close>

definition issue_renewal ::
  "approval_error option \<Rightarrow> approval_proposal \<Rightarrow> approval_request \<Rightarrow> approval_details
     \<Rightarrow> approval_db \<Rightarrow> approval_error + approval_db" where
  "issue_renewal compliances self request details db =
     (case (fp_previous_application self, fp_approval self) of
        (Some previous, Some approval_id) \<Rightarrow>
          (case find (\<lambda>p. fp_id p = previous) (fd_proposals db) of
             None \<Rightarrow> Inl NoneAttributeAccess
           | Some previous_application \<Rightarrow>
               if fp_approval previous_application = None then Inl NoneAttributeAccess
               else if fp_approval previous_application \<noteq> Some approval_id
               then Inl (ValidationError
                 ''The previous application's approval does not match the current approval.'')
               else if \<not> approval_type_exists db (ad_approval_type details)
               then Inl ApprovalTypeDoesNotExist
               else case find (\<lambda>a. ap_id a = approval_id) (fd_approvals db) of
                 None \<Rightarrow> Inl NoneAttributeAccess
               | Some current \<Rightarrow>
                 (case parse_date (ad_expiry_date details) of
                    Inl e \<Rightarrow> Inl e
                  | Inr expiry_date \<Rightarrow>
                    (case parse_date (ad_start_date details) of
                       Inl e \<Rightarrow> Inl e
                     | Inr start_date \<Rightarrow>
                       (case update_or_create_approval (ap_current_proposal current)
                               (\<lambda>a. a\<lparr>ap_expiry_date := Some expiry_date,
                                       ap_start_date := Some start_date,
                                       ap_current_proposal := fp_id self,
                                       ap_approval_type := ad_approval_type details\<rparr>) db of
                          Inl e \<Rightarrow> Inl e
                        | Inr (approval, db1) \<Rightarrow>
                          (case generate_license_documents self approval db1 of
                             Inl e \<Rightarrow> Inl e
                           | Inr approval1 \<Rightarrow>
                               let db2 = save_approval approval1 db1
                               in case compliances of
                                    Some e \<Rightarrow> Inl e
                                  | None \<Rightarrow>
                                    (case generate_invoicing_details self db2 of
                                       Inl e \<Rightarrow> Inl e
                                     | Inr (self1, db3) \<Rightarrow>
                                         Inr (save_proposal
                                           (self1\<lparr>fp_processing_status := ApprovedEditingInvoicing,
                                                  fp_approved_by := Some (rq_user request)\<rparr>)
                                           db3)))))))
      | _ \<Rightarrow> Inl NoneAttributeAccess)"

text \<open>Lease/licence, amendment: the \<^verbatim>\<open># Lease License (Amendment)\<close> branch.\<close>

definition issue_amendment ::
  "date \<Rightarrow> string option \<Rightarrow> approval_proposal \<Rightarrow> approval_db
     \<Rightarrow> approval_error + approval_db" where
  "issue_amendment today record_management_number self db =
     (case fp_previous_application self of
        None \<Rightarrow> Inr db
      | Some previous \<Rightarrow>
          (case find (\<lambda>p. fp_id p = previous) (fd_proposals db) of
             None \<Rightarrow> Inl NoneAttributeAccess
           | Some previous_application \<Rightarrow>
               (case relativedelta_years_1 today of
                  Inl e \<Rightarrow> Inl (DateOutOfRange e)
                | Inr expiry_date \<Rightarrow>
                    (case fp_approval previous_application of
                       None \<Rightarrow> Inl NoneAttributeAccess
                     | Some previous_approval_id \<Rightarrow>
                         (case find (\<lambda>a. ap_id a = previous_approval_id) (fd_approvals db) of
                            None \<Rightarrow> Inl NoneAttributeAccess
                          | Some previous_approval \<Rightarrow>
                              (case update_or_create_approval (fp_id self)
                                      (\<lambda>a. a\<lparr>ap_expiry_date := Some expiry_date,
                                              ap_start_date := Some today,
                                              ap_lodgement_number :=
                                                ap_lodgement_number previous_approval,
                                              ap_record_management_number :=
                                                record_management_number\<rparr>)
                                      db of
                                 Inl e \<Rightarrow> Inl e
                               | Inr (approval, db1) \<Rightarrow> Inr db1))))))"

text \<open>
  The body of \<^verbatim>\<open>final_approval\<close>. The record management number is read from the
  proposed issuance as stored before the call.
\<close>

definition final_approval_body ::
  "bool \<Rightarrow> approval_error option \<Rightarrow> date \<Rightarrow> approval_proposal \<Rightarrow> approval_request
     \<Rightarrow> approval_details \<Rightarrow> approval_db \<Rightarrow> approval_error + approval_db" where
  "final_approval_body has_applicant_row compliances today self0 request details db =
     (let self = self0\<lparr>fp_proposed_decline_status := False\<rparr>
      in case fp_proposed_issuance_approval self of
        None \<Rightarrow> Inl NoneAttributeAccess
      | Some stored_before \<Rightarrow>
        (case fp_proposal_type self of
           None \<Rightarrow> Inl NoneAttributeAccess
         | Some proposal_type \<Rightarrow>
           if proposal_type \<noteq> Amendment \<and> \<not> can_assess self request
           then Inl ProposalNotAuthorized
           else if proposal_type \<noteq> Amendment \<and> fp_processing_status self \<noteq> WithApprover
           then Inl (ValidationError
                  ''You cannot issue the approval if it is not with an approver'')
           else if proposal_type \<noteq> Amendment \<and> applicant self = NoApplicantString
           then Inl NoneAttributeAccess
           else if proposal_type \<noteq> Amendment \<and> \<not> fp_applicant_address self
           then Inl (ValidationError
                  ''The applicant needs to have set their postal address before approving this proposal.'')
           else
             case store_proposed_approval_data self request details db of
               Inl e \<Rightarrow> Inl e
             | Inr (self1, db1) \<Rightarrow>
                 let db2 = db1\<lparr>fd_action_log := fd_action_log db1 @ [fp_id self1]\<rparr>;
                     record_management_number = fi_record_management_number stored_before
                 in if proposal_type = Renewal \<and> fp_application_type self = LeaseLicence
                    then issue_renewal compliances self1 request details db2
                    else if proposal_type = Amendment \<and> fp_application_type self = LeaseLicence
                    then issue_amendment today record_management_number self1 db2
                    else if proposal_type = New
                    then
                      case
                        (if fp_application_type self = RegistrationOfInterest
                         then issue_registration_of_interest has_applicant_row self1 db2
                         else if fp_application_type self = LeaseLicence
                         then issue_new_lease_licence compliances record_management_number
                                self1 details db2
                         else Inr (self1, db2))
                      of
                        Inl e \<Rightarrow> Inl e
                      | Inr (self3, db3) \<Rightarrow>
                          Inr (save_proposal (self3\<lparr>fp_approved_by := Some (rq_user request)\<rparr>) db3)
                    else Inl (ValidationError
                           ''Proposal or Application type not supported for approval issuance'')))"

text \<open>
  \<^verbatim>\<open>@transaction.atomic()\<close> on \<^verbatim>\<open>final_approval\<close>: the exception is logged and raised
  again, and the database is as it was before the call.
\<close>

definition final_approval ::
  "bool \<Rightarrow> approval_error option \<Rightarrow> date \<Rightarrow> approval_proposal \<Rightarrow> approval_request
     \<Rightarrow> approval_details \<Rightarrow> approval_db \<Rightarrow> (approval_error + unit) \<times> approval_db" where
  "final_approval has_applicant_row compliances today self request details db =
     (case final_approval_body has_applicant_row compliances today self request details db of
        Inl e \<Rightarrow> (Inl e, db)
      | Inr db' \<Rightarrow> (Inr (), db'))"

text \<open>
  A new registration of interest and a new lease/licence proposal, both with the approver;
  the lease/licence proposal has a licence document and a sign-off sheet but no cover letter.
\<close>

definition approver :: approval_request where
  "approver = \<lparr>rq_user = 5, rq_in_assessor_group = False, rq_in_approver_group = True\<rparr>"

definition roi_proposal :: approval_proposal where
  "roi_proposal =
     \<lparr>org_applicant = Some 7, ind_applicant = None, proxy_applicant = None, submitter = Some 9,
      fp_id = 1, fp_proposal_type = Some New, fp_application_type = RegistrationOfInterest,
      fp_processing_status = WithApprover, fp_proposed_decline_status = False,
      fp_proposed_issuance_approval =
        Some \<lparr>fi_details = Some ''ok'', fi_decision = Some ''approve_lease_licence'',
              fi_approval_type = None, fi_start_date = None, fi_expiry_date = None,
              fi_record_management_number = None, fi_assessed_by = Some 4,
              fi_approved_by = None\<rparr>,
      fp_applicant_address = True, fp_previous_application = None,
      fp_generated_proposal = None, fp_generated_competitive_process = None,
      fp_approval = None, fp_invoicing_details = None, fp_approved_by = None\<rparr>"

definition lease_licence_proposal_2 :: approval_proposal where
  "lease_licence_proposal_2 =
     \<lparr>org_applicant = Some 7, ind_applicant = None, proxy_applicant = None, submitter = Some 9,
      fp_id = 2, fp_proposal_type = Some New, fp_application_type = LeaseLicence,
      fp_processing_status = WithApprover, fp_proposed_decline_status = False,
      fp_proposed_issuance_approval =
        Some \<lparr>fi_details = Some ''ok'', fi_decision = None,
              fi_approval_type = Some 1, fi_start_date = Some (DateString (Date 2024 1 1)),
              fi_expiry_date = Some (DateString (Date 2024 12 31)),
              fi_record_management_number = None, fi_assessed_by = Some 4,
              fi_approved_by = None\<rparr>,
      fp_applicant_address = True, fp_previous_application = None,
      fp_generated_proposal = None, fp_generated_competitive_process = None,
      fp_approval = None, fp_invoicing_details = None, fp_approved_by = None\<rparr>"

definition approval_example :: approval_db where
  "approval_example =
     \<lparr>fd_proposals = [roi_proposal, lease_licence_proposal_2],
      fd_approvals = [], fd_competitive_processes = [], fd_invoicing_details = [],
      fd_documents =
        [\<lparr>ld_id = 1, ld_proposal = 2, ld_approval_type = 1, ld_document_type_id = 1,
          ld_document_type = \<lparr>is_license_document = True, is_cover_letter = False,
                               is_sign_off_sheet = False\<rparr>\<rparr>,
         \<lparr>ld_id = 2, ld_proposal = 2, ld_approval_type = 1, ld_document_type_id = 3,
          ld_document_type = \<lparr>is_license_document = False, is_cover_letter = False,
                               is_sign_off_sheet = True\<rparr>\<rparr>],
      fd_approval_types = [1], fd_mandatory_document_types = [(1, 1)], fd_action_log = []\<rparr>"

definition roi_details :: approval_details where
  "roi_details = \<lparr>ad_details = Some ''approved'', ad_decision = Some ''approve_lease_licence'',
     ad_approval_type = None, ad_start_date = None, ad_expiry_date = None,
     ad_record_management_number = None\<rparr>"

definition lease_licence_details :: approval_details where
  "lease_licence_details = \<lparr>ad_details = Some ''approved'', ad_decision = None,
     ad_approval_type = Some 1, ad_start_date = Some (DateString (Date 2024 1 1)),
     ad_expiry_date = Some (DateString (Date 2024 12 31)),
     ad_record_management_number = None\<rparr>"

section \<open>Properties of applicant resolution\<close>

text \<open>
  C9, as stated, at a proposal with both an organisation and an individual applicant:
  \<^verbatim>\<open>relevant_applicant\<close> returns the individual's ledger user, not the organisation;
  and at a proposal with only a submitter \<^verbatim>\<open>applicant\<close> returns the string
  \<^verbatim>\<open>"No Applicant"\<close>, not the submitter.
\<close>

theorem applicant_precedence_counterexample:
  "relevant_applicant \<lparr>org_applicant = Some 7, ind_applicant = Some 3,
      proxy_applicant = None, submitter = Some 9\<rparr> = EmailUser (Some 3)
   \<and> applicant_type \<lparr>org_applicant = Some 7, ind_applicant = Some 3,
      proxy_applicant = None, submitter = Some 9\<rparr> = ''ORG''
   \<and> applicant \<lparr>org_applicant = None, ind_applicant = None,
      proxy_applicant = None, submitter = Some 9\<rparr> = NoApplicantString"
  by (simp add: relevant_applicant_def applicant_type_def applicant_def truthy_int_def
      truthy_fk_def APPLICANT_TYPE_ORGANISATION_def)

text \<open>
  C9, amended: \<^verbatim>\<open>applicant_type\<close> and \<^verbatim>\<open>applicant_field\<close> resolve by the order
  organisation, individual, proxy, submitter; \<^verbatim>\<open>applicant\<close> resolves by organisation,
  individual, proxy and returns \<^verbatim>\<open>"No Applicant"\<close> when none of the three is set (it has no
  submitter fallback); \<^verbatim>\<open>relevant_applicant\<close> returns the organisation when only the
  organisation is set, the individual when only the individual is set, and otherwise the
  proxy, then the submitter.
\<close>

theorem applicant_precedence_amended:
  "applicant_type p =
     (if org_applicant p \<noteq> None then ''ORG''
      else if truthy_int (ind_applicant p) then ''IND''
      else if truthy_int (proxy_applicant p) then ''PRX'' else ''SUB'')
   \<and> applicant_field p =
     (if org_applicant p \<noteq> None then ''org_applicant''
      else if truthy_int (ind_applicant p) then ''ind_applicant''
      else if truthy_int (proxy_applicant p) then ''proxy_applicant'' else ''submitter'')
   \<and> applicant p =
     (if org_applicant p \<noteq> None then OrganisationRow (the (org_applicant p))
      else if truthy_int (ind_applicant p) then ProposalApplicantRow
      else if truthy_int (proxy_applicant p) then EmailUser (proxy_applicant p)
      else NoApplicantString)
   \<and> (org_applicant p \<noteq> None \<and> \<not> truthy_int (ind_applicant p) \<longrightarrow>
        relevant_applicant p = OrganisationRow (the (org_applicant p)))
   \<and> (org_applicant p = None \<and> truthy_int (ind_applicant p) \<longrightarrow>
        relevant_applicant p = EmailUser (ind_applicant p))
   \<and> (org_applicant p = None \<and> \<not> truthy_int (ind_applicant p) \<longrightarrow>
        relevant_applicant p =
          (if truthy_int (proxy_applicant p) then EmailUser (proxy_applicant p)
           else EmailUser (submitter p)))"
  by (cases "org_applicant p")
     (simp_all add: applicant_type_def applicant_field_def applicant_def relevant_applicant_def
       truthy_fk_def APPLICANT_TYPE_ORGANISATION_def APPLICANT_TYPE_INDIVIDUAL_def
       APPLICANT_TYPE_PROXY_def APPLICANT_TYPE_SUBMITTER_def)

theorem applicant_precedence_amended_witness:
  "applicant_type \<lparr>org_applicant = Some 7, ind_applicant = Some 3,
      proxy_applicant = Some 4, submitter = Some 9\<rparr> = ''ORG''
   \<and> applicant \<lparr>org_applicant = Some 7, ind_applicant = Some 3,
      proxy_applicant = Some 4, submitter = Some 9\<rparr> = OrganisationRow 7
   \<and> relevant_applicant \<lparr>org_applicant = None, ind_applicant = Some 3,
      proxy_applicant = Some 4, submitter = Some 9\<rparr> = EmailUser (Some 3)
   \<and> relevant_applicant \<lparr>org_applicant = Some 7, ind_applicant = None,
      proxy_applicant = Some 4, submitter = Some 9\<rparr> = OrganisationRow 7
   \<and> relevant_applicant \<lparr>org_applicant = None, ind_applicant = Some 0,
      proxy_applicant = None, submitter = Some 9\<rparr> = EmailUser (Some 9)"
  using applicant_precedence_amended
      [of "\<lparr>org_applicant = Some 7, ind_applicant = Some 3,
            proxy_applicant = Some 4, submitter = Some 9\<rparr>"]
    applicant_precedence_amended
      [of "\<lparr>org_applicant = None, ind_applicant = Some 3,
            proxy_applicant = Some 4, submitter = Some 9\<rparr>"]
    applicant_precedence_amended
      [of "\<lparr>org_applicant = Some 7, ind_applicant = None,
            proxy_applicant = Some 4, submitter = Some 9\<rparr>"]
    applicant_precedence_amended
      [of "\<lparr>org_applicant = None, ind_applicant = Some 0,
            proxy_applicant = None, submitter = Some 9\<rparr>"]
  by (simp add: truthy_int_def)

section \<open>Properties of the invoice ledger\<close>

lemma foldl_dec_add_2dp:
  "places a = 2 \<Longrightarrow> \<forall>x\<in>set xs. places x = 2 \<Longrightarrow>
   foldl dec_add a xs = Decimal (coefficient a + sum_list (map coefficient xs)) 2"
proof (induction xs arbitrary: a)
  case Nil
  then show ?case by (cases a) simp
next
  case (Cons x xs)
  then show ?case by (simp add: dec_add_def)
qed

lemma Coalesce_Sum_2dp:
  "\<forall>x\<in>set xs. places x = 2 \<Longrightarrow>
   Coalesce (Sum_agg xs) (Decimal 0 2) = Decimal (sum_list (map coefficient xs)) 2"
  by (cases xs) (simp_all add: Coalesce_def foldl_dec_add_2dp)

lemma balance_2dp:
  assumes "stored_2dp db" "i \<in> set (invoices db)" "inv_amount i = Some a"
  shows "balance db i =
     Inr (Decimal (coefficient a
          + sum_list (map (coefficient \<circ> tx_credit) (invoice_transactions db i))
          - sum_list (map (coefficient \<circ> tx_debit) (invoice_transactions db i))) 2)"
proof -
  have pa: "places a = 2" using assms by (auto simp: stored_2dp_def)
  have c: "\<forall>x\<in>set (map tx_credit (invoice_transactions db i)). places x = 2"
    using assms(1) by (auto simp: stored_2dp_def invoice_transactions_def)
  have d: "\<forall>x\<in>set (map tx_debit (invoice_transactions db i)). places x = 2"
    using assms(1) by (auto simp: stored_2dp_def invoice_transactions_def)
  show ?thesis
    using pa by (simp add: balance_def assms(3) Coalesce_Sum_2dp [OF c] Coalesce_Sum_2dp [OF d]
        dec_add_def dec_sub_def quantize_def Let_def comp_def)
qed

lemma dec_eq_zero: "dec_eq (Decimal 0 2) b \<longleftrightarrow> coefficient b = 0"
  by (simp add: dec_eq_def dec_sub_def Let_def)

lemma find_map_replace:
  "find P xs = Some x \<Longrightarrow> P y \<Longrightarrow> find P (map (\<lambda>j. if P j then y else j) xs) = Some y"
  by (induction xs) (auto split: if_splits)

lemma get_object_id: "get_object db pk = Some i \<Longrightarrow> inv_id i = pk"
  by (auto simp: get_object_def find_Some_iff)

lemma get_object_save:
  "get_object db pk = Some i \<Longrightarrow> inv_id j = pk \<Longrightarrow> get_object (save_invoice j db) pk = Some j"
  using find_map_replace [of "\<lambda>i. inv_id i = pk" "invoices db" i j]
  by (simp add: get_object_def save_invoice_def)

lemma get_object_create: "get_object (create_transaction t db) pk = get_object db pk"
  by (simp add: get_object_def create_transaction_def)

lemma record_transaction_paid:
  assumes r: "record_transaction is_valid request pk db = (Response_invoice instance, db')"
    and g: "get_object db' pk = Some j"
    and b: "balance db' j = Inr b" and z: "coefficient b = 0"
  shows "inv_status j = Some Paid"
proof -
  define t where "t = \<lparr>tx_invoice = inv_id instance,
      tx_credit = quantize (Coalesce (req_credit request) (Decimal 0 2)) 2,
      tx_debit = quantize (Coalesce (req_debit request) (Decimal 0 2)) 2\<rparr>"
  define db1 where "db1 = create_transaction t db"
  from r have inst: "get_object db pk = Some instance"
    by (auto simp: record_transaction_def Let_def split: if_splits option.splits sum.splits)
  then have id: "inv_id instance = pk" by (rule get_object_id)
  have g1: "get_object db1 pk = Some instance"
    by (simp add: db1_def get_object_create inst)
  from r inst id g1 obtain b1 where b1: "balance db1 instance = Inr b1"
    and res: "db' = (if dec_eq (Decimal 0 2) b1
                     then save_invoice (instance\<lparr>inv_status := Some Paid\<rparr>) db1 else db1)"
    by (auto simp: record_transaction_def Let_def t_def db1_def
        split: if_splits option.splits sum.splits)
  show ?thesis
  proof (cases "dec_eq (Decimal 0 2) b1")
    case True
    then have "db' = save_invoice (instance\<lparr>inv_status := Some Paid\<rparr>) db1"
      using res by simp
    then have "get_object db' pk = Some (instance\<lparr>inv_status := Some Paid\<rparr>)"
      using get_object_save [OF g1, of "instance\<lparr>inv_status := Some Paid\<rparr>"] id by simp
    with g show ?thesis by auto
  next
    case False
    then have "db' = db1" using res by simp
    with g g1 b b1 have "b = b1" by simp
    with z False show ?thesis by (simp add: dec_eq_zero)
  qed
qed

lemma record_transaction_status:
  "list_all2 (\<lambda>old new. inv_status new = inv_status old \<or> inv_status new = Some Paid)
     (invoices db) (invoices (snd (record_transaction is_valid request pk db)))"
  by (auto simp: record_transaction_def Let_def create_transaction_def save_invoice_def
      list_all2_map2 list_all2_same split: option.splits sum.splits)

lemma callback_no_unpaid:
  assumes "\<not> (\<exists>i\<in>set (invoices db). inv_uuid i = uuid \<and> inv_status i = Some Unpaid)"
  shows "pay_invoice_success_callback now uuid db = (Response_status 400, db)"
  using assms by (auto simp: pay_invoice_success_callback_def atomic_def)

lemma callback_unpaid:
  assumes "uuid \<noteq> []" and "filter (\<lambda>i. inv_uuid i = uuid) (invoices db) = [i]"
    and "inv_status i = Some Unpaid" and "inv_amount i = Some a"
  shows "pay_invoice_success_callback now uuid db =
     (Response_status 200,
      \<lparr>invoices = map (\<lambda>j. if inv_id j = inv_id i
                             then i\<lparr>inv_status := Some Paid, inv_date_paid := Some now\<rparr>
                             else j) (invoices db),
       transactions = transactions db @
          [\<lparr>tx_invoice = inv_id i, tx_credit = Decimal 0 2, tx_debit = quantize a 2\<rparr>]\<rparr>)"
proof -
  have "i \<in> set (filter (\<lambda>i. inv_uuid i = uuid) (invoices db))"
    using assms(2) by simp
  then have "\<exists>i\<in>set (invoices db). inv_uuid i = uuid \<and> inv_status i = Some Unpaid"
    using assms(3) by auto
  then show ?thesis
    using assms
    by (simp add: pay_invoice_success_callback_def atomic_def create_transaction_def
        save_invoice_def Let_def)
qed

lemma callback_twice:
  assumes "uuid \<noteq> []" and "filter (\<lambda>i. inv_uuid i = uuid) (invoices db) = [i]"
    and "inv_status i = Some Unpaid" and "inv_amount i = Some a"
  shows "pay_invoice_success_callback now' uuid (snd (pay_invoice_success_callback now uuid db))
         = (Response_status 400, snd (pay_invoice_success_callback now uuid db))"
proof -
  have mem: "\<And>j. j \<in> set (invoices db) \<Longrightarrow> inv_uuid j = uuid \<Longrightarrow> j = i"
  proof -
    fix j assume "j \<in> set (invoices db)" "inv_uuid j = uuid"
    then have "j \<in> set (filter (\<lambda>i. inv_uuid i = uuid) (invoices db))" by simp
    then show "j = i" using assms(2) by simp
  qed
  have ui: "inv_uuid i = uuid"
  proof -
    have "i \<in> set (filter (\<lambda>i. inv_uuid i = uuid) (invoices db))" using assms(2) by simp
    then show ?thesis by simp
  qed
  define db' where "db' = snd (pay_invoice_success_callback now uuid db)"
  have inv': "invoices db' = map (\<lambda>j. if inv_id j = inv_id i
                             then i\<lparr>inv_status := Some Paid, inv_date_paid := Some now\<rparr>
                             else j) (invoices db)"
    unfolding db'_def using callback_unpaid [OF assms, of now] by simp
  have "\<not> (\<exists>k\<in>set (invoices db'). inv_uuid k = uuid \<and> inv_status k = Some Unpaid)"
    unfolding inv' using mem ui by (auto split: if_splits)
  then show ?thesis unfolding db'_def by (rule callback_no_unpaid)
qed

text \<open>
  C1. (a) \<^verbatim>\<open>Invoice.balance\<close> is amount plus the summed credits minus the summed debits of the
  invoice's transactions, quantized to two places; on stored amounts, which all have two
  places, that is the exact sum of the amounts in cents. (b) When \<^verbatim>\<open>record_transaction\<close>
  has saved a transaction and the invoice's balance is then 0.00, the invoice's status in the
  database is \<^verbatim>\<open>paid\<close>. (c) Whatever the request, \<^verbatim>\<open>record_transaction\<close> leaves every
  invoice's status as it was or sets it to \<^verbatim>\<open>paid\<close>: it never sets \<^verbatim>\<open>unpaid\<close>.
\<close>

theorem invoice_balance_paid_on_zero:
  "(inv_amount i = Some a \<longrightarrow>
      balance db i =
        Inr (quantize
          (dec_sub
            (dec_add a
              (Coalesce (Sum_agg (map tx_credit (invoice_transactions db i))) (Decimal 0 2)))
            (Coalesce (Sum_agg (map tx_debit (invoice_transactions db i))) (Decimal 0 2))) 2))
   \<and> (stored_2dp db \<and> i \<in> set (invoices db) \<and> inv_amount i = Some a \<longrightarrow>
      balance db i =
        Inr (Decimal (coefficient a
          + sum_list (map (coefficient \<circ> tx_credit) (invoice_transactions db i))
          - sum_list (map (coefficient \<circ> tx_debit) (invoice_transactions db i))) 2))
   \<and> (record_transaction is_valid request pk db = (Response_invoice inst, db')
        \<and> get_object db' pk = Some j \<and> balance db' j = Inr b \<and> coefficient b = 0 \<longrightarrow>
      inv_status j = Some Paid)
   \<and> list_all2 (\<lambda>old new. inv_status new = inv_status old \<or> inv_status new = Some Paid)
        (invoices db) (invoices (snd (record_transaction is_valid request pk db)))"
proof (intro conjI impI)
  assume "inv_amount i = Some a"
  then show "balance db i =
        Inr (quantize
          (dec_sub
            (dec_add a
              (Coalesce (Sum_agg (map tx_credit (invoice_transactions db i))) (Decimal 0 2)))
            (Coalesce (Sum_agg (map tx_debit (invoice_transactions db i))) (Decimal 0 2))) 2)"
    by (simp add: balance_def Let_def)
next
  assume "stored_2dp db \<and> i \<in> set (invoices db) \<and> inv_amount i = Some a"
  then show "balance db i =
        Inr (Decimal (coefficient a
          + sum_list (map (coefficient \<circ> tx_credit) (invoice_transactions db i))
          - sum_list (map (coefficient \<circ> tx_debit) (invoice_transactions db i))) 2)"
    using balance_2dp by blast
next
  assume "record_transaction is_valid request pk db = (Response_invoice inst, db')
        \<and> get_object db' pk = Some j \<and> balance db' j = Inr b \<and> coefficient b = 0"
  then show "inv_status j = Some Paid"
    using record_transaction_paid by blast
next
  show "list_all2 (\<lambda>old new. inv_status new = inv_status old \<or> inv_status new = Some Paid)
        (invoices db) (invoices (snd (record_transaction is_valid request pk db)))"
    by (rule record_transaction_status)
qed

theorem invoice_balance_paid_on_zero_witness:
  "inv_amount invoice_100_50 = Some (Decimal 10050 2)
   \<and> stored_2dp ledger_example \<and> invoice_100_50 \<in> set (invoices ledger_example)
   \<and> balance ledger_example invoice_100_50 = Inr (Decimal 10050 2)
   \<and> record_transaction (\<lambda>c d. True)
        \<lparr>req_is_finance_officer = True, req_credit = None, req_debit = Some (Decimal 10050 2)\<rparr>
        1 ledger_example
      = (Response_invoice invoice_100_50,
         \<lparr>invoices = [invoice_100_50\<lparr>inv_status := Some Paid\<rparr>, invoice_5_00],
          transactions =
            [\<lparr>tx_invoice = 2, tx_credit = Decimal 0 2, tx_debit = Decimal 500 2\<rparr>,
             \<lparr>tx_invoice = 1, tx_credit = Decimal 0 2, tx_debit = Decimal 10050 2\<rparr>]\<rparr>)
   \<and> get_object
        \<lparr>invoices = [invoice_100_50\<lparr>inv_status := Some Paid\<rparr>, invoice_5_00],
          transactions =
            [\<lparr>tx_invoice = 2, tx_credit = Decimal 0 2, tx_debit = Decimal 500 2\<rparr>,
             \<lparr>tx_invoice = 1, tx_credit = Decimal 0 2, tx_debit = Decimal 10050 2\<rparr>]\<rparr> 1
      = Some (invoice_100_50\<lparr>inv_status := Some Paid\<rparr>)
   \<and> balance
        \<lparr>invoices = [invoice_100_50\<lparr>inv_status := Some Paid\<rparr>, invoice_5_00],
          transactions =
            [\<lparr>tx_invoice = 2, tx_credit = Decimal 0 2, tx_debit = Decimal 500 2\<rparr>,
             \<lparr>tx_invoice = 1, tx_credit = Decimal 0 2, tx_debit = Decimal 10050 2\<rparr>]\<rparr>
        (invoice_100_50\<lparr>inv_status := Some Paid\<rparr>) = Inr (Decimal 0 2)
   \<and> inv_status (invoice_100_50\<lparr>inv_status := Some Paid\<rparr>) = Some Paid"
proof -
  let ?db' = "\<lparr>invoices = [invoice_100_50\<lparr>inv_status := Some Paid\<rparr>, invoice_5_00],
          transactions =
            [\<lparr>tx_invoice = 2, tx_credit = Decimal 0 2, tx_debit = Decimal 500 2\<rparr>,
             \<lparr>tx_invoice = 1, tx_credit = Decimal 0 2, tx_debit = Decimal 10050 2\<rparr>]\<rparr>"
  let ?rq = "\<lparr>req_is_finance_officer = True, req_credit = None,
              req_debit = Some (Decimal 10050 2)\<rparr>"
  have h1: "inv_amount invoice_100_50 = Some (Decimal 10050 2)"
    by (simp add: invoice_100_50_def)
  have h2: "stored_2dp ledger_example \<and> invoice_100_50 \<in> set (invoices ledger_example)"
    by (simp add: stored_2dp_def ledger_example_def invoice_100_50_def invoice_5_00_def)
  have h3: "record_transaction (\<lambda>c d. True) ?rq 1 ledger_example
            = (Response_invoice invoice_100_50, ?db')"
    by (simp add: record_transaction_def ledger_example_def invoice_100_50_def
        invoice_5_00_def get_object_def create_transaction_def save_invoice_def balance_def
        invoice_transactions_def Coalesce_def quantize_def dec_add_def dec_sub_def dec_eq_def
        Let_def)
  have h4: "get_object ?db' 1 = Some (invoice_100_50\<lparr>inv_status := Some Paid\<rparr>)"
    by (simp add: get_object_def invoice_100_50_def)
  have h5: "balance ?db' (invoice_100_50\<lparr>inv_status := Some Paid\<rparr>) = Inr (Decimal 0 2)"
    by (simp add: balance_def invoice_100_50_def invoice_transactions_def Coalesce_def
        quantize_def dec_add_def dec_sub_def Let_def)
  have h0: "coefficient (Decimal 0 2) = 0" by simp
  have t: "inv_status (invoice_100_50\<lparr>inv_status := Some Paid\<rparr>) = Some Paid
      \<and> balance ledger_example invoice_100_50 =
        Inr (Decimal (coefficient (Decimal 10050 2)
          + sum_list (map (coefficient \<circ> tx_credit)
               (invoice_transactions ledger_example invoice_100_50))
          - sum_list (map (coefficient \<circ> tx_debit)
               (invoice_transactions ledger_example invoice_100_50))) 2)"
    using invoice_balance_paid_on_zero [where i = invoice_100_50 and a = "Decimal 10050 2"
        and db = ledger_example and is_valid = "\<lambda>c d. True" and request = "?rq" and pk = 1
        and inst = invoice_100_50 and db' = "?db'"
        and j = "invoice_100_50\<lparr>inv_status := Some Paid\<rparr>" and b = "Decimal 0 2"]
      h1 h2 h3 h4 h5 h0
    by blast
  have h6: "balance ledger_example invoice_100_50 = Inr (Decimal 10050 2)"
    using t by (simp add: invoice_transactions_def ledger_example_def invoice_100_50_def)
  show ?thesis using h1 h2 h3 h4 h5 h6 t by simp
qed

text \<open>
  C3, as stated, at the ledger above: the callback for the uuid of the invoice that is
  already paid changes nothing, and answers 400 Bad Request, not success.
\<close>

theorem callback_paid_invoice_counterexample:
  "inv_status invoice_5_00 = Some Paid \<and> inv_uuid invoice_5_00 = ''u2''
   \<and> pay_invoice_success_callback 9 ''u2'' ledger_example = (Response_status 400, ledger_example)"
  by (simp add: pay_invoice_success_callback_def atomic_def ledger_example_def
      invoice_100_50_def invoice_5_00_def)

text \<open>
  C3, amended. When no invoice with the uuid is unpaid (the invoice is already paid), the
  callback changes neither invoices nor transactions and answers 400 Bad Request. For the
  one invoice with the uuid, when it is unpaid, the callback answers 200, appends a
  transaction whose debit is the invoice amount, and sets the invoice's status to
  \<^verbatim>\<open>paid\<close> and \<^verbatim>\<open>date_paid\<close> to the current time. Calling it again after that changes
  nothing and answers 400.
\<close>

theorem callback_idempotent_amended:
  "(\<not> (\<exists>i\<in>set (invoices db). inv_uuid i = uuid \<and> inv_status i = Some Unpaid) \<longrightarrow>
      pay_invoice_success_callback now uuid db = (Response_status 400, db))
   \<and> (uuid \<noteq> [] \<and> filter (\<lambda>i. inv_uuid i = uuid) (invoices db) = [i]
        \<and> inv_status i = Some Unpaid \<and> inv_amount i = Some a \<longrightarrow>
      pay_invoice_success_callback now uuid db =
        (Response_status 200,
         \<lparr>invoices = map (\<lambda>j. if inv_id j = inv_id i
                                then i\<lparr>inv_status := Some Paid, inv_date_paid := Some now\<rparr>
                                else j) (invoices db),
          transactions = transactions db @
            [\<lparr>tx_invoice = inv_id i, tx_credit = Decimal 0 2, tx_debit = quantize a 2\<rparr>]\<rparr>)
      \<and> pay_invoice_success_callback now' uuid (snd (pay_invoice_success_callback now uuid db))
         = (Response_status 400, snd (pay_invoice_success_callback now uuid db)))"
  using callback_no_unpaid [of db uuid now] callback_unpaid [of uuid db i a now]
    callback_twice [of uuid db i a now' now]
  by blast

theorem callback_idempotent_amended_witness:
  "\<not> (\<exists>i\<in>set (invoices ledger_example). inv_uuid i = ''u2'' \<and> inv_status i = Some Unpaid)
   \<and> pay_invoice_success_callback 9 ''u2'' ledger_example = (Response_status 400, ledger_example)
   \<and> ''u1'' \<noteq> [] \<and> filter (\<lambda>i. inv_uuid i = ''u1'') (invoices ledger_example) = [invoice_100_50]
   \<and> inv_status invoice_100_50 = Some Unpaid \<and> inv_amount invoice_100_50 = Some (Decimal 10050 2)
   \<and> pay_invoice_success_callback 9 ''u1'' ledger_example =
       (Response_status 200,
        \<lparr>invoices = [invoice_100_50\<lparr>inv_status := Some Paid, inv_date_paid := Some 9\<rparr>,
                     invoice_5_00],
         transactions =
           [\<lparr>tx_invoice = 2, tx_credit = Decimal 0 2, tx_debit = Decimal 500 2\<rparr>,
            \<lparr>tx_invoice = 1, tx_credit = Decimal 0 2, tx_debit = Decimal 10050 2\<rparr>]\<rparr>)
   \<and> pay_invoice_success_callback 10 ''u1''
        (snd (pay_invoice_success_callback 9 ''u1'' ledger_example))
       = (Response_status 400, snd (pay_invoice_success_callback 9 ''u1'' ledger_example))"
proof -
  have h1: "\<not> (\<exists>i\<in>set (invoices ledger_example).
              inv_uuid i = ''u2'' \<and> inv_status i = Some Unpaid)"
    by (simp add: ledger_example_def invoice_100_50_def invoice_5_00_def)
  have h2: "''u1'' \<noteq> []
     \<and> filter (\<lambda>i. inv_uuid i = ''u1'') (invoices ledger_example) = [invoice_100_50]
     \<and> inv_status invoice_100_50 = Some Unpaid
     \<and> inv_amount invoice_100_50 = Some (Decimal 10050 2)"
    by (simp add: ledger_example_def invoice_100_50_def invoice_5_00_def)
  have m: "map (\<lambda>j. if inv_id j = inv_id invoice_100_50
                    then invoice_100_50\<lparr>inv_status := Some Paid, inv_date_paid := Some 9\<rparr>
                    else j) (invoices ledger_example)
           = [invoice_100_50\<lparr>inv_status := Some Paid, inv_date_paid := Some 9\<rparr>, invoice_5_00]"
    by (simp add: ledger_example_def invoice_100_50_def invoice_5_00_def)
  have q: "transactions ledger_example @
            [\<lparr>tx_invoice = inv_id invoice_100_50, tx_credit = Decimal 0 2,
              tx_debit = quantize (Decimal 10050 2) 2\<rparr>]
           = [\<lparr>tx_invoice = 2, tx_credit = Decimal 0 2, tx_debit = Decimal 500 2\<rparr>,
              \<lparr>tx_invoice = 1, tx_credit = Decimal 0 2, tx_debit = Decimal 10050 2\<rparr>]"
    by (simp add: ledger_example_def invoice_100_50_def quantize_def)
  note t1 = callback_idempotent_amended
      [of ledger_example "''u2''" 9 invoice_100_50 "Decimal 0 2" 10]
  note t2 = callback_idempotent_amended
      [of ledger_example "''u1''" 9 invoice_100_50 "Decimal 10050 2" 10]
  have c1: "pay_invoice_success_callback 9 ''u2'' ledger_example
            = (Response_status 400, ledger_example)"
    using t1 h1 by blast
  have c2: "pay_invoice_success_callback 9 ''u1'' ledger_example =
       (Response_status 200,
        \<lparr>invoices = [invoice_100_50\<lparr>inv_status := Some Paid, inv_date_paid := Some 9\<rparr>,
                     invoice_5_00],
         transactions =
           [\<lparr>tx_invoice = 2, tx_credit = Decimal 0 2, tx_debit = Decimal 500 2\<rparr>,
            \<lparr>tx_invoice = 1, tx_credit = Decimal 0 2, tx_debit = Decimal 10050 2\<rparr>]\<rparr>)"
    using t2 h2 unfolding m q by blast
  have c3: "pay_invoice_success_callback 10 ''u1''
        (snd (pay_invoice_success_callback 9 ''u1'' ledger_example))
       = (Response_status 400, snd (pay_invoice_success_callback 9 ''u1'' ledger_example))"
    using t2 h2 by blast
  show ?thesis using h1 h2 c1 c2 c3 by blast
qed

section \<open>Properties of referral completion\<close>

lemma save_referral_present:
  assumes "self \<in> set (rd_referrals db)"
  shows "rd_referrals (save_referral (self\<lparr>r_processing_status := s\<rparr>) db) =
     map (\<lambda>x. if r_id x = r_id self then self\<lparr>r_processing_status := s\<rparr> else x)
       (rd_referrals db)"
    and "rd_proposals (save_referral (self\<lparr>r_processing_status := s\<rparr>) db) = rd_proposals db"
  using assms by (auto simp: save_referral_def)

lemma complete_not_last:
  assumes hself: "self \<in> set (rd_referrals db)"
    and hother: "other \<in> set (rd_referrals db)" "r_id other \<noteq> r_id self"
      "r_proposal other = r_proposal self" "r_processing_status other = ReferralWithReferral"
    and hprop: "find (\<lambda>p. rp_id p = r_proposal self) (rd_proposals db) = Some proposal"
    and app: "applicant proposal \<noteq> NoApplicantString"
  shows "\<exists>db'. complete self db = Inr db'
      \<and> (\<forall>x\<in>set (rd_referrals db'). r_id x = r_id self \<longrightarrow>
            r_processing_status x = ReferralCompleted)
      \<and> rd_proposals db' = rd_proposals db"
proof -
  let ?db1 = "save_referral (self\<lparr>r_processing_status := ReferralCompleted\<rparr>) db"
  have rows: "rd_referrals ?db1 =
     map (\<lambda>x. if r_id x = r_id self then self\<lparr>r_processing_status := ReferralCompleted\<rparr> else x)
       (rd_referrals db)"
    and props: "rd_proposals ?db1 = rd_proposals db"
    using save_referral_present [OF hself] by auto
  have "other \<in> set (rd_referrals ?db1)"
    unfolding rows using hother by (auto simp: image_iff intro!: bexI [of _ other])
  then have pend: "pending_referral_exists ?db1 (r_proposal self)"
    using hother by (auto simp: pending_referral_exists_def)
  have "complete self db = Inr ?db1"
    using hprop app pend by (simp add: complete_def Let_def props)
  moreover have "\<forall>x\<in>set (rd_referrals ?db1). r_id x = r_id self \<longrightarrow>
            r_processing_status x = ReferralCompleted"
    unfolding rows by auto
  ultimately show ?thesis using props by blast
qed

lemma complete_last:
  assumes hself: "self \<in> set (rd_referrals db)"
    and others: "\<forall>x\<in>set (rd_referrals db). r_id x \<noteq> r_id self \<and> r_proposal x = r_proposal self
        \<longrightarrow> r_processing_status x \<noteq> ReferralWithReferral"
    and hprop: "find (\<lambda>p. rp_id p = r_proposal self) (rd_proposals db) = Some proposal"
    and app: "applicant proposal \<noteq> NoApplicantString"
  shows "\<exists>db'. complete self db = Inr db'
      \<and> (\<forall>x\<in>set (rd_referrals db'). r_id x = r_id self \<longrightarrow>
            r_processing_status x = ReferralCompleted)
      \<and> length (rd_proposals db') = length (rd_proposals db)
      \<and> (\<forall>p\<in>set (rd_proposals db'). rp_id p = r_proposal self \<longrightarrow>
            rp_processing_status p = (if r_sent_from self = 1 then WithAssessor else WithApprover))
      \<and> (\<forall>p\<in>set (rd_proposals db'). rp_id p \<noteq> r_proposal self \<longrightarrow> p \<in> set (rd_proposals db))"
proof -
  let ?db1 = "save_referral (self\<lparr>r_processing_status := ReferralCompleted\<rparr>) db"
  let ?p = "proposal\<lparr>rp_processing_status :=
                        (if r_sent_from self = 1 then WithAssessor else WithApprover)\<rparr>"
  have rows: "rd_referrals ?db1 =
     map (\<lambda>x. if r_id x = r_id self then self\<lparr>r_processing_status := ReferralCompleted\<rparr> else x)
       (rd_referrals db)"
    and props: "rd_proposals ?db1 = rd_proposals db"
    using save_referral_present [OF hself] by auto
  have pend: "\<not> pending_referral_exists ?db1 (r_proposal self)"
    unfolding pending_referral_exists_def rows using others by (auto split: if_splits)
  have pid: "rp_id proposal = r_proposal self" and pin: "proposal \<in> set (rd_proposals db)"
    using hprop by (auto simp: find_Some_iff)
  have c: "complete self db = Inr (save_referral_proposal ?p ?db1)"
    using hprop app pend by (simp add: complete_def Let_def props)
  have ex: "\<exists>x\<in>set (rd_proposals ?db1). rp_id x = rp_id ?p"
    using pin pid props by auto
  have prows: "rd_proposals (save_referral_proposal ?p ?db1) =
      map (\<lambda>x. if rp_id x = rp_id ?p then ?p else x) (rd_proposals db)"
    and rrows: "rd_referrals (save_referral_proposal ?p ?db1) = rd_referrals ?db1"
    using ex props by (auto simp: save_referral_proposal_def)
  have 1: "\<forall>x\<in>set (rd_referrals (save_referral_proposal ?p ?db1)). r_id x = r_id self \<longrightarrow>
            r_processing_status x = ReferralCompleted"
    unfolding rrows rows by auto
  have 2: "length (rd_proposals (save_referral_proposal ?p ?db1)) = length (rd_proposals db)"
    unfolding prows by simp
  have 3: "\<forall>p\<in>set (rd_proposals (save_referral_proposal ?p ?db1)). rp_id p = r_proposal self \<longrightarrow>
            rp_processing_status p = (if r_sent_from self = 1 then WithAssessor else WithApprover)"
    unfolding prows using pid by auto
  have 4: "\<forall>p\<in>set (rd_proposals (save_referral_proposal ?p ?db1)). rp_id p \<noteq> r_proposal self
            \<longrightarrow> p \<in> set (rd_proposals db)"
    unfolding prows using pid by auto
  show ?thesis using c 1 2 3 4 by blast
qed

text \<open>
  C4. On a proposal whose applicant resolves, \<^verbatim>\<open>Referral.complete()\<close> on a referral while
  another referral of the same proposal is pending (\<^verbatim>\<open>with_referral\<close>) succeeds, marks the
  referral completed and leaves every proposal row, so the proposal's processing status, as
  it was. On the last pending referral (no other referral of the proposal is pending) it
  succeeds, marks the referral completed and sets the proposal's processing status to
  \<^verbatim>\<open>with_assessor\<close> when the referral's \<^verbatim>\<open>sent_from\<close> is 1 and to \<^verbatim>\<open>with_approver\<close>
  otherwise, leaving the other proposals as they were.
\<close>

theorem referral_complete_status:
  "(self \<in> set (rd_referrals db) \<and> other \<in> set (rd_referrals db) \<and> r_id other \<noteq> r_id self
      \<and> r_proposal other = r_proposal self \<and> r_processing_status other = ReferralWithReferral
      \<and> find (\<lambda>p. rp_id p = r_proposal self) (rd_proposals db) = Some proposal
      \<and> applicant proposal \<noteq> NoApplicantString \<longrightarrow>
     (\<exists>db'. complete self db = Inr db'
        \<and> (\<forall>x\<in>set (rd_referrals db'). r_id x = r_id self \<longrightarrow>
              r_processing_status x = ReferralCompleted)
        \<and> rd_proposals db' = rd_proposals db))
   \<and> (self \<in> set (rd_referrals db)
      \<and> (\<forall>x\<in>set (rd_referrals db). r_id x \<noteq> r_id self \<and> r_proposal x = r_proposal self
            \<longrightarrow> r_processing_status x \<noteq> ReferralWithReferral)
      \<and> find (\<lambda>p. rp_id p = r_proposal self) (rd_proposals db) = Some proposal
      \<and> applicant proposal \<noteq> NoApplicantString \<longrightarrow>
     (\<exists>db'. complete self db = Inr db'
        \<and> (\<forall>x\<in>set (rd_referrals db'). r_id x = r_id self \<longrightarrow>
              r_processing_status x = ReferralCompleted)
        \<and> length (rd_proposals db') = length (rd_proposals db)
        \<and> (\<forall>p\<in>set (rd_proposals db'). rp_id p = r_proposal self \<longrightarrow>
              rp_processing_status p =
                (if r_sent_from self = 1 then WithAssessor else WithApprover))
        \<and> (\<forall>p\<in>set (rd_proposals db'). rp_id p \<noteq> r_proposal self \<longrightarrow>
              p \<in> set (rd_proposals db))))"
  using complete_not_last [of self db other proposal] complete_last [of self db proposal]
  by blast

theorem referral_complete_status_witness:
  "referral_10 \<in> set (rd_referrals referral_example)
   \<and> referral_11 \<in> set (rd_referrals referral_example) \<and> r_id referral_11 \<noteq> r_id referral_10
   \<and> r_proposal referral_11 = r_proposal referral_10
   \<and> r_processing_status referral_11 = ReferralWithReferral
   \<and> find (\<lambda>p. rp_id p = r_proposal referral_10) (rd_proposals referral_example)
       = Some referred_proposal
   \<and> applicant referred_proposal \<noteq> NoApplicantString
   \<and> (\<exists>db'. complete referral_10 referral_example = Inr db'
         \<and> rd_proposals db' = [referred_proposal]
         \<and> (\<exists>db''. complete referral_11 db' = Inr db''
              \<and> (\<forall>p\<in>set (rd_proposals db''). rp_processing_status p = WithAssessor)))"
proof -
  let ?db1 = "\<lparr>rd_proposals = [referred_proposal],
     rd_referrals = [referral_10\<lparr>r_processing_status := ReferralCompleted\<rparr>, referral_11]\<rparr>"
  have h1: "referral_10 \<in> set (rd_referrals referral_example)
     \<and> referral_11 \<in> set (rd_referrals referral_example) \<and> r_id referral_11 \<noteq> r_id referral_10
     \<and> r_proposal referral_11 = r_proposal referral_10
     \<and> r_processing_status referral_11 = ReferralWithReferral
     \<and> find (\<lambda>p. rp_id p = r_proposal referral_10) (rd_proposals referral_example)
         = Some referred_proposal
     \<and> applicant referred_proposal \<noteq> NoApplicantString"
    by (simp add: referral_example_def referral_10_def referral_11_def referred_proposal_def
        applicant_def truthy_fk_def)
  have e1: "complete referral_10 referral_example = Inr ?db1"
    by (simp add: complete_def save_referral_def pending_referral_exists_def Let_def
        referral_example_def referral_10_def referral_11_def referred_proposal_def
        applicant_def truthy_fk_def)
  have h2: "referral_11 \<in> set (rd_referrals ?db1)
     \<and> (\<forall>x\<in>set (rd_referrals ?db1). r_id x \<noteq> r_id referral_11
           \<and> r_proposal x = r_proposal referral_11
           \<longrightarrow> r_processing_status x \<noteq> ReferralWithReferral)
     \<and> find (\<lambda>p. rp_id p = r_proposal referral_11) (rd_proposals ?db1) = Some referred_proposal
     \<and> applicant referred_proposal \<noteq> NoApplicantString"
    by (simp add: referral_10_def referral_11_def referred_proposal_def applicant_def
        truthy_fk_def)
  from referral_complete_status [of referral_10 referral_example referral_11 referred_proposal] h1
  have "\<exists>db'. complete referral_10 referral_example = Inr db'
        \<and> rd_proposals db' = rd_proposals referral_example"
    by blast
  then have a: "rd_proposals ?db1 = [referred_proposal]"
    by simp
  from referral_complete_status [of referral_11 ?db1 referral_11 referred_proposal] h2
  obtain db'' where c2: "complete referral_11 ?db1 = Inr db''"
    and s2: "\<forall>p\<in>set (rd_proposals db''). rp_id p = r_proposal referral_11 \<longrightarrow>
              rp_processing_status p =
                (if r_sent_from referral_11 = 1 then WithAssessor else WithApprover)"
    and o2: "\<forall>p\<in>set (rd_proposals db''). rp_id p \<noteq> r_proposal referral_11 \<longrightarrow>
              p \<in> set (rd_proposals ?db1)"
    by blast
  have "\<forall>p\<in>set (rd_proposals db''). rp_processing_status p = WithAssessor"
  proof
    fix p assume p: "p \<in> set (rd_proposals db'')"
    show "rp_processing_status p = WithAssessor"
    proof (cases "rp_id p = r_proposal referral_11")
      case True
      with s2 p show ?thesis by (simp add: referral_11_def)
    next
      case False
      with o2 p have "p = referred_proposal" by simp
      with False show ?thesis by (simp add: referred_proposal_def referral_11_def)
    qed
  qed
  with h1 e1 a c2 show ?thesis by blast
qed

section \<open>Properties of the calendar\<close>

lemma div_cycle:
  fixes a r k :: int
  assumes "0 \<le> r" "r < k"
  shows "(a * k + r) div k = a" and "(a * k + r) mod k = r"
  using assms by (simp_all add: div_pos_pos_trivial mod_pos_pos_trivial)

lemma mod_top:
  fixes x k :: int
  assumes "0 < x" "x \<le> k"
  shows "x mod k = 0 \<longleftrightarrow> x = k"
proof (cases "x = k")
  case True
  then show ?thesis by simp
next
  case False
  then have "x mod k = x" using assms by (simp add: mod_pos_pos_trivial)
  then show ?thesis using assms False by simp
qed

lemma days_before_year_cycle:
  assumes "0 \<le> b" "b \<le> 3" "0 \<le> c" "c \<le> 24" "0 \<le> d" "d \<le> 3"
  shows "days_before_year (a * 400 + 1 + b * 100 + c * 4 + d)
         = a * 146097 + b * 36524 + c * 1461 + d * 365"
proof -
  let ?y1 = "a * 400 + b * 100 + c * 4 + d"
  have 4: "?y1 div 4 = a * 100 + b * 25 + c"
    using div_cycle(1) [of d 4 "a * 100 + b * 25 + c"] assms by (simp add: algebra_simps)
  have 100: "?y1 div 100 = a * 4 + b"
    using div_cycle(1) [of "c * 4 + d" 100 "a * 4 + b"] assms by (simp add: algebra_simps)
  have 400: "?y1 div 400 = a"
    using div_cycle(1) [of "b * 100 + c * 4 + d" 400 a] assms by (simp add: algebra_simps)
  have "a * 400 + 1 + b * 100 + c * 4 + d - 1 = ?y1" by simp
  then show ?thesis
    unfolding days_before_year_def Let_def using 4 100 400 by (simp add: algebra_simps)
qed

lemma is_leap_cycle:
  assumes "0 \<le> b" "b \<le> 3" "0 \<le> c" "c \<le> 24" "0 \<le> d" "d \<le> 3"
  shows "is_leap (a * 400 + 1 + b * 100 + c * 4 + d) \<longleftrightarrow> (d = 3 \<and> (c \<noteq> 24 \<or> b = 3))"
proof -
  let ?y = "a * 400 + 1 + b * 100 + c * 4 + d"
  have 4: "?y mod 4 = (d + 1) mod 4"
  proof -
    have "?y = (d + 1) + 4 * (a * 100 + b * 25 + c)" by simp
    then show ?thesis by (metis mod_mult_self2)
  qed
  have 100: "?y mod 100 = (c * 4 + d + 1) mod 100"
  proof -
    have "?y = (c * 4 + d + 1) + 100 * (a * 4 + b)" by simp
    then show ?thesis by (metis mod_mult_self2)
  qed
  have 400: "?y mod 400 = (b * 100 + c * 4 + d + 1) mod 400"
  proof -
    have "?y = (b * 100 + c * 4 + d + 1) + 400 * a" by simp
    then show ?thesis by (metis mod_mult_self2)
  qed
  have m4: "(d + 1) mod 4 = 0 \<longleftrightarrow> d = 3"
    using mod_top [of "d + 1" 4] assms by linarith
  have m100: "(c * 4 + d + 1) mod 100 = 0 \<longleftrightarrow> c = 24 \<and> d = 3"
    using mod_top [of "c * 4 + d + 1" 100] assms by linarith
  have m400: "(b * 100 + c * 4 + d + 1) mod 400 = 0 \<longleftrightarrow> b = 3 \<and> c = 24 \<and> d = 3"
    using mod_top [of "b * 100 + c * 4 + d + 1" 400] assms by linarith
  show ?thesis unfolding is_leap_def 4 100 400 m4 m100 m400 by auto
qed


lemma days_before_previous_month:
  assumes "2 \<le> m" "m \<le> 12"
  shows "DAYS_BEFORE_MONTH m - DAYS_IN_MONTH (m - 1) = DAYS_BEFORE_MONTH (m - 1)"
proof -
  from assms have "m = 2 \<or> m = 3 \<or> m = 4 \<or> m = 5 \<or> m = 6 \<or> m = 7 \<or> m = 8 \<or> m = 9
      \<or> m = 10 \<or> m = 11 \<or> m = 12"
    by arith
  then show ?thesis
    by (elim disjE) (simp_all add: DAYS_BEFORE_MONTH_def DAYS_IN_MONTH_def)
qed


lemma toordinal_fromordinal:
  assumes "1 \<le> n0"
  shows "toordinal (fromordinal n0) = n0"
proof -
  define n where "n = n0 - 1"
  define a where "a = n div 146097"
  define r400 where "r400 = n mod 146097"
  define b where "b = r400 div 36524"
  define r100 where "r100 = r400 mod 36524"
  define c where "c = r100 div 1461"
  define r4 where "r4 = r100 mod 1461"
  define d where "d = r4 div 365"
  define r1 where "r1 = r4 mod 365"
  define y where "y = a * 400 + 1 + b * 100 + c * 4 + d"
  define L where "L = (d = 3 \<and> (c \<noteq> 24 \<or> b = 3))"
  define m where "m = (r1 + 50) div 32"
  define preceding where "preceding = DAYS_BEFORE_MONTH m + (if m > 2 \<and> L then 1 else 0)"
  have n: "n = a * 146097 + r400" and r400: "0 \<le> r400" "r400 < 146097"
    by (simp_all add: a_def r400_def)
  have e400: "r400 = b * 36524 + r100" and r100: "0 \<le> r100" "r100 < 36524"
    by (simp_all add: b_def r100_def)
  have e100: "r100 = c * 1461 + r4" and r4: "0 \<le> r4" "r4 < 1461"
    by (simp_all add: c_def r4_def)
  have e4: "r4 = d * 365 + r1" and r1: "0 \<le> r1" "r1 < 365"
    by (simp_all add: d_def r1_def)
  have b: "0 \<le> b" "b \<le> 4" using e400 r400 r100 by linarith+
  have c: "0 \<le> c" "c \<le> 24" using e100 r100 r4 by linarith+
  have d: "0 \<le> d" "d \<le> 4" using e4 r4 r1 by linarith+
  have total: "n0 = a * 146097 + b * 36524 + c * 1461 + d * 365 + r1 + 1"
    using n e400 e100 e4 by (simp add: n_def)
  have f: "fromordinal n0 =
     (if d = 4 \<or> b = 4 then Date (y - 1) 12 31
      else if preceding > r1
           then Date y (m - 1)
                  (r1 - (preceding - (DAYS_IN_MONTH (m - 1) + (if m - 1 = 2 \<and> L then 1 else 0))) + 1)
           else Date y m (r1 - preceding + 1))"
    unfolding fromordinal_def Let_def n_def [symmetric] a_def [symmetric] r400_def [symmetric]
      b_def [symmetric] r100_def [symmetric] c_def [symmetric] r4_def [symmetric]
      d_def [symmetric] r1_def [symmetric] y_def [symmetric] L_def [symmetric]
      m_def [symmetric] preceding_def [symmetric]
    by simp
  show ?thesis
  proof (cases "b = 4")
    case True
    then have z: "r100 = 0" "c = 0" "r4 = 0" "d = 0" "r1 = 0"
      using e400 r400 r100 e100 e4 c d r4 r1 by linarith+
    have y1: "y - 1 = a * 400 + 1 + 3 * 100 + 24 * 4 + 3" using True z by (simp add: y_def)
    have "toordinal (Date (y - 1) 12 31) = a * 146097 + 3 * 36524 + 24 * 1461 + 3 * 365 + 335 + 31"
      unfolding toordinal_def y1 days_before_month_def
      using days_before_year_cycle [of 3 24 3 a] is_leap_cycle [of 3 24 3 a]
      by (simp add: DAYS_BEFORE_MONTH_def)
    then show ?thesis using f True total z by simp
  next
    case nb: False
    then have b3: "b \<le> 3" using b by simp
    show ?thesis
    proof (cases "d = 4")
      case True
      then have z: "r1 = 0" using e4 r4 r1 by linarith
      have c23: "c \<le> 23" using True e4 e100 r100 z c by linarith
      have y1: "y - 1 = a * 400 + 1 + b * 100 + c * 4 + 3" using True by (simp add: y_def)
      have "toordinal (Date (y - 1) 12 31)
            = a * 146097 + b * 36524 + c * 1461 + 3 * 365 + 335 + 31"
        unfolding toordinal_def y1 days_before_month_def
        using days_before_year_cycle [of b c 3 a] is_leap_cycle [of b c 3 a] b b3 c c23
        by (simp add: DAYS_BEFORE_MONTH_def)
      then show ?thesis using f True total z by simp
    next
      case nd: False
      then have d3: "d \<le> 3" using d by simp
      have dby: "days_before_year y = a * 146097 + b * 36524 + c * 1461 + d * 365"
        unfolding y_def using days_before_year_cycle [of b c d a] b b3 c d d3 by simp
      have leap: "is_leap y = L"
        unfolding y_def L_def using is_leap_cycle [of b c d a] b b3 c d d3 by simp
      show ?thesis
      proof (cases "preceding > r1")
        case True
        have m12: "1 \<le> m" "m \<le> 12" using r1 unfolding m_def by linarith+
        have "m \<noteq> 1"
        proof
          assume "m = 1"
          then have "preceding = 0" by (simp add: preceding_def DAYS_BEFORE_MONTH_def)
          with True r1 show False by simp
        qed
        then have m2: "2 \<le> m" using m12 by simp
        have "days_before_month y (m - 1)
              = preceding - (DAYS_IN_MONTH (m - 1) + (if m - 1 = 2 \<and> L then 1 else 0))"
          unfolding days_before_month_def leap preceding_def
          using days_before_previous_month [OF m2 m12(2)] by auto
        then have "toordinal (Date y (m - 1)
                  (r1 - (preceding - (DAYS_IN_MONTH (m - 1) + (if m - 1 = 2 \<and> L then 1 else 0))) + 1))
              = days_before_year y + r1 + 1"
          by (simp add: toordinal_def)
        then show ?thesis using f nb nd True total dby by simp
      next
        case False
        have "days_before_month y m = preceding"
          by (simp add: days_before_month_def leap preceding_def)
        then have "toordinal (Date y m (r1 - preceding + 1)) = days_before_year y + r1 + 1"
          by (simp add: toordinal_def)
        then show ?thesis using f nb nd False total dby by simp
      qed
    qed
  qed
qed

section \<open>Properties of compliance generation\<close>

lemma month_step_mar: "advance_due_date (nat 1) 2 (Date 2024 3 15) = Inr (Date 2024 1 15)"
  by code_simp

lemma month_step_jan: "advance_due_date (nat 1) 2 (Date 2024 1 15) = Inr (Date 2024 1 15)"
  by code_simp

lemma monthly_loop_aux:
  assumes "recurrence_loop p a e r cur cs = Some y"
  shows "\<not> (e = Date 2025 3 1 \<and> r = monthly_requirement
      \<and> (cur = Date 2024 3 15 \<or> cur = Date 2024 1 15)
      \<and> length (filter (\<lambda>c. c_requirement c = 2 \<and> c_due_date c = Date 2024 1 15) cs) \<le> 1)"
proof (rule recurrence_loop.raw_induct
    [where P = "\<lambda>p a e r cur cs y. \<not> (e = Date 2025 3 1 \<and> r = monthly_requirement
      \<and> (cur = Date 2024 3 15 \<or> cur = Date 2024 1 15)
      \<and> length (filter (\<lambda>c. c_requirement c = 2 \<and> c_due_date c = Date 2024 1 15) cs) \<le> 1)",
     OF _ assms])
  fix loop :: "nat \<Rightarrow> nat \<Rightarrow> date \<Rightarrow> requirement \<Rightarrow> date \<Rightarrow> compliance list
     \<Rightarrow> (generate_error + compliance list) option"
  fix p a e r cur cs y
  assume IH: "\<And>p a e r cur cs y. loop p a e r cur cs = Some y \<Longrightarrow>
      \<not> (e = Date 2025 3 1 \<and> r = monthly_requirement
      \<and> (cur = Date 2024 3 15 \<or> cur = Date 2024 1 15)
      \<and> length (filter (\<lambda>c. c_requirement c = 2 \<and> c_due_date c = Date 2024 1 15) cs) \<le> 1)"
  assume eq: "(if date_less cur e
      then case req_recurrence_schedule r of
             None \<Rightarrow> Some (Inl RangeTypeError)
           | Some schedule \<Rightarrow>
               (case advance_due_date (nat schedule) (req_recurrence_pattern r) cur of
                  Inl e \<Rightarrow> Some (Inl (DateError e))
                | Inr next_date \<Rightarrow>
                    if date_le next_date e
                    then case get_or_create_compliance p a r next_date cs of
                           Inl e \<Rightarrow> Some (Inl e)
                         | Inr cs' \<Rightarrow> loop p a e r next_date cs'
                    else loop p a e r next_date cs)
      else Some (Inr cs)) = Some y"
  show "\<not> (e = Date 2025 3 1 \<and> r = monthly_requirement
      \<and> (cur = Date 2024 3 15 \<or> cur = Date 2024 1 15)
      \<and> length (filter (\<lambda>c. c_requirement c = 2 \<and> c_due_date c = Date 2024 1 15) cs) \<le> 1)"
  proof
    assume bad: "e = Date 2025 3 1 \<and> r = monthly_requirement
      \<and> (cur = Date 2024 3 15 \<or> cur = Date 2024 1 15)
      \<and> length (filter (\<lambda>c. c_requirement c = 2 \<and> c_due_date c = Date 2024 1 15) cs) \<le> 1"
    have step: "advance_due_date (nat 1) 2 cur = Inr (Date 2024 1 15)"
      using bad month_step_mar month_step_jan by auto
    have lt: "date_less cur e" and le: "date_le (Date 2024 1 15) e"
      using bad by (auto simp: date_less_def date_le_def)
    obtain cs' where goc: "get_or_create_compliance p a r (Date 2024 1 15) cs = Inr cs'"
      and len: "length (filter (\<lambda>c. c_requirement c = 2 \<and> c_due_date c = Date 2024 1 15) cs') \<le> 1"
      using bad
      by (cases "filter (\<lambda>c. c_requirement c = 2 \<and> c_due_date c = Date 2024 1 15) cs")
         (auto simp: get_or_create_compliance_def monthly_requirement_def split: list.splits)
    from eq have "loop p a e r (Date 2024 1 15) cs' = Some y"
      using bad step lt le goc by (simp add: monthly_requirement_def)
    from IH [OF this] show False using bad len by simp
  qed
qed

text \<open>
  C5, at a requirement due on 2024-03-15 that recurs every month, on an approval that
  expires on 2025-03-01, generated on 2024-03-01 into an empty compliance table: the step
  \<^verbatim>\<open>relativedelta(month=1)\<close> sets the date to 2024-01-15 and keeps it there, the date
  never reaches the expiry date, and \<^verbatim>\<open>generate_compliances\<close> does not return.
\<close>

theorem monthly_recurrence_never_returns:
  "generate_compliances (Date 2024 3 1) 5 6 (Date 2025 3 1) [monthly_requirement] [] = None"
proof -
  have "recurrence_loop 5 6 (Date 2025 3 1) monthly_requirement (Date 2024 3 15)
          [\<lparr>c_proposal = 5, c_approval = 6, c_requirement = 2, c_due_date = Date 2024 3 15,
            c_processing_status = Future\<rparr>] = None"
    using monthly_loop_aux [of 5 6 "Date 2025 3 1" monthly_requirement "Date 2024 3 15"
        "[\<lparr>c_proposal = 5, c_approval = 6, c_requirement = 2, c_due_date = Date 2024 3 15,
            c_processing_status = Future\<rparr>]"]
    by (cases "recurrence_loop 5 6 (Date 2025 3 1) monthly_requirement (Date 2024 3 15)
          [\<lparr>c_proposal = 5, c_approval = 6, c_requirement = 2, c_due_date = Date 2024 3 15,
            c_processing_status = Future\<rparr>]") auto
  then show ?thesis
    by (simp add: generate_compliances_def generate_for_requirement_def
        get_or_create_compliance_def monthly_requirement_def date_le_def date_less_def)
qed

section \<open>Properties of renewal\<close>

lemma add_days_ordinal:
  "add_days d n = Inr d' \<Longrightarrow> toordinal d' = toordinal d + n"
  by (auto simp: add_days_def Let_def toordinal_fromordinal split: if_splits)

lemma renew_approval_dates:
  assumes "filter (\<lambda>p. np_previous_application p = Some (np_id self)
                        \<and> np_processing_status p = WithAssessor) db = []"
    and "filter (\<lambda>p. np_id p = np_id self) db = [previous]"
    and "np_proposed_issuance_approval previous = Some pi"
    and "pi_start_date pi = Some s" and "pi_expiry_date pi = Some e"
    and "add_days e 1 = Inr start'" and "add_days e (diff_days e s) = Inr expiry'"
  shows "renew_approval self db =
     Inr (\<lparr>np_id = fresh_id db, np_previous_application = Some (np_id previous),
           np_processing_status = Draft, np_proposal_type = Some Renewal,
           np_proposed_issuance_approval =
             Some (pi\<lparr>pi_details := None, pi_approved_on := None, pi_approved_by := None,
                      pi_start_date := Some start', pi_expiry_date := Some expiry'\<rparr>)\<rparr>,
          db @ [\<lparr>np_id = fresh_id db, np_previous_application = Some (np_id previous),
           np_processing_status = Draft, np_proposal_type = Some Renewal,
           np_proposed_issuance_approval =
             Some (pi\<lparr>pi_details := None, pi_approved_on := None, pi_approved_by := None,
                      pi_start_date := Some start', pi_expiry_date := Some expiry'\<rparr>)\<rparr>])"
  using assms by (simp add: renew_approval_def Let_def)

lemma add_days_in_range:
  "0 < toordinal d + n \<Longrightarrow> toordinal d + n \<le> MAXORDINAL \<Longrightarrow>
   add_days d n = Inr (fromordinal (toordinal d + n))"
  by (simp add: add_days_def Let_def)

text \<open>
  C7. For a proposal with no renewal awaiting assessment, whose
  \<^verbatim>\<open>proposed_issuance_approval\<close> holds start date \<open>s\<close> and expiry date \<open>e\<close>, with both
  new dates inside the range of \<^verbatim>\<open>datetime\<close>, \<^verbatim>\<open>renew_approval\<close> returns a renewal whose
  proposed start date is \<open>e\<close> plus one day and whose proposed expiry date is \<open>e\<close> plus
  the number of days from \<open>s\<close> to \<open>e\<close>; counted in days, the new start is the day after
  \<open>e\<close> and the new expiry is as far after \<open>e\<close> as \<open>e\<close> is after \<open>s\<close>. For
  2024-01-01 to 2024-12-31 the renewal gets 2025-01-01 to 2025-12-31.
\<close>

theorem renew_approval_period:
  "(filter (\<lambda>p. np_previous_application p = Some (np_id self)
                  \<and> np_processing_status p = WithAssessor) db = []
     \<and> filter (\<lambda>p. np_id p = np_id self) db = [previous]
     \<and> np_proposed_issuance_approval previous = Some pi
     \<and> pi_start_date pi = Some s \<and> pi_expiry_date pi = Some e
     \<and> 0 < toordinal e + 1 \<and> toordinal e + 1 \<le> MAXORDINAL
     \<and> 0 < toordinal e + (toordinal e - toordinal s)
     \<and> toordinal e + (toordinal e - toordinal s) \<le> MAXORDINAL \<longrightarrow>
    (\<exists>proposal db' pi' start' expiry'.
        renew_approval self db = Inr (proposal, db')
        \<and> np_proposed_issuance_approval proposal = Some pi'
        \<and> pi_start_date pi' = Some start' \<and> pi_expiry_date pi' = Some expiry'
        \<and> add_days e 1 = Inr start' \<and> add_days e (diff_days e s) = Inr expiry'
        \<and> toordinal start' = toordinal e + 1
        \<and> toordinal expiry' - toordinal e = toordinal e - toordinal s))
   \<and> (\<exists>proposal db' pi'.
        renew_approval proposal_2024 [proposal_2024] = Inr (proposal, db')
        \<and> np_proposed_issuance_approval proposal = Some pi'
        \<and> pi_start_date pi' = Some (Date 2025 1 1)
        \<and> pi_expiry_date pi' = Some (Date 2025 12 31))"
proof (intro conjI impI)
  assume h: "filter (\<lambda>p. np_previous_application p = Some (np_id self)
                  \<and> np_processing_status p = WithAssessor) db = []
     \<and> filter (\<lambda>p. np_id p = np_id self) db = [previous]
     \<and> np_proposed_issuance_approval previous = Some pi
     \<and> pi_start_date pi = Some s \<and> pi_expiry_date pi = Some e
     \<and> 0 < toordinal e + 1 \<and> toordinal e + 1 \<le> MAXORDINAL
     \<and> 0 < toordinal e + (toordinal e - toordinal s)
     \<and> toordinal e + (toordinal e - toordinal s) \<le> MAXORDINAL"
  define start' where "start' = fromordinal (toordinal e + 1)"
  define expiry' where "expiry' = fromordinal (toordinal e + diff_days e s)"
  have a1: "add_days e 1 = Inr start'"
    using h add_days_in_range [of e 1] by (simp add: start'_def)
  have a2: "add_days e (diff_days e s) = Inr expiry'"
    using h add_days_in_range [of e "diff_days e s"] by (simp add: expiry'_def diff_days_def)
  have o1: "toordinal start' = toordinal e + 1"
    using add_days_ordinal [OF a1] .
  have o2: "toordinal expiry' - toordinal e = toordinal e - toordinal s"
    using add_days_ordinal [OF a2] by (simp add: diff_days_def)
  from h have r: "renew_approval self db =
     Inr (\<lparr>np_id = fresh_id db, np_previous_application = Some (np_id previous),
           np_processing_status = Draft, np_proposal_type = Some Renewal,
           np_proposed_issuance_approval =
             Some (pi\<lparr>pi_details := None, pi_approved_on := None, pi_approved_by := None,
                      pi_start_date := Some start', pi_expiry_date := Some expiry'\<rparr>)\<rparr>,
          db @ [\<lparr>np_id = fresh_id db, np_previous_application = Some (np_id previous),
           np_processing_status = Draft, np_proposal_type = Some Renewal,
           np_proposed_issuance_approval =
             Some (pi\<lparr>pi_details := None, pi_approved_on := None, pi_approved_by := None,
                      pi_start_date := Some start', pi_expiry_date := Some expiry'\<rparr>)\<rparr>])"
    using renew_approval_dates [of self db previous pi s e start' expiry'] a1 a2 by blast
  show "\<exists>proposal db' pi' start' expiry'.
        renew_approval self db = Inr (proposal, db')
        \<and> np_proposed_issuance_approval proposal = Some pi'
        \<and> pi_start_date pi' = Some start' \<and> pi_expiry_date pi' = Some expiry'
        \<and> add_days e 1 = Inr start' \<and> add_days e (diff_days e s) = Inr expiry'
        \<and> toordinal start' = toordinal e + 1
        \<and> toordinal expiry' - toordinal e = toordinal e - toordinal s"
    using r a1 a2 o1 o2 by auto
next
  have "renew_approval proposal_2024 [proposal_2024] =
     Inr (\<lparr>np_id = 2, np_previous_application = Some 1,
           np_processing_status = Draft, np_proposal_type = Some Renewal,
           np_proposed_issuance_approval =
             Some \<lparr>pi_details = None, pi_approved_on = None, pi_approved_by = None,
                   pi_start_date = Some (Date 2025 1 1),
                   pi_expiry_date = Some (Date 2025 12 31)\<rparr>\<rparr>,
          [proposal_2024,
           \<lparr>np_id = 2, np_previous_application = Some 1,
           np_processing_status = Draft, np_proposal_type = Some Renewal,
           np_proposed_issuance_approval =
             Some \<lparr>pi_details = None, pi_approved_on = None, pi_approved_by = None,
                   pi_start_date = Some (Date 2025 1 1),
                   pi_expiry_date = Some (Date 2025 12 31)\<rparr>\<rparr>])"
    by code_simp
  then show "\<exists>proposal db' pi'.
        renew_approval proposal_2024 [proposal_2024] = Inr (proposal, db')
        \<and> np_proposed_issuance_approval proposal = Some pi'
        \<and> pi_start_date pi' = Some (Date 2025 1 1)
        \<and> pi_expiry_date pi' = Some (Date 2025 12 31)"
    by simp
qed

theorem renew_approval_period_witness:
  "filter (\<lambda>p. np_previous_application p = Some (np_id proposal_2024)
                  \<and> np_processing_status p = WithAssessor) [proposal_2024] = []
   \<and> filter (\<lambda>p. np_id p = np_id proposal_2024) [proposal_2024] = [proposal_2024]
   \<and> 0 < toordinal (Date 2024 12 31) + 1 \<and> toordinal (Date 2024 12 31) + 1 \<le> MAXORDINAL
   \<and> 0 < toordinal (Date 2024 12 31) + (toordinal (Date 2024 12 31) - toordinal (Date 2024 1 1))
   \<and> toordinal (Date 2024 12 31) + (toordinal (Date 2024 12 31) - toordinal (Date 2024 1 1))
       \<le> MAXORDINAL
   \<and> (\<exists>proposal db' pi' start' expiry'.
        renew_approval proposal_2024 [proposal_2024] = Inr (proposal, db')
        \<and> np_proposed_issuance_approval proposal = Some pi'
        \<and> pi_start_date pi' = Some start' \<and> pi_expiry_date pi' = Some expiry'
        \<and> toordinal start' = toordinal (Date 2024 12 31) + 1
        \<and> toordinal expiry' - toordinal (Date 2024 12 31)
            = toordinal (Date 2024 12 31) - toordinal (Date 2024 1 1))"
proof -
  let ?pi = "\<lparr>pi_details = Some ''ok'', pi_approved_on = Some 100,
       pi_approved_by = Some 3, pi_start_date = Some (Date 2024 1 1),
       pi_expiry_date = Some (Date 2024 12 31)\<rparr>"
  have o: "toordinal (Date 2024 12 31) = 739251" "toordinal (Date 2024 1 1) = 738886"
    by code_simp+
  have h1: "filter (\<lambda>p. np_previous_application p = Some (np_id proposal_2024)
                  \<and> np_processing_status p = WithAssessor) [proposal_2024] = []
     \<and> filter (\<lambda>p. np_id p = np_id proposal_2024) [proposal_2024] = [proposal_2024]
     \<and> np_proposed_issuance_approval proposal_2024 = Some ?pi
     \<and> pi_start_date ?pi = Some (Date 2024 1 1) \<and> pi_expiry_date ?pi = Some (Date 2024 12 31)"
    by (simp add: proposal_2024_def)
  have h2: "0 < toordinal (Date 2024 12 31) + 1 \<and> toordinal (Date 2024 12 31) + 1 \<le> MAXORDINAL
     \<and> 0 < toordinal (Date 2024 12 31) + (toordinal (Date 2024 12 31) - toordinal (Date 2024 1 1))
     \<and> toordinal (Date 2024 12 31) + (toordinal (Date 2024 12 31) - toordinal (Date 2024 1 1))
         \<le> MAXORDINAL"
    by (simp add: o MAXORDINAL_def)
  from renew_approval_period [of proposal_2024 "[proposal_2024]" proposal_2024 ?pi
      "Date 2024 1 1" "Date 2024 12 31"] h1 h2
  have "\<exists>proposal db' pi' start' expiry'.
        renew_approval proposal_2024 [proposal_2024] = Inr (proposal, db')
        \<and> np_proposed_issuance_approval proposal = Some pi'
        \<and> pi_start_date pi' = Some start' \<and> pi_expiry_date pi' = Some expiry'
        \<and> toordinal start' = toordinal (Date 2024 12 31) + 1
        \<and> toordinal expiry' - toordinal (Date 2024 12 31)
            = toordinal (Date 2024 12 31) - toordinal (Date 2024 1 1)"
    by blast
  with h1 h2 show ?thesis by blast
qed

section \<open>Properties of the gross turnover requirements\<close>

lemma fold_max_ge: "(x::nat) \<in> set xs \<Longrightarrow> x \<le> fold max xs a"
proof (induction xs arbitrary: a)
  case Nil
  then show ?case by simp
next
  case (Cons y ys)
  have mono: "\<And>b. b \<le> fold max ys b"
  proof -
    fix b show "b \<le> fold max ys b"
    proof (induction ys arbitrary: b)
      case Nil
      then show ?case by simp
    next
      case (Cons z zs)
      have "b \<le> max z b" by simp
      also have "\<dots> \<le> fold max zs (max z b)" by (rule Cons.IH)
      finally show ?case by simp
    qed
  qed
  show ?case
  proof (cases "x = y")
    case True
    have "y \<le> max y a" by simp
    also have "\<dots> \<le> fold max ys (max y a)" by (rule mono)
    finally show ?thesis using True by simp
  next
    case False
    with Cons show ?thesis by simp
  qed
qed

lemma next_requirement_id_fresh:
  "r \<in> set (proposal_requirements db) \<Longrightarrow> pr_id r \<noteq> next_requirement_id db"
  using fold_max_ge [of "pr_id r" "map pr_id (proposal_requirements db)" 0]
  by (auto simp: next_requirement_id_def)

lemma save_requirement_same:
  assumes "distinct (map pr_id (proposal_requirements db))" "obj \<in> set (proposal_requirements db)"
  shows "save_requirement obj db = db"
proof -
  have "\<And>r. r \<in> set (proposal_requirements db) \<Longrightarrow> pr_id r = pr_id obj \<Longrightarrow> r = obj"
    using assms by (meson distinct_map inj_onD)
  then have "map (\<lambda>r. if pr_id r = pr_id obj then obj else r) (proposal_requirements db)
             = proposal_requirements db"
    by (intro map_idI) auto
  then show ?thesis by (simp add: save_requirement_def)
qed

lemma update_is_deleted_none:
  assumes "\<forall>r\<in>set (proposal_requirements db). \<not> selected r"
  shows "update_is_deleted selected db = db"
proof -
  have "map (\<lambda>r. if selected r then r\<lparr>pr_is_deleted := True\<rparr> else r) (proposal_requirements db)
        = proposal_requirements db"
    using assms by (intro map_idI) auto
  then show ?thesis by (simp add: update_is_deleted_def)
qed


lemma keeps_rows_refl: "keeps_rows db db"
  by (simp add: keeps_rows_def same_key_def)

lemma keeps_rows_trans: "keeps_rows a b \<Longrightarrow> keeps_rows b c \<Longrightarrow> keeps_rows a c"
  by (fastforce simp: keeps_rows_def same_key_def)

lemma keeps_rows_update: "keeps_rows db (update_is_deleted selected db)"
  by (simp add: keeps_rows_def same_key_def update_is_deleted_def)

lemma keeps_rows_append:
  "keeps_rows db (db\<lparr>proposal_requirements := proposal_requirements db @ [obj]\<rparr>)"
  by (simp add: keeps_rows_def same_key_def nth_append)

lemma keeps_rows_save:
  assumes "distinct (map pr_id (proposal_requirements db))"
    and "old \<in> set (proposal_requirements db)" and "same_key old obj"
  shows "keeps_rows db (save_requirement obj db)"
proof -
  have u: "\<And>r. r \<in> set (proposal_requirements db) \<Longrightarrow> pr_id r = pr_id old \<Longrightarrow> r = old"
    using assms(1,2) by (meson distinct_map inj_onD)
  have "\<And>i. i < length (proposal_requirements db) \<Longrightarrow>
      pr_id (proposal_requirements db ! i) = pr_id obj \<Longrightarrow> proposal_requirements db ! i = old"
    using u assms(3) by (simp add: same_key_def)
  then show ?thesis
    using assms(3)
    by (auto simp: keeps_rows_def save_requirement_def same_key_def)
qed

lemma distinct_update:
  "distinct (map pr_id (proposal_requirements (update_is_deleted selected db)))
   = distinct (map pr_id (proposal_requirements db))"
proof -
  have "map pr_id (proposal_requirements (update_is_deleted selected db))
        = map pr_id (proposal_requirements db)"
    by (simp add: update_is_deleted_def comp_def if_distrib [of pr_id] cong: if_cong)
  then show ?thesis by simp
qed

lemma distinct_save:
  assumes "distinct (map pr_id (proposal_requirements db))"
  shows "distinct (map pr_id (proposal_requirements (save_requirement obj db)))"
proof -
  have "map pr_id (proposal_requirements (save_requirement obj db))
        = map pr_id (proposal_requirements db)"
    by (auto simp: save_requirement_def)
  then show ?thesis using assms by simp
qed

lemma distinct_append:
  assumes "distinct (map pr_id (proposal_requirements db))"
    and "pr_id obj = next_requirement_id db"
  shows "distinct (map pr_id (proposal_requirements
           (db\<lparr>proposal_requirements := proposal_requirements db @ [obj]\<rparr>)))"
proof -
  have "pr_id obj \<notin> set (map pr_id (proposal_requirements db))"
  proof
    assume "pr_id obj \<in> set (map pr_id (proposal_requirements db))"
    then obtain x where "x \<in> set (proposal_requirements db)" "pr_id x = pr_id obj" by auto
    then show False using next_requirement_id_fresh [of x db] assms(2) by simp
  qed
  then show ?thesis using assms(1) by simp
qed


lemma standard_requirements_update [simp]:
  "standard_requirements (update_is_deleted selected db) = standard_requirements db"
  by (simp add: update_is_deleted_def)

lemma standard_requirements_save [simp]:
  "standard_requirements (save_requirement obj db) = standard_requirements db"
  by (simp add: save_requirement_def)

lemma code_cong:
  assumes "standard_requirements db' = standard_requirements db"
    and "pr_standard_requirement r' = pr_standard_requirement r"
  shows "standard_requirement_code db' r' = standard_requirement_code db r"
  unfolding standard_requirement_code_def standard_requirement_of_def assms ..

lemma get_standard_requirement_cong:
  assumes "standard_requirements db' = standard_requirements db"
  shows "get_standard_requirement db' code = get_standard_requirement db code"
  unfolding get_standard_requirement_def assms ..

lemma get_standard_requirement_Inr:
  assumes "get_standard_requirement db code = Inr s"
  shows "s \<in> set (standard_requirements db)" and "sr_code s = code"
proof -
  have f: "filter (\<lambda>s. sr_code s = code) (standard_requirements db) = [s]"
    using assms by (auto simp: get_standard_requirement_def split: list.splits)
  have "s \<in> set (filter (\<lambda>s. sr_code s = code) (standard_requirements db))"
    unfolding f by simp
  then show "s \<in> set (standard_requirements db)" and "sr_code s = code" by auto
qed

lemma find_by_id:
  assumes "distinct (map sr_id xs)" "s \<in> set xs"
  shows "find (\<lambda>x. sr_id x = sr_id s) xs = Some s"
  using assms
proof (induction xs)
  case Nil
  then show ?case by simp
next
  case (Cons x xs)
  then show ?case by (auto simp: image_iff)
qed

lemma code_of_row:
  assumes "distinct (map sr_id (standard_requirements db))"
    and "get_standard_requirement db code = Inr s"
    and "pr_standard_requirement r = Some (sr_id s)"
  shows "standard_requirement_code db r = Some code"
  using find_by_id [OF assms(1) get_standard_requirement_Inr(1) [OF assms(2)]]
    get_standard_requirement_Inr(2) [OF assms(2)] assms(3)
  by (simp add: standard_requirement_code_def standard_requirement_of_def)

lemma get_or_create_cases:
  assumes "get_or_create_requirement self sr nd db = Inr (obj, created, db')"
  shows "(created
          \<and> filter (\<lambda>r. pr_proposal r = self \<and> pr_standard_requirement r = Some (sr_id sr)
                       \<and> (nd \<longrightarrow> \<not> pr_is_deleted r)) (proposal_requirements db) = []
          \<and> obj = \<lparr>pr_id = next_requirement_id db, pr_proposal = self,
                     pr_standard_requirement = Some (sr_id sr), pr_is_deleted = False,
                     pr_due_date = None, pr_reminder_date = None, pr_recurrence = False,
                     pr_recurrence_pattern = 1, pr_recurrence_schedule = None,
                     pr_req_order = Some (next_req_order self db)\<rparr>
          \<and> db' = db\<lparr>proposal_requirements := proposal_requirements db @ [obj]\<rparr>)
       \<or> (\<not> created
          \<and> filter (\<lambda>r. pr_proposal r = self \<and> pr_standard_requirement r = Some (sr_id sr)
                       \<and> (nd \<longrightarrow> \<not> pr_is_deleted r)) (proposal_requirements db) = [obj]
          \<and> db' = db)"
  using assms by (auto simp: get_or_create_requirement_def Let_def split: list.splits)

lemma filter_singleton_mem: "filter P xs = [x] \<Longrightarrow> x \<in> set xs \<and> P x"
proof -
  assume "filter P xs = [x]"
  then have "x \<in> set (filter P xs)" by simp
  then show ?thesis by simp
qed


lemma save_requirement_rows:
  assumes "distinct (map pr_id (proposal_requirements db))"
    and "old \<in> set (proposal_requirements db)" and "pr_id obj = pr_id old"
  shows "proposal_requirements (save_requirement obj db)
         = map (\<lambda>r. if r = old then obj else r) (proposal_requirements db)"
proof -
  have u: "\<And>r. r \<in> set (proposal_requirements db) \<Longrightarrow> pr_id r = pr_id old \<longleftrightarrow> r = old"
    using assms(1,2) by (meson distinct_map inj_onD)
  show ?thesis
    unfolding save_requirement_def using u assms(3) by (auto intro!: map_cong)
qed

lemma filter_replace:
  assumes "Q obj = Q old"
  shows "filter Q (map (\<lambda>r. if r = old then obj else r) xs)
         = map (\<lambda>r. if r = old then obj else r) (filter Q xs)"
  using assms by (induction xs) auto

lemma cadence_post:
  assumes run: "ensure_cadence_requirement other this self details db = Inr db'"
    and pk: "primary_keys_distinct db"
    and ne: "other \<noteq> this"
    and cp: "approval_current_proposal details = Some c"
  shows "standard_requirements db' = standard_requirements db"
    and "primary_keys_distinct db'"
    and "keeps_rows db db'"
    and "\<exists>s m. get_standard_requirement db this = Inr s
          \<and> filter (\<lambda>r. pr_proposal r = self \<and> pr_standard_requirement r = Some (sr_id s))
               (proposal_requirements db') = [m] \<and> \<not> pr_is_deleted m"
    and "\<forall>r\<in>set (proposal_requirements db').
           standard_requirement_code db' r = Some other \<and> pr_proposal r = c \<longrightarrow> pr_is_deleted r"
proof -
  define P where "P = (\<lambda>r. standard_requirement_code db r = Some other
                      \<and> pr_proposal r = c \<and> \<not> pr_is_deleted r)"
  define db1 where "db1 = update_is_deleted P db"
  have srs1: "standard_requirements db1 = standard_requirements db"
    by (simp add: db1_def)
  have d: "distinct (map pr_id (proposal_requirements db))"
    and ds: "distinct (map sr_id (standard_requirements db))"
    using pk by (simp_all add: primary_keys_distinct_def)
  have d1: "distinct (map pr_id (proposal_requirements db1))"
    unfolding db1_def using d by (simp add: distinct_update)
  have unf: "ensure_cadence_requirement other this self details db =
      (case get_standard_requirement db1 this of
         Inl e \<Rightarrow> Inl (e, db1)
       | Inr t \<Rightarrow>
           (case get_or_create_requirement self t False db1 of
              Inl e \<Rightarrow> Inl (e, db1)
            | Inr (obj, created, db2) \<Rightarrow>
                if \<not> created
                then Inr (save_requirement (obj\<lparr>pr_is_deleted := False\<rparr>) db2)
                else Inr db2))"
    unfolding ensure_cadence_requirement_def db1_def P_def cp by (simp add: Let_def)
  obtain s where gs1: "get_standard_requirement db1 this = Inr s"
    using run unfolding unf by (cases "get_standard_requirement db1 this") auto
  obtain obj created db2
    where goc: "get_or_create_requirement self s False db1 = Inr (obj, created, db2)"
    using run unfolding unf gs1
    by (cases "get_or_create_requirement self s False db1") auto
  have res: "db' = (if \<not> created then save_requirement (obj\<lparr>pr_is_deleted := False\<rparr>) db2
                       else db2)"
    using run unfolding unf gs1 by (simp add: goc split: if_splits)
  have gs: "get_standard_requirement db this = Inr s"
    using gs1 get_standard_requirement_cong [OF srs1] by simp
  have F1: "\<forall>r\<in>set (proposal_requirements db1).
           standard_requirement_code db r = Some other \<and> pr_proposal r = c \<longrightarrow> pr_is_deleted r"
  proof
    fix r assume "r \<in> set (proposal_requirements db1)"
    then obtain r0 where r0: "r0 \<in> set (proposal_requirements db)"
      and r: "r = (if P r0 then r0\<lparr>pr_is_deleted := True\<rparr> else r0)"
      unfolding db1_def update_is_deleted_def by auto
    show "standard_requirement_code db r = Some other \<and> pr_proposal r = c \<longrightarrow> pr_is_deleted r"
    proof (cases "P r0")
      case True
      then show ?thesis using r by simp
    next
      case False
      then show ?thesis using r unfolding P_def by simp
    qed
  qed
  have k1: "keeps_rows db db1" unfolding db1_def by (rule keeps_rows_update)
  let ?Q = "\<lambda>r. pr_proposal r = self \<and> pr_standard_requirement r = Some (sr_id s)"
  have codeQ: "\<And>r. ?Q r \<Longrightarrow> standard_requirement_code db r = Some this"
    using code_of_row [OF ds gs] by simp
  from get_or_create_cases [OF goc]
  consider (new) "created"
      "filter ?Q (proposal_requirements db1) = []"
      "obj = \<lparr>pr_id = next_requirement_id db1, pr_proposal = self,
                     pr_standard_requirement = Some (sr_id s), pr_is_deleted = False,
                     pr_due_date = None, pr_reminder_date = None, pr_recurrence = False,
                     pr_recurrence_pattern = 1, pr_recurrence_schedule = None,
                     pr_req_order = Some (next_req_order self db1)\<rparr>"
      "db2 = db1\<lparr>proposal_requirements := proposal_requirements db1 @ [obj]\<rparr>"
    | (old) "\<not> created" "filter ?Q (proposal_requirements db1) = [obj]" "db2 = db1"
    by auto
  then have all: "standard_requirements db' = standard_requirements db
    \<and> primary_keys_distinct db' \<and> keeps_rows db db'
    \<and> (\<exists>m. filter ?Q (proposal_requirements db') = [m] \<and> \<not> pr_is_deleted m)
    \<and> (\<forall>r\<in>set (proposal_requirements db').
           standard_requirement_code db r = Some other \<and> pr_proposal r = c \<longrightarrow> pr_is_deleted r)"
  proof cases
    case new
    have db': "db' = db1\<lparr>proposal_requirements := proposal_requirements db1 @ [obj]\<rparr>"
      using res new by simp
    have Qobj: "?Q obj" and nd: "\<not> pr_is_deleted obj" and oid: "pr_id obj = next_requirement_id db1"
      using new(3) by simp_all
    have 1: "standard_requirements db' = standard_requirements db"
      using db' srs1 by simp
    have 2: "primary_keys_distinct db'"
      unfolding primary_keys_distinct_def 1 unfolding db'
      using distinct_append [OF d1 oid] ds by simp
    have 3: "keeps_rows db db'"
      unfolding db' using keeps_rows_trans [OF k1 keeps_rows_append] .
    have 4: "filter ?Q (proposal_requirements db') = [obj]"
      unfolding db' using new(2) Qobj by simp
    have 5: "\<forall>r\<in>set (proposal_requirements db').
           standard_requirement_code db r = Some other \<and> pr_proposal r = c \<longrightarrow> pr_is_deleted r"
      unfolding db' using F1 codeQ [OF Qobj] ne by auto
    show ?thesis using 1 2 3 4 5 nd by blast
  next
    case old
    let ?obj = "obj\<lparr>pr_is_deleted := False\<rparr>"
    have db': "db' = save_requirement ?obj db1" using res old by simp
    have mem: "obj \<in> set (proposal_requirements db1)" and Qobj: "?Q obj"
      using filter_singleton_mem [OF old(2)] by simp_all
    have rows: "proposal_requirements db'
                = map (\<lambda>r. if r = obj then ?obj else r) (proposal_requirements db1)"
      unfolding db' using save_requirement_rows [OF d1 mem, of ?obj] by simp
    have 1: "standard_requirements db' = standard_requirements db"
      using db' srs1 by simp
    have 2: "primary_keys_distinct db'"
      unfolding primary_keys_distinct_def 1 unfolding db'
      using distinct_save [OF d1] ds by simp
    have "keeps_rows db1 db'"
      unfolding db' by (rule keeps_rows_save [OF d1 mem]) (simp add: same_key_def)
    then have 3: "keeps_rows db db'" using keeps_rows_trans [OF k1] by blast
    have 4: "filter ?Q (proposal_requirements db') = [?obj]"
      unfolding rows using filter_replace [of ?Q ?obj obj "proposal_requirements db1"] old(2)
      by simp
    have 5: "\<forall>r\<in>set (proposal_requirements db').
           standard_requirement_code db r = Some other \<and> pr_proposal r = c \<longrightarrow> pr_is_deleted r"
    proof
      fix r assume "r \<in> set (proposal_requirements db')"
      then consider "r = ?obj" | "r \<in> set (proposal_requirements db1)"
        unfolding rows by auto
      then show "standard_requirement_code db r = Some other \<and> pr_proposal r = c
                 \<longrightarrow> pr_is_deleted r"
      proof cases
        case 1
        have "?Q r" using 1 Qobj by simp
        then show ?thesis using codeQ [of r] ne by simp
      next
        case 2
        then show ?thesis using F1 by blast
      qed
    qed
    have "\<not> pr_is_deleted ?obj" by simp
    then show ?thesis using 1 2 3 4 5 by blast
  qed
  then show "standard_requirements db' = standard_requirements db"
    and "primary_keys_distinct db'" and "keeps_rows db db'" by blast+
  from all gs show "\<exists>s m. get_standard_requirement db this = Inr s
          \<and> filter (\<lambda>r. pr_proposal r = self \<and> pr_standard_requirement r = Some (sr_id s))
               (proposal_requirements db') = [m] \<and> \<not> pr_is_deleted m"
    by blast
  have "\<And>r. standard_requirement_code db' r = standard_requirement_code db r"
    using all code_cong [of db' db] by blast
  with all show "\<forall>r\<in>set (proposal_requirements db').
           standard_requirement_code db' r = Some other \<and> pr_proposal r = c \<longrightarrow> pr_is_deleted r"
    by simp
qed


lemma annual_post:
  assumes run: "ensure_annual_requirement st eofy self details db = Inr db'"
    and pk: "primary_keys_distinct db"
  shows "standard_requirements db' = standard_requirements db"
    and "primary_keys_distinct db'"
    and "keeps_rows db db'"
    and "\<exists>s a start reminder.
          get_standard_requirement db (INVOICING_PERCENTAGE_GROSS_TURNOVER_ANNUALLY st) = Inr s
          \<and> proposal_approval_start_date details = Some start
          \<and> add_days (eofy start) 1 = Inr reminder
          \<and> filter (\<lambda>r. pr_proposal r = self \<and> pr_standard_requirement r = Some (sr_id s)
                         \<and> \<not> pr_is_deleted r) (proposal_requirements db') = [a]
          \<and> pr_due_date a = Some (Date (year (eofy start)) 10 31)
          \<and> pr_reminder_date a = Some reminder \<and> pr_recurrence a
          \<and> pr_recurrence_pattern a = 3 \<and> pr_recurrence_schedule a = Some 1
          \<and> (\<forall>Q. (\<forall>r. Q r \<longrightarrow> pr_standard_requirement r \<noteq> Some (sr_id s)) \<longrightarrow>
                filter Q (proposal_requirements db') = filter Q (proposal_requirements db))"
proof -
  have d: "distinct (map pr_id (proposal_requirements db))"
    and ds: "distinct (map sr_id (standard_requirements db))"
    using pk by (simp_all add: primary_keys_distinct_def)
  obtain start where start: "proposal_approval_start_date details = Some start"
    using run unfolding ensure_annual_requirement_def
    by (cases "proposal_approval_start_date details") auto
  have unf: "ensure_annual_requirement st eofy self details db =
      (case get_standard_requirement db (INVOICING_PERCENTAGE_GROSS_TURNOVER_ANNUALLY st) of
         Inl e \<Rightarrow> Inl (e, db)
       | Inr t \<Rightarrow>
           (case get_or_create_requirement self t True db of
              Inl e \<Rightarrow> Inl (e, db)
            | Inr (obj, created, db1) \<Rightarrow>
                (case add_days (eofy start) 1 of
                   Inl e \<Rightarrow> Inl (ReminderDateError e, db1)
                 | Inr reminder_date \<Rightarrow>
                     Inr (save_requirement
                           (obj\<lparr>pr_due_date := Some (Date (year (eofy start)) 10 31),
                                pr_reminder_date := Some reminder_date,
                                pr_recurrence := True,
                                pr_recurrence_pattern := 3,
                                pr_recurrence_schedule := Some 1\<rparr>) db1))))"
    unfolding ensure_annual_requirement_def start by (simp add: Let_def)
  obtain s where gs: "get_standard_requirement db
      (INVOICING_PERCENTAGE_GROSS_TURNOVER_ANNUALLY st) = Inr s"
    using run unfolding unf
    by (cases "get_standard_requirement db (INVOICING_PERCENTAGE_GROSS_TURNOVER_ANNUALLY st)")
       auto
  obtain obj created db1
    where goc: "get_or_create_requirement self s True db = Inr (obj, created, db1)"
    using run unfolding unf gs
    by (cases "get_or_create_requirement self s True db") auto
  obtain reminder where rem: "add_days (eofy start) 1 = Inr reminder"
    using run unfolding unf gs by (cases "add_days (eofy start) 1") (auto simp: goc)
  let ?obj = "obj\<lparr>pr_due_date := Some (Date (year (eofy start)) 10 31),
                   pr_reminder_date := Some reminder, pr_recurrence := True,
                   pr_recurrence_pattern := 3, pr_recurrence_schedule := Some 1\<rparr>"
  have db': "db' = save_requirement ?obj db1"
    using run unfolding unf gs by (simp add: goc rem)
  let ?Q = "\<lambda>r. pr_proposal r = self \<and> pr_standard_requirement r = Some (sr_id s)
                 \<and> \<not> pr_is_deleted r"
  have goc': "(created \<and> filter ?Q (proposal_requirements db) = []
          \<and> obj = \<lparr>pr_id = next_requirement_id db, pr_proposal = self,
                     pr_standard_requirement = Some (sr_id s), pr_is_deleted = False,
                     pr_due_date = None, pr_reminder_date = None, pr_recurrence = False,
                     pr_recurrence_pattern = 1, pr_recurrence_schedule = None,
                     pr_req_order = Some (next_req_order self db)\<rparr>
          \<and> db1 = db\<lparr>proposal_requirements := proposal_requirements db @ [obj]\<rparr>)
       \<or> (\<not> created \<and> filter ?Q (proposal_requirements db) = [obj] \<and> db1 = db)"
    using get_or_create_cases [OF goc] by simp
  have Qobj: "?Q obj" and mem1: "obj \<in> set (proposal_requirements db1)"
    and d1: "distinct (map pr_id (proposal_requirements db1))"
    and srs1: "standard_requirements db1 = standard_requirements db"
    and k1: "keeps_rows db db1"
    and f1: "filter ?Q (proposal_requirements db1) = [obj]"
    and o1: "\<forall>Q. (\<forall>r. Q r \<longrightarrow> pr_standard_requirement r \<noteq> Some (sr_id s)) \<longrightarrow>
                filter Q (proposal_requirements db1) = filter Q (proposal_requirements db)"
  proof -
    from goc' consider (new) "created" "filter ?Q (proposal_requirements db) = []"
        "pr_id obj = next_requirement_id db" "?Q obj"
        "db1 = db\<lparr>proposal_requirements := proposal_requirements db @ [obj]\<rparr>"
      | (old) "\<not> created" "filter ?Q (proposal_requirements db) = [obj]" "db1 = db"
      by auto
    then have "?Q obj \<and> obj \<in> set (proposal_requirements db1)
      \<and> distinct (map pr_id (proposal_requirements db1))
      \<and> standard_requirements db1 = standard_requirements db \<and> keeps_rows db db1
      \<and> filter ?Q (proposal_requirements db1) = [obj]
      \<and> (\<forall>Q. (\<forall>r. Q r \<longrightarrow> pr_standard_requirement r \<noteq> Some (sr_id s)) \<longrightarrow>
                filter Q (proposal_requirements db1) = filter Q (proposal_requirements db))"
    proof cases
      case new
      have "distinct (map pr_id (proposal_requirements db1))"
        unfolding new(5) using distinct_append [OF d new(3)] .
      moreover have "keeps_rows db db1" unfolding new(5) by (rule keeps_rows_append)
      moreover have "filter ?Q (proposal_requirements db1) = [obj]"
        unfolding new(5) using new(2) new(4) by simp
      moreover have "\<forall>Q. (\<forall>r. Q r \<longrightarrow> pr_standard_requirement r \<noteq> Some (sr_id s)) \<longrightarrow>
                filter Q (proposal_requirements db1) = filter Q (proposal_requirements db)"
        unfolding new(5) using new(4) by auto
      ultimately show ?thesis using new(4) new(5) by simp
    next
      case old
      show ?thesis using filter_singleton_mem [OF old(2)] old d keeps_rows_refl by simp
    qed
    then show "?Q obj" and "obj \<in> set (proposal_requirements db1)"
      and "distinct (map pr_id (proposal_requirements db1))"
      and "standard_requirements db1 = standard_requirements db" and "keeps_rows db db1"
      and "filter ?Q (proposal_requirements db1) = [obj]"
      and "\<forall>Q. (\<forall>r. Q r \<longrightarrow> pr_standard_requirement r \<noteq> Some (sr_id s)) \<longrightarrow>
                filter Q (proposal_requirements db1) = filter Q (proposal_requirements db)"
      by blast+
  qed
  have rows: "proposal_requirements db'
              = map (\<lambda>r. if r = obj then ?obj else r) (proposal_requirements db1)"
    unfolding db' using save_requirement_rows [OF d1 mem1, of ?obj] by simp
  show 1: "standard_requirements db' = standard_requirements db"
    using db' srs1 by simp
  show "primary_keys_distinct db'"
    unfolding primary_keys_distinct_def 1 unfolding db'
    using distinct_save [OF d1] ds by simp
  have "keeps_rows db1 db'"
    unfolding db' by (rule keeps_rows_save [OF d1 mem1]) (simp add: same_key_def)
  then show "keeps_rows db db'" using keeps_rows_trans [OF k1] by blast
  have 4: "filter ?Q (proposal_requirements db') = [?obj]"
    unfolding rows using filter_replace [of ?Q ?obj obj "proposal_requirements db1"] f1 Qobj
    by simp
  have 5: "\<forall>Q. (\<forall>r. Q r \<longrightarrow> pr_standard_requirement r \<noteq> Some (sr_id s)) \<longrightarrow>
                filter Q (proposal_requirements db') = filter Q (proposal_requirements db)"
  proof (intro allI impI)
    fix Q :: "proposal_requirement \<Rightarrow> bool"
    assume Q: "\<forall>r. Q r \<longrightarrow> pr_standard_requirement r \<noteq> Some (sr_id s)"
    have nq: "\<not> Q obj" "\<not> Q ?obj" using Q Qobj by auto
    have "filter Q (proposal_requirements db')
          = map (\<lambda>r. if r = obj then ?obj else r) (filter Q (proposal_requirements db1))"
      unfolding rows using filter_replace [of Q ?obj obj "proposal_requirements db1"] nq
      by simp
    also have "\<dots> = filter Q (proposal_requirements db1)"
      using nq by (intro map_idI) auto
    finally show "filter Q (proposal_requirements db') = filter Q (proposal_requirements db)"
      using o1 Q by simp
  qed
  show "\<exists>s a start reminder.
          get_standard_requirement db (INVOICING_PERCENTAGE_GROSS_TURNOVER_ANNUALLY st) = Inr s
          \<and> proposal_approval_start_date details = Some start
          \<and> add_days (eofy start) 1 = Inr reminder
          \<and> filter (\<lambda>r. pr_proposal r = self \<and> pr_standard_requirement r = Some (sr_id s)
                         \<and> \<not> pr_is_deleted r) (proposal_requirements db') = [a]
          \<and> pr_due_date a = Some (Date (year (eofy start)) 10 31)
          \<and> pr_reminder_date a = Some reminder \<and> pr_recurrence a
          \<and> pr_recurrence_pattern a = 3 \<and> pr_recurrence_schedule a = Some 1
          \<and> (\<forall>Q. (\<forall>r. Q r \<longrightarrow> pr_standard_requirement r \<noteq> Some (sr_id s)) \<longrightarrow>
                filter Q (proposal_requirements db') = filter Q (proposal_requirements db))"
    apply (rule exI [of _ s], rule exI [of _ ?obj], rule exI [of _ start],
        rule exI [of _ reminder])
    using gs start rem 4 5 by simp
qed

lemma cadence_fixed:
  assumes pk: "primary_keys_distinct db"
    and cp: "approval_current_proposal details = Some c"
    and gs: "get_standard_requirement db this = Inr s"
    and f: "filter (\<lambda>r. pr_proposal r = self \<and> pr_standard_requirement r = Some (sr_id s))
              (proposal_requirements db) = [m]"
    and nd: "\<not> pr_is_deleted m"
    and del: "\<forall>r\<in>set (proposal_requirements db).
           standard_requirement_code db r = Some other \<and> pr_proposal r = c \<longrightarrow> pr_is_deleted r"
  shows "ensure_cadence_requirement other this self details db = Inr db"
proof -
  have d: "distinct (map pr_id (proposal_requirements db))"
    using pk by (simp add: primary_keys_distinct_def)
  have u: "update_is_deleted (\<lambda>r. standard_requirement_code db r = Some other
                      \<and> pr_proposal r = c \<and> \<not> pr_is_deleted r) db = db"
    by (rule update_is_deleted_none) (use del in blast)
  have goc: "get_or_create_requirement self s False db = Inr (m, False, db)"
    using f by (simp add: get_or_create_requirement_def)
  have m: "m\<lparr>pr_is_deleted := False\<rparr> = m" using nd by simp
  have sv: "save_requirement m db = db"
    using save_requirement_same [OF d] filter_singleton_mem [OF f] by simp
  show ?thesis
    unfolding ensure_cadence_requirement_def cp by (simp add: Let_def u gs goc m sv)
qed

lemma annual_fixed:
  assumes pk: "primary_keys_distinct db"
    and start: "proposal_approval_start_date details = Some start"
    and rem: "add_days (eofy start) 1 = Inr reminder"
    and gs: "get_standard_requirement db (INVOICING_PERCENTAGE_GROSS_TURNOVER_ANNUALLY st) = Inr s"
    and f: "filter (\<lambda>r. pr_proposal r = self \<and> pr_standard_requirement r = Some (sr_id s)
                         \<and> \<not> pr_is_deleted r) (proposal_requirements db) = [a]"
    and a: "pr_due_date a = Some (Date (year (eofy start)) 10 31)"
      "pr_reminder_date a = Some reminder" "pr_recurrence a"
      "pr_recurrence_pattern a = 3" "pr_recurrence_schedule a = Some 1"
  shows "ensure_annual_requirement st eofy self details db = Inr db"
proof -
  have d: "distinct (map pr_id (proposal_requirements db))"
    using pk by (simp add: primary_keys_distinct_def)
  have goc: "get_or_create_requirement self s True db = Inr (a, False, db)"
    using f by (simp add: get_or_create_requirement_def)
  have same: "a\<lparr>pr_due_date := Some (Date (year (eofy start)) 10 31),
                 pr_reminder_date := Some reminder, pr_recurrence := True,
                 pr_recurrence_pattern := 3, pr_recurrence_schedule := Some 1\<rparr> = a"
    using a by simp
  have sv: "save_requirement a db = db"
    using save_requirement_same [OF d] filter_singleton_mem [OF f] by simp
  show ?thesis
    unfolding ensure_annual_requirement_def start by (simp add: Let_def gs goc rem same sv)
qed

lemma arrears_monthly_unfold:
  assumes st: "CHARGE_METHOD_PERCENTAGE_OF_GROSS_TURNOVER_IN_ADVANCE st
                 \<noteq> CHARGE_METHOD_PERCENTAGE_OF_GROSS_TURNOVER_IN_ARREARS st"
      "REPETITION_TYPE_QUARTERLY st \<noteq> REPETITION_TYPE_MONTHLY st"
    and det: "charge_method_key details
                = Some (CHARGE_METHOD_PERCENTAGE_OF_GROSS_TURNOVER_IN_ARREARS st)"
      "invoicing_repetition_type_key details = Some (REPETITION_TYPE_MONTHLY st)"
  shows "update_gross_turnover_requirements st eofy self details d =
      (case ensure_cadence_requirement (INVOICING_PERCENTAGE_GROSS_TURNOVER_QUARTERLY st)
              (INVOICING_PERCENTAGE_GROSS_TURNOVER_MONTHLY st) self details d of
         Inl e \<Rightarrow> Inl e
       | Inr db2 \<Rightarrow> ensure_annual_requirement st eofy self details db2)"
proof -
  have k: "CHARGE_METHOD_PERCENTAGE_OF_GROSS_TURNOVER_IN_ARREARS st
        \<in> set [CHARGE_METHOD_PERCENTAGE_OF_GROSS_TURNOVER_IN_ADVANCE st,
                 CHARGE_METHOD_PERCENTAGE_OF_GROSS_TURNOVER_IN_ARREARS st]"
    by simp
  show ?thesis
    unfolding update_gross_turnover_requirements_def det option.case
    using st k by (simp only: if_not_P if_P not_not Let_def option.case refl if_False if_True
        not_sym [OF st(1)] not_sym [OF st(2)])
qed

lemma switch_to_monthly:
  assumes st: "CHARGE_METHOD_PERCENTAGE_OF_GROSS_TURNOVER_IN_ADVANCE st
                 \<noteq> CHARGE_METHOD_PERCENTAGE_OF_GROSS_TURNOVER_IN_ARREARS st"
      "REPETITION_TYPE_QUARTERLY st \<noteq> REPETITION_TYPE_MONTHLY st"
      "INVOICING_PERCENTAGE_GROSS_TURNOVER_QUARTERLY st
         \<noteq> INVOICING_PERCENTAGE_GROSS_TURNOVER_MONTHLY st"
      "INVOICING_PERCENTAGE_GROSS_TURNOVER_ANNUALLY st
         \<noteq> INVOICING_PERCENTAGE_GROSS_TURNOVER_MONTHLY st"
      "INVOICING_PERCENTAGE_GROSS_TURNOVER_ANNUALLY st
         \<noteq> INVOICING_PERCENTAGE_GROSS_TURNOVER_QUARTERLY st"
    and pk: "primary_keys_distinct db"
    and det: "charge_method_key details
                = Some (CHARGE_METHOD_PERCENTAGE_OF_GROSS_TURNOVER_IN_ARREARS st)"
      "invoicing_repetition_type_key details = Some (REPETITION_TYPE_MONTHLY st)"
      "approval_current_proposal details = Some c"
    and run: "update_gross_turnover_requirements st eofy self details db = Inr db'"
  shows "\<forall>r\<in>set (proposal_requirements db').
           standard_requirement_code db' r = Some (INVOICING_PERCENTAGE_GROSS_TURNOVER_QUARTERLY st)
           \<and> pr_proposal r = c \<longrightarrow> pr_is_deleted r"
    and "keeps_rows db db'"
    and "\<exists>s m. get_standard_requirement db (INVOICING_PERCENTAGE_GROSS_TURNOVER_MONTHLY st) = Inr s
          \<and> filter (\<lambda>r. pr_proposal r = self \<and> pr_standard_requirement r = Some (sr_id s))
               (proposal_requirements db') = [m] \<and> \<not> pr_is_deleted m"
    and "update_gross_turnover_requirements st eofy self details db' = Inr db'"
proof -
  let ?Q = "INVOICING_PERCENTAGE_GROSS_TURNOVER_QUARTERLY st"
  let ?M = "INVOICING_PERCENTAGE_GROSS_TURNOVER_MONTHLY st"
  let ?A = "INVOICING_PERCENTAGE_GROSS_TURNOVER_ANNUALLY st"
  note unf = arrears_monthly_unfold [OF st(1,2) det(1,2)]
  obtain db2 where c: "ensure_cadence_requirement ?Q ?M self details db = Inr db2"
    and an: "ensure_annual_requirement st eofy self details db2 = Inr db'"
    using run unfolding unf
    by (cases "ensure_cadence_requirement ?Q ?M self details db") auto
  note cp = cadence_post [OF c pk st(3) det(3)]
  note ap = annual_post [OF an cp(2)]
  from cp(4) obtain sm m where gsm: "get_standard_requirement db ?M = Inr sm"
    and fm: "filter (\<lambda>r. pr_proposal r = self \<and> pr_standard_requirement r = Some (sr_id sm))
               (proposal_requirements db2) = [m]" and ndm: "\<not> pr_is_deleted m"
    by (elim exE conjE)
  from ap(4) obtain sa a start reminder
    where ap4: "get_standard_requirement db2 ?A = Inr sa
      \<and> proposal_approval_start_date details = Some start
      \<and> add_days (eofy start) 1 = Inr reminder
      \<and> filter (\<lambda>r. pr_proposal r = self \<and> pr_standard_requirement r = Some (sr_id sa)
                         \<and> \<not> pr_is_deleted r) (proposal_requirements db') = [a]
      \<and> pr_due_date a = Some (Date (year (eofy start)) 10 31)
      \<and> pr_reminder_date a = Some reminder \<and> pr_recurrence a
      \<and> pr_recurrence_pattern a = 3 \<and> pr_recurrence_schedule a = Some 1
      \<and> (\<forall>Q. (\<forall>r. Q r \<longrightarrow> pr_standard_requirement r \<noteq> Some (sr_id sa)) \<longrightarrow>
                filter Q (proposal_requirements db') = filter Q (proposal_requirements db2))"
    by (elim exE)
  have gsa: "get_standard_requirement db2 ?A = Inr sa"
    and start: "proposal_approval_start_date details = Some start"
    and rem: "add_days (eofy start) 1 = Inr reminder"
    and fa: "filter (\<lambda>r. pr_proposal r = self \<and> pr_standard_requirement r = Some (sr_id sa)
                         \<and> \<not> pr_is_deleted r) (proposal_requirements db') = [a]"
    and a: "pr_due_date a = Some (Date (year (eofy start)) 10 31)"
      "pr_reminder_date a = Some reminder" "pr_recurrence a"
      "pr_recurrence_pattern a = 3" "pr_recurrence_schedule a = Some 1"
    using ap4 by blast+
  have other: "\<And>Q. (\<And>r. Q r \<Longrightarrow> pr_standard_requirement r \<noteq> Some (sr_id sa)) \<Longrightarrow>
                filter Q (proposal_requirements db') = filter Q (proposal_requirements db2)"
  proof -
    fix Q :: "proposal_requirement \<Rightarrow> bool"
    assume q: "\<And>r. Q r \<Longrightarrow> pr_standard_requirement r \<noteq> Some (sr_id sa)"
    from ap4 have "(\<forall>r. Q r \<longrightarrow> pr_standard_requirement r \<noteq> Some (sr_id sa)) \<longrightarrow>
                filter Q (proposal_requirements db') = filter Q (proposal_requirements db2)"
      by (elim conjE) (erule allE)
    with q show "filter Q (proposal_requirements db') = filter Q (proposal_requirements db2)"
      by blast
  qed
  have srs2: "standard_requirements db2 = standard_requirements db" by (rule cp(1))
  have srs': "standard_requirements db' = standard_requirements db" using ap(1) srs2 by simp
  have ds: "distinct (map sr_id (standard_requirements db))"
    using pk by (simp add: primary_keys_distinct_def)
  have gsa0: "get_standard_requirement db ?A = Inr sa"
    using gsa get_standard_requirement_cong [OF srs2] by simp
  have ids: "sr_id sa \<noteq> sr_id sm"
  proof
    assume e: "sr_id sa = sr_id sm"
    have f1: "find (\<lambda>x. sr_id x = sr_id sa) (standard_requirements db) = Some sa"
      using find_by_id [OF ds get_standard_requirement_Inr(1) [OF gsa0]] .
    have f2: "find (\<lambda>x. sr_id x = sr_id sm) (standard_requirements db) = Some sm"
      using find_by_id [OF ds get_standard_requirement_Inr(1) [OF gsm]] .
    have "Some sa = Some sm" using f1 [unfolded e] f2 by (rule trans [OF sym])
    then have "sa = sm" by (rule option.inject [THEN iffD1])
    then show False
      using get_standard_requirement_Inr(2) [OF gsa0] get_standard_requirement_Inr(2) [OF gsm]
        st(4) by simp
  qed
  have fm': "filter (\<lambda>r. pr_proposal r = self \<and> pr_standard_requirement r = Some (sr_id sm))
               (proposal_requirements db') = [m]"
  proof -
    have "filter (\<lambda>r. pr_proposal r = self \<and> pr_standard_requirement r = Some (sr_id sm))
               (proposal_requirements db')
          = filter (\<lambda>r. pr_proposal r = self \<and> pr_standard_requirement r = Some (sr_id sm))
               (proposal_requirements db2)"
      by (rule other) (use ids in auto)
    then show ?thesis using fm by simp
  qed
  show 3: "\<exists>s m. get_standard_requirement db ?M = Inr s
          \<and> filter (\<lambda>r. pr_proposal r = self \<and> pr_standard_requirement r = Some (sr_id s))
               (proposal_requirements db') = [m] \<and> \<not> pr_is_deleted m"
    using gsm fm' ndm by blast
  show "keeps_rows db db'" using keeps_rows_trans [OF cp(3) ap(3)] .
  have codeA: "\<And>r. pr_standard_requirement r = Some (sr_id sa) \<Longrightarrow>
      standard_requirement_code db r = Some ?A"
    using code_of_row [OF ds gsa0] by simp
  show 1: "\<forall>r\<in>set (proposal_requirements db').
           standard_requirement_code db' r = Some ?Q \<and> pr_proposal r = c \<longrightarrow> pr_is_deleted r"
  proof (intro ballI impI)
    fix r assume r: "r \<in> set (proposal_requirements db')"
      and h: "standard_requirement_code db' r = Some ?Q \<and> pr_proposal r = c"
    have code: "standard_requirement_code db r = Some ?Q"
      using h code_cong [OF srs', of r r] by simp
    have nsa: "pr_standard_requirement r \<noteq> Some (sr_id sa)"
      using codeA [of r] code st(5) by auto
    let ?P = "\<lambda>x. x = r \<and> pr_standard_requirement x \<noteq> Some (sr_id sa)"
    have "filter ?P (proposal_requirements db') = filter ?P (proposal_requirements db2)"
      by (rule other) simp
    moreover have "r \<in> set (filter ?P (proposal_requirements db'))" using r nsa by simp
    ultimately have "r \<in> set (proposal_requirements db2)" by simp
    moreover have "standard_requirement_code db2 r = Some ?Q"
      using code code_cong [OF srs2, of r r] by simp
    ultimately show "pr_is_deleted r" using cp(5) h by blast
  qed
  have gsm': "get_standard_requirement db' ?M = Inr sm"
    using gsm get_standard_requirement_cong [OF srs'] by simp
  have gsa': "get_standard_requirement db' ?A = Inr sa"
    using gsa0 get_standard_requirement_cong [OF srs'] by simp
  have c': "ensure_cadence_requirement ?Q ?M self details db' = Inr db'"
    by (rule cadence_fixed [OF ap(2) det(3) gsm' fm' ndm 1])
  have a': "ensure_annual_requirement st eofy self details db' = Inr db'"
    using annual_fixed [of db' details start eofy reminder st sa self a] ap(2) start rem gsa' fa a
    by blast
  show "update_gross_turnover_requirements st eofy self details db' = Inr db'"
    unfolding unf by (simp add: c' a')
qed

text \<open>
  C6. When the arrears cadence of a proposal is monthly (switched from quarterly) and
  \<^verbatim>\<open>update_gross_turnover_requirements\<close> returns, the quarterly gross-turnover
  requirements of the approval's current proposal are all marked deleted; no row is
  removed (every row is still there with its key, proposal and standard requirement); there
  is exactly one monthly requirement row for the proposal, and it is not deleted; and
  running the method again on the result returns the same database, so no further row.
  Primary keys are unique and the settings constants differ from each other.
\<close>

theorem gross_turnover_switch_idempotent:
  "CHARGE_METHOD_PERCENTAGE_OF_GROSS_TURNOVER_IN_ADVANCE st
       \<noteq> CHARGE_METHOD_PERCENTAGE_OF_GROSS_TURNOVER_IN_ARREARS st
   \<and> REPETITION_TYPE_QUARTERLY st \<noteq> REPETITION_TYPE_MONTHLY st
   \<and> INVOICING_PERCENTAGE_GROSS_TURNOVER_QUARTERLY st
       \<noteq> INVOICING_PERCENTAGE_GROSS_TURNOVER_MONTHLY st
   \<and> INVOICING_PERCENTAGE_GROSS_TURNOVER_ANNUALLY st
       \<noteq> INVOICING_PERCENTAGE_GROSS_TURNOVER_MONTHLY st
   \<and> INVOICING_PERCENTAGE_GROSS_TURNOVER_ANNUALLY st
       \<noteq> INVOICING_PERCENTAGE_GROSS_TURNOVER_QUARTERLY st
   \<and> primary_keys_distinct db
   \<and> charge_method_key details = Some (CHARGE_METHOD_PERCENTAGE_OF_GROSS_TURNOVER_IN_ARREARS st)
   \<and> invoicing_repetition_type_key details = Some (REPETITION_TYPE_MONTHLY st)
   \<and> approval_current_proposal details = Some c
   \<and> update_gross_turnover_requirements st eofy self details db = Inr db' \<longrightarrow>
     (\<forall>r\<in>set (proposal_requirements db').
         standard_requirement_code db' r = Some (INVOICING_PERCENTAGE_GROSS_TURNOVER_QUARTERLY st)
         \<and> pr_proposal r = c \<longrightarrow> pr_is_deleted r)
     \<and> keeps_rows db db'
     \<and> (\<exists>s m. get_standard_requirement db (INVOICING_PERCENTAGE_GROSS_TURNOVER_MONTHLY st) = Inr s
          \<and> filter (\<lambda>r. pr_proposal r = self \<and> pr_standard_requirement r = Some (sr_id s))
               (proposal_requirements db') = [m] \<and> \<not> pr_is_deleted m)
     \<and> update_gross_turnover_requirements st eofy self details db' = Inr db'"
  using switch_to_monthly [of st db details c eofy self db'] by blast

theorem gross_turnover_switch_idempotent_witness:
  "primary_keys_distinct requirements_example
   \<and> charge_method_key arrears_monthly
        = Some (CHARGE_METHOD_PERCENTAGE_OF_GROSS_TURNOVER_IN_ARREARS settings_example)
   \<and> invoicing_repetition_type_key arrears_monthly = Some (REPETITION_TYPE_MONTHLY settings_example)
   \<and> approval_current_proposal arrears_monthly = Some 10
   \<and> (\<exists>db'. update_gross_turnover_requirements settings_example end_of_financial_year_example
               10 arrears_monthly requirements_example = Inr db'
          \<and> length (proposal_requirements db') = 4
          \<and> keeps_rows requirements_example db'
          \<and> (\<forall>r\<in>set (proposal_requirements db').
                standard_requirement_code db' r = Some ''quarterly_turnover''
                \<and> pr_proposal r = 10 \<longrightarrow> pr_is_deleted r)
          \<and> update_gross_turnover_requirements settings_example end_of_financial_year_example
               10 arrears_monthly db' = Inr db')"
proof -
  have h1: "CHARGE_METHOD_PERCENTAGE_OF_GROSS_TURNOVER_IN_ADVANCE settings_example
       \<noteq> CHARGE_METHOD_PERCENTAGE_OF_GROSS_TURNOVER_IN_ARREARS settings_example
   \<and> REPETITION_TYPE_QUARTERLY settings_example \<noteq> REPETITION_TYPE_MONTHLY settings_example
   \<and> INVOICING_PERCENTAGE_GROSS_TURNOVER_QUARTERLY settings_example
       \<noteq> INVOICING_PERCENTAGE_GROSS_TURNOVER_MONTHLY settings_example
   \<and> INVOICING_PERCENTAGE_GROSS_TURNOVER_ANNUALLY settings_example
       \<noteq> INVOICING_PERCENTAGE_GROSS_TURNOVER_MONTHLY settings_example
   \<and> INVOICING_PERCENTAGE_GROSS_TURNOVER_ANNUALLY settings_example
       \<noteq> INVOICING_PERCENTAGE_GROSS_TURNOVER_QUARTERLY settings_example"
    by (simp add: settings_example_def)
  have h2: "primary_keys_distinct requirements_example"
    by (simp add: primary_keys_distinct_def requirements_example_def
        standard_requirements_example_def quarterly_row_def)
  have h3: "charge_method_key arrears_monthly
        = Some (CHARGE_METHOD_PERCENTAGE_OF_GROSS_TURNOVER_IN_ARREARS settings_example)
   \<and> invoicing_repetition_type_key arrears_monthly = Some (REPETITION_TYPE_MONTHLY settings_example)
   \<and> approval_current_proposal arrears_monthly = Some 10"
    by (simp add: arrears_monthly_def settings_example_def)
  have "case update_gross_turnover_requirements settings_example end_of_financial_year_example
               10 arrears_monthly requirements_example of
          Inl e \<Rightarrow> False
        | Inr db' \<Rightarrow> length (proposal_requirements db') = 4"
    by code_simp
  then obtain db' where run: "update_gross_turnover_requirements settings_example
      end_of_financial_year_example 10 arrears_monthly requirements_example = Inr db'"
    and len: "length (proposal_requirements db') = 4"
    by (cases "update_gross_turnover_requirements settings_example
      end_of_financial_year_example 10 arrears_monthly requirements_example") auto
  have q: "INVOICING_PERCENTAGE_GROSS_TURNOVER_QUARTERLY settings_example = ''quarterly_turnover''"
    by (simp add: settings_example_def)
  from gross_turnover_switch_idempotent [of settings_example requirements_example
      arrears_monthly 10 end_of_financial_year_example 10 db'] h1 h2 h3 run
  have "(\<forall>r\<in>set (proposal_requirements db').
         standard_requirement_code db' r
           = Some (INVOICING_PERCENTAGE_GROSS_TURNOVER_QUARTERLY settings_example)
         \<and> pr_proposal r = 10 \<longrightarrow> pr_is_deleted r)
     \<and> keeps_rows requirements_example db'
     \<and> update_gross_turnover_requirements settings_example end_of_financial_year_example
          10 arrears_monthly db' = Inr db'"
    by blast
  then show ?thesis unfolding q using h2 h3 run len by blast
qed

text \<open>
  C10, at a table with a quarterly requirement of proposal 10 and one of proposal 20, when
  the invoicing details of proposal 10 are reconciled with the charge method percentage of
  gross turnover in advance: the quarterly requirement of proposal 20, not deleted before,
  is marked deleted.
\<close>

theorem in_advance_deletes_other_proposals_requirements:
  "quarterly_row 2 20 \<in> set (proposal_requirements requirements_example)
   \<and> pr_proposal (quarterly_row 2 20) = 20 \<and> \<not> pr_is_deleted (quarterly_row 2 20)
   \<and> (case update_gross_turnover_requirements settings_example end_of_financial_year_example
             10 in_advance requirements_example of
         Inl e \<Rightarrow> False
       | Inr db' \<Rightarrow> proposal_requirements db' ! 1 = (quarterly_row 2 20)\<lparr>pr_is_deleted := True\<rparr>)"
  by code_simp

section \<open>Properties of issuing an approval\<close>

lemma documents_in_category_cong:
  "fd_documents db' = fd_documents db \<Longrightarrow> fp_id self' = fp_id self \<Longrightarrow>
   documents_in_category db' self' t c = documents_in_category db self t c"
  by (simp add: documents_in_category_def)

lemma generate_license_documents_error:
  assumes "length (documents_in_category db self (ap_approval_type approval) c) \<noteq> 1"
  shows "\<exists>c'. length (documents_in_category db self (ap_approval_type approval) c') \<noteq> 1
           \<and> generate_license_documents self approval db
               = Inl (ExactlyOne c'
                   (length (documents_in_category db self (ap_approval_type approval) c')))"
proof (cases "length (documents_in_category db self (ap_approval_type approval) LicenseDocument) \<noteq> 1")
  case True
  then show ?thesis by (intro exI [of _ LicenseDocument]) (simp add: generate_license_documents_def)
next
  case l: False
  show ?thesis
  proof (cases "length (documents_in_category db self (ap_approval_type approval) CoverLetter) \<noteq> 1")
    case True
    with l show ?thesis by (intro exI [of _ CoverLetter]) (simp add: generate_license_documents_def)
  next
    case False
    with l assms have "length (documents_in_category db self (ap_approval_type approval) SignOffSheet) \<noteq> 1"
      by (cases c) auto
    with l False show ?thesis
      by (intro exI [of _ SignOffSheet]) (simp add: generate_license_documents_def)
  qed
qed

lemma generate_license_documents_cover_letter:
  assumes "length (documents_in_category db self (ap_approval_type approval) LicenseDocument) = 1"
    and "length (documents_in_category db self (ap_approval_type approval) CoverLetter) \<noteq> 1"
  shows "generate_license_documents self approval db
           = Inl (ExactlyOne CoverLetter
               (length (documents_in_category db self (ap_approval_type approval) CoverLetter)))"
  using assms by (simp add: generate_license_documents_def)

lemma store_proposed_approval_data_frame:
  assumes "store_proposed_approval_data self request details db = Inr (self1, db1)"
  shows "fp_id self1 = fp_id self \<and> fd_documents db1 = fd_documents db
         \<and> fd_approvals db1 = fd_approvals db \<and> fd_approval_types db1 = fd_approval_types db
         \<and> fd_competitive_processes db1 = fd_competitive_processes db
         \<and> length (fd_proposals db1) = length (fd_proposals db)"
  using assms
  by (auto simp: store_proposed_approval_data_def Let_def save_proposal_def
           split: if_splits option.splits)

lemma store_lease_licence_succeeds:
  assumes "fp_application_type self = LeaseLicence" and "input_errors self details = []"
    and "missing_mandatory_documents self details db = []"
  shows "\<exists>self1 db1. store_proposed_approval_data self request details db = Inr (self1, db1)"
  using assms by (simp add: store_proposed_approval_data_def Let_def)

lemma update_or_create_approval_frame:
  assumes "update_or_create_approval k f db = Inr (a, db1)"
  shows "fd_documents db1 = fd_documents db \<and> (\<exists>a0. a = f a0)"
  using assms
  by (auto simp: update_or_create_approval_def Let_def save_approval_def split: list.splits)

lemma update_or_create_approval_succeeds:
  assumes "length (filter (\<lambda>a. ap_current_proposal a = k) (fd_approvals db)) \<le> 1"
  shows "\<exists>a db1. update_or_create_approval k f db = Inr (a, db1)"
  using assms
  by (auto simp: update_or_create_approval_def Let_def split: list.splits)

lemma issue_new_lease_licence_fails:
  assumes "length (documents_in_category db self (ad_approval_type details) c) \<noteq> 1"
  shows "\<exists>e. issue_new_lease_licence compliances number self details db = Inl e"
proof (cases "issue_new_lease_licence compliances number self details db")
  case (Inl e)
  then show ?thesis by blast
next
  case (Inr r)
  then obtain expiry_date start_date approval db1 approval1
    where u: "update_or_create_approval (fp_id self)
                (\<lambda>a. a\<lparr>ap_expiry_date := Some expiry_date, ap_start_date := Some start_date,
                        ap_record_management_number := number,
                        ap_approval_type := ad_approval_type details\<rparr>) db = Inr (approval, db1)"
      and g: "generate_license_documents self approval db1 = Inr approval1"
    by (auto simp: issue_new_lease_licence_def split: if_splits sum.splits prod.splits)
  from update_or_create_approval_frame [OF u]
  have d: "fd_documents db1 = fd_documents db" and t: "ap_approval_type approval = ad_approval_type details"
    by auto
  from assms have "length (documents_in_category db1 self (ap_approval_type approval) c) \<noteq> 1"
    by (simp add: t documents_in_category_cong [OF d refl])
  from generate_license_documents_error [OF this] g show ?thesis by auto
qed

lemma issue_new_lease_licence_error:
  assumes bad: "length (documents_in_category db self (ad_approval_type details) c) \<noteq> 1"
    and ty: "approval_type_exists db (ad_approval_type details)"
    and sd: "ad_start_date details = Some (DateString s)"
    and ed: "ad_expiry_date details = Some (DateString x)"
    and one: "length (filter (\<lambda>a. ap_current_proposal a = fp_id self) (fd_approvals db)) \<le> 1"
  shows "(\<exists>c'. length (documents_in_category db self (ad_approval_type details) c') \<noteq> 1
            \<and> issue_new_lease_licence compliances number self details db
                = Inl (ExactlyOne c'
                    (length (documents_in_category db self (ad_approval_type details) c'))))
         \<and> (length (documents_in_category db self (ad_approval_type details) LicenseDocument) = 1
              \<longrightarrow> length (documents_in_category db self (ad_approval_type details) CoverLetter) \<noteq> 1
              \<longrightarrow> issue_new_lease_licence compliances number self details db
                    = Inl (ExactlyOne CoverLetter
                        (length (documents_in_category db self (ad_approval_type details)
                           CoverLetter))))"
proof -
  let ?f = "\<lambda>a. a\<lparr>ap_expiry_date := Some x, ap_start_date := Some s,
                     ap_record_management_number := number,
                     ap_approval_type := ad_approval_type details\<rparr>"
  from update_or_create_approval_succeeds [OF one]
  obtain approval db1 where u: "update_or_create_approval (fp_id self) ?f db = Inr (approval, db1)"
    by blast
  from update_or_create_approval_frame [OF u]
  have d: "fd_documents db1 = fd_documents db" and t: "ap_approval_type approval = ad_approval_type details"
    by auto
  have k: "\<And>c. documents_in_category db1 self (ap_approval_type approval) c
               = documents_in_category db self (ad_approval_type details) c"
    by (simp add: t documents_in_category_cong [OF d refl])
  have i: "issue_new_lease_licence compliances number self details db
             = (case generate_license_documents self approval db1 of
                  Inl e \<Rightarrow> Inl e
                | Inr approval1 \<Rightarrow>
                    issue_new_lease_licence compliances number self details db)"
    using ty sd ed u
    by (simp add: issue_new_lease_licence_def parse_date_def split: sum.splits)
  from bad have "length (documents_in_category db1 self (ap_approval_type approval) c) \<noteq> 1"
    by (simp add: k)
  from generate_license_documents_error [OF this]
  obtain c' where c': "length (documents_in_category db self (ad_approval_type details) c') \<noteq> 1"
    and e: "generate_license_documents self approval db1
              = Inl (ExactlyOne c' (length (documents_in_category db self (ad_approval_type details) c')))"
    by (auto simp: k)
  have 1: "issue_new_lease_licence compliances number self details db
             = Inl (ExactlyOne c' (length (documents_in_category db self (ad_approval_type details) c')))"
    by (subst i) (simp add: e)
  have 2: "issue_new_lease_licence compliances number self details db
                    = Inl (ExactlyOne CoverLetter
                        (length (documents_in_category db self (ad_approval_type details)
                           CoverLetter)))"
    if "length (documents_in_category db self (ad_approval_type details) LicenseDocument) = 1"
      and "length (documents_in_category db self (ad_approval_type details) CoverLetter) \<noteq> 1"
  proof -
    from that have "generate_license_documents self approval db1
           = Inl (ExactlyOne CoverLetter
               (length (documents_in_category db1 self (ap_approval_type approval) CoverLetter)))"
      by (intro generate_license_documents_cover_letter) (simp_all add: k)
    then show ?thesis by (subst i) (simp add: k)
  qed
  from c' 1 2 show ?thesis by blast
qed

lemma new_lease_licence_body:
  assumes n: "fp_proposal_type self = Some New" and l: "fp_application_type self = LeaseLicence"
    and r: "final_approval_body has_applicant_row compliances today self request details db = Inr db'"
  shows "\<exists>self1 db1 number out.
           store_proposed_approval_data (self\<lparr>fp_proposed_decline_status := False\<rparr>)
               request details db = Inr (self1, db1)
           \<and> issue_new_lease_licence compliances number self1 details
                 (db1\<lparr>fd_action_log := fd_action_log db1 @ [fp_id self1]\<rparr>) = Inr out"
  using r n l
  by (auto simp: final_approval_body_def Let_def
           split: option.splits if_splits sum.splits prod.splits)

lemma final_approval_body_fails:
  assumes n: "fp_proposal_type self = Some New" and l: "fp_application_type self = LeaseLicence"
    and bad: "length (documents_in_category db self (ad_approval_type details) c) \<noteq> 1"
  shows "\<exists>e. final_approval_body has_applicant_row compliances today self request details db = Inl e"
proof (cases "final_approval_body has_applicant_row compliances today self request details db")
  case (Inl e)
  then show ?thesis by blast
next
  case (Inr db')
  from new_lease_licence_body [OF n l Inr]
  obtain self1 db1 number out
    where s: "store_proposed_approval_data (self\<lparr>fp_proposed_decline_status := False\<rparr>)
               request details db = Inr (self1, db1)"
      and i: "issue_new_lease_licence compliances number self1 details
                 (db1\<lparr>fd_action_log := fd_action_log db1 @ [fp_id self1]\<rparr>) = Inr out"
    by blast
  from store_proposed_approval_data_frame [OF s]
  have f: "fp_id self1 = fp_id self" "fd_documents db1 = fd_documents db" by auto
  have "documents_in_category (db1\<lparr>fd_action_log := fd_action_log db1 @ [fp_id self1]\<rparr>) self1
          (ad_approval_type details) c
        = documents_in_category db self (ad_approval_type details) c"
    by (rule documents_in_category_cong) (simp_all add: f)
  with bad have "length (documents_in_category
          (db1\<lparr>fd_action_log := fd_action_log db1 @ [fp_id self1]\<rparr>) self1
          (ad_approval_type details) c) \<noteq> 1"
    by simp
  from issue_new_lease_licence_fails [OF this, where compliances = compliances and number = number]
  show ?thesis using i by simp
qed

lemma final_approval_body_error:
  assumes n: "fp_proposal_type self = Some New" and l: "fp_application_type self = LeaseLicence"
    and bad: "length (documents_in_category db self (ad_approval_type details) c) \<noteq> 1"
    and stored: "fp_proposed_issuance_approval self \<noteq> None"
    and status: "fp_processing_status self = WithApprover"
    and group: "rq_in_approver_group request"
    and who: "applicant self \<noteq> NoApplicantString"
    and address: "fp_applicant_address self"
    and input: "input_errors self details = []"
    and mandatory: "missing_mandatory_documents self details db = []"
    and ty: "approval_type_exists db (ad_approval_type details)"
    and sd: "ad_start_date details = Some (DateString s)"
    and ed: "ad_expiry_date details = Some (DateString x)"
    and one: "length (filter (\<lambda>a. ap_current_proposal a = fp_id self) (fd_approvals db)) \<le> 1"
  shows "(\<exists>c'. length (documents_in_category db self (ad_approval_type details) c') \<noteq> 1
            \<and> final_approval_body has_applicant_row compliances today self request details db
                = Inl (ExactlyOne c'
                    (length (documents_in_category db self (ad_approval_type details) c'))))
         \<and> (length (documents_in_category db self (ad_approval_type details) LicenseDocument) = 1
              \<longrightarrow> length (documents_in_category db self (ad_approval_type details) CoverLetter) \<noteq> 1
              \<longrightarrow> final_approval_body has_applicant_row compliances today self request details db
                    = Inl (ExactlyOne CoverLetter
                        (length (documents_in_category db self (ad_approval_type details)
                           CoverLetter))))"
proof -
  let ?self = "self\<lparr>fp_proposed_decline_status := False\<rparr>"
  have l': "fp_application_type ?self = LeaseLicence" using l by simp
  have "input_errors ?self details = input_errors self details"
    by (simp add: input_errors_def)
  with input have input': "input_errors ?self details = []" by simp
  have "missing_mandatory_documents ?self details db = missing_mandatory_documents self details db"
    by (simp add: missing_mandatory_documents_def)
  with mandatory have mandatory': "missing_mandatory_documents ?self details db = []" by simp
  from store_lease_licence_succeeds [OF l' input' mandatory']
  obtain self1 db1 where s: "store_proposed_approval_data ?self request details db = Inr (self1, db1)"
    by blast
  let ?db2 = "db1\<lparr>fd_action_log := fd_action_log db1 @ [fp_id self1]\<rparr>"
  from store_proposed_approval_data_frame [OF s]
  have f: "fp_id self1 = fp_id self" "fd_documents db1 = fd_documents db"
    "fd_approvals db1 = fd_approvals db" "fd_approval_types db1 = fd_approval_types db"
    by auto
  have k: "\<And>c. documents_in_category ?db2 self1 (ad_approval_type details) c
               = documents_in_category db self (ad_approval_type details) c"
    by (rule documents_in_category_cong) (simp_all add: f)
  obtain issuance where st: "fp_proposed_issuance_approval self = Some issuance"
    using stored by auto
  have "applicant ?self = applicant self" by (simp add: applicant_def)
  with who have who': "applicant ?self \<noteq> NoApplicantString" by simp
  have b: "final_approval_body has_applicant_row compliances today self request details db
             = (case issue_new_lease_licence compliances (fi_record_management_number issuance)
                       self1 details ?db2 of
                  Inl e \<Rightarrow> Inl e
                | Inr (self3, db3) \<Rightarrow>
                    Inr (save_proposal (self3\<lparr>fp_approved_by := Some (rq_user request)\<rparr>) db3))"
    using n l st status group who' address s
    by (simp add: final_approval_body_def Let_def can_assess_def)
  have bad2: "length (documents_in_category ?db2 self1 (ad_approval_type details) c) \<noteq> 1"
    using bad by (simp add: k)
  have ty2: "approval_type_exists ?db2 (ad_approval_type details)"
    using ty by (simp add: approval_type_exists_def f split: option.splits)
  have one2: "length (filter (\<lambda>a. ap_current_proposal a = fp_id self1) (fd_approvals ?db2)) \<le> 1"
    using one by (simp add: f)
  let ?issue = "issue_new_lease_licence compliances (fi_record_management_number issuance)
                  self1 details ?db2"
  note e = issue_new_lease_licence_error [OF bad2 ty2 sd ed one2,
             where compliances = compliances
               and number = "fi_record_management_number issuance", unfolded k]
  from e obtain c' where c': "length (documents_in_category db self (ad_approval_type details) c') \<noteq> 1"
    and i1: "?issue = Inl (ExactlyOne c'
                (length (documents_in_category db self (ad_approval_type details) c')))"
    by blast
  have 1: "final_approval_body has_applicant_row compliances today self request details db
             = Inl (ExactlyOne c'
                 (length (documents_in_category db self (ad_approval_type details) c')))"
    by (subst b) (simp add: i1)
  have 2: "final_approval_body has_applicant_row compliances today self request details db
             = Inl (ExactlyOne CoverLetter
                 (length (documents_in_category db self (ad_approval_type details) CoverLetter)))"
    if h: "length (documents_in_category db self (ad_approval_type details) LicenseDocument) = 1"
          "length (documents_in_category db self (ad_approval_type details) CoverLetter) \<noteq> 1"
  proof -
    from e h have "?issue = Inl (ExactlyOne CoverLetter
                 (length (documents_in_category db self (ad_approval_type details) CoverLetter)))"
      by blast
    then show ?thesis by (subst b) simp
  qed
  from c' 1 2 show ?thesis by blast
qed

text \<open>
  Claim C2. \<^verbatim>\<open>final_approval\<close> on a new lease/licence proposal whose assessor documents
  of the chosen approval type do not number exactly one in some category (licence document,
  cover letter, sign-off sheet) raises, and the database is the one before the call: no
  approval row is created and nothing else is written. When the call passes the checks
  made before the documents are read (a stored proposed issuance, the proposal with the
  approver and the user in the approver group, an applicant with an address, complete
  details, no mandatory document missing, an existing approval type, readable dates, at
  most one approval of the proposal), the exception is the \<^verbatim>\<open>ValidationError\<close> of
  \<^verbatim>\<open>generate_license_documents\<close> naming a category that has not exactly one document,
  with the number found; with one licence document and not one cover letter it names the
  cover letter.
\<close>

theorem final_approval_one_document_per_category:
  assumes "fp_proposal_type self = Some New"
    and "fp_application_type self = LeaseLicence"
    and "length (documents_in_category db self (ad_approval_type details) c) \<noteq> 1"
  shows "(\<exists>e. final_approval has_applicant_row compliances today self request details db
                = (Inl e, db))
    \<and> fd_approvals (snd (final_approval has_applicant_row compliances today self request
                            details db)) = fd_approvals db
    \<and> (fp_proposed_issuance_approval self \<noteq> None
        \<and> fp_processing_status self = WithApprover
        \<and> rq_in_approver_group request
        \<and> applicant self \<noteq> NoApplicantString
        \<and> fp_applicant_address self
        \<and> input_errors self details = []
        \<and> missing_mandatory_documents self details db = []
        \<and> approval_type_exists db (ad_approval_type details)
        \<and> (\<exists>s. ad_start_date details = Some (DateString s))
        \<and> (\<exists>x. ad_expiry_date details = Some (DateString x))
        \<and> length (filter (\<lambda>a. ap_current_proposal a = fp_id self) (fd_approvals db)) \<le> 1
        \<longrightarrow>
          (\<exists>c'. length (documents_in_category db self (ad_approval_type details) c') \<noteq> 1
             \<and> final_approval has_applicant_row compliances today self request details db
                 = (Inl (ExactlyOne c'
                      (length (documents_in_category db self (ad_approval_type details) c'))),
                    db))
          \<and> (length (documents_in_category db self (ad_approval_type details) LicenseDocument)
                = 1
               \<longrightarrow> length (documents_in_category db self (ad_approval_type details) CoverLetter)
                     \<noteq> 1
               \<longrightarrow> final_approval has_applicant_row compliances today self request details db
                     = (Inl (ExactlyOne CoverLetter
                          (length (documents_in_category db self (ad_approval_type details)
                             CoverLetter))),
                        db)))"
proof -
  let ?body = "final_approval_body has_applicant_row compliances today self request details db"
  let ?final = "final_approval has_applicant_row compliances today self request details db"
  have f: "?final = (Inl e, db)" if "?body = Inl e" for e
    using that by (simp add: final_approval_def)
  from final_approval_body_fails [OF assms]
  obtain e where e: "?body = Inl e" by blast
  have 1: "\<exists>e. ?final = (Inl e, db)" using f [OF e] by blast
  have 2: "fd_approvals (snd ?final) = fd_approvals db" using f [OF e] by simp
  have 3: "(\<exists>c'. length (documents_in_category db self (ad_approval_type details) c') \<noteq> 1
             \<and> ?final = (Inl (ExactlyOne c'
                      (length (documents_in_category db self (ad_approval_type details) c'))),
                    db))
          \<and> (length (documents_in_category db self (ad_approval_type details) LicenseDocument)
                = 1
               \<longrightarrow> length (documents_in_category db self (ad_approval_type details) CoverLetter)
                     \<noteq> 1
               \<longrightarrow> ?final = (Inl (ExactlyOne CoverLetter
                          (length (documents_in_category db self (ad_approval_type details)
                             CoverLetter))),
                        db))"
    if g: "fp_proposed_issuance_approval self \<noteq> None"
        "fp_processing_status self = WithApprover"
        "rq_in_approver_group request"
        "applicant self \<noteq> NoApplicantString"
        "fp_applicant_address self"
        "input_errors self details = []"
        "missing_mandatory_documents self details db = []"
        "approval_type_exists db (ad_approval_type details)"
      and sd: "\<exists>s. ad_start_date details = Some (DateString s)"
      and ed: "\<exists>x. ad_expiry_date details = Some (DateString x)"
      and one: "length (filter (\<lambda>a. ap_current_proposal a = fp_id self) (fd_approvals db)) \<le> 1"
  proof -
    from sd obtain s where s: "ad_start_date details = Some (DateString s)" by blast
    from ed obtain x where x: "ad_expiry_date details = Some (DateString x)" by blast
    note b = final_approval_body_error [OF assms g s x one,
               where has_applicant_row = has_applicant_row and compliances = compliances
                 and today = today]
    from b obtain c' where
      c': "length (documents_in_category db self (ad_approval_type details) c') \<noteq> 1"
      and "?body = Inl (ExactlyOne c'
              (length (documents_in_category db self (ad_approval_type details) c')))"
      by blast
    from c' f [OF this(2)] have p: "\<exists>c'.
        length (documents_in_category db self (ad_approval_type details) c') \<noteq> 1
        \<and> ?final = (Inl (ExactlyOne c'
                      (length (documents_in_category db self (ad_approval_type details) c'))),
                    db)"
      by blast
    have q: "?final = (Inl (ExactlyOne CoverLetter
                          (length (documents_in_category db self (ad_approval_type details)
                             CoverLetter))), db)"
      if h: "length (documents_in_category db self (ad_approval_type details) LicenseDocument) = 1"
         "length (documents_in_category db self (ad_approval_type details) CoverLetter) \<noteq> 1"
    proof -
      from b h have "?body = Inl (ExactlyOne CoverLetter
                          (length (documents_in_category db self (ad_approval_type details)
                             CoverLetter)))"
        by blast
      from f [OF this] show ?thesis .
    qed
    from p q show ?thesis by blast
  qed
  from 1 2 3 show ?thesis by blast
qed

theorem final_approval_one_document_per_category_witness:
  "fp_proposal_type lease_licence_proposal_2 = Some New
   \<and> fp_application_type lease_licence_proposal_2 = LeaseLicence
   \<and> length (documents_in_category approval_example lease_licence_proposal_2
        (ad_approval_type lease_licence_details) CoverLetter) \<noteq> 1
   \<and> fd_approvals (snd (final_approval True None (Date 2024 6 1) lease_licence_proposal_2
        approver lease_licence_details approval_example)) = []
   \<and> final_approval True None (Date 2024 6 1) lease_licence_proposal_2 approver
        lease_licence_details approval_example
      = (Inl (ExactlyOne CoverLetter 0), approval_example)"
proof -
  have h1: "fp_proposal_type lease_licence_proposal_2 = Some New"
    by (simp add: lease_licence_proposal_2_def)
  have h2: "fp_application_type lease_licence_proposal_2 = LeaseLicence"
    by (simp add: lease_licence_proposal_2_def)
  have n0: "length (documents_in_category approval_example lease_licence_proposal_2
        (ad_approval_type lease_licence_details) CoverLetter) = 0"
    by code_simp
  have n1: "length (documents_in_category approval_example lease_licence_proposal_2
        (ad_approval_type lease_licence_details) LicenseDocument) = 1"
    by code_simp
  from n0 have h3: "length (documents_in_category approval_example lease_licence_proposal_2
        (ad_approval_type lease_licence_details) CoverLetter) \<noteq> 1"
    by simp
  have g1: "fp_proposed_issuance_approval lease_licence_proposal_2 \<noteq> None"
    by (simp add: lease_licence_proposal_2_def)
  have g2: "fp_processing_status lease_licence_proposal_2 = WithApprover"
    by (simp add: lease_licence_proposal_2_def)
  have g3: "rq_in_approver_group approver" by (simp add: approver_def)
  have g4: "applicant lease_licence_proposal_2 \<noteq> NoApplicantString" by code_simp
  have g5: "fp_applicant_address lease_licence_proposal_2"
    by (simp add: lease_licence_proposal_2_def)
  have g6: "input_errors lease_licence_proposal_2 lease_licence_details = []" by code_simp
  have g7: "missing_mandatory_documents lease_licence_proposal_2 lease_licence_details
              approval_example = []"
    by code_simp
  have g8: "approval_type_exists approval_example (ad_approval_type lease_licence_details)"
    by code_simp
  have g9: "\<exists>s. ad_start_date lease_licence_details = Some (DateString s)"
    by (simp add: lease_licence_details_def)
  have g10: "\<exists>x. ad_expiry_date lease_licence_details = Some (DateString x)"
    by (simp add: lease_licence_details_def)
  have g11: "length (filter (\<lambda>a. ap_current_proposal a = fp_id lease_licence_proposal_2)
               (fd_approvals approval_example)) \<le> 1"
    by (simp add: approval_example_def)
  have a0: "fd_approvals approval_example = []" by (simp add: approval_example_def)
  note t = final_approval_one_document_per_category [OF h1 h2 h3,
             where has_applicant_row = True and compliances = None and today = "Date 2024 6 1"
               and request = approver]
  from t have t2: "fd_approvals (snd (final_approval True None (Date 2024 6 1)
        lease_licence_proposal_2 approver lease_licence_details approval_example)) = []"
    unfolding a0 by blast
  from t g1 g2 g3 g4 g5 g6 g7 g8 g9 g10 g11 n1 h3
  have "final_approval True None (Date 2024 6 1) lease_licence_proposal_2 approver
        lease_licence_details approval_example
      = (Inl (ExactlyOne CoverLetter
           (length (documents_in_category approval_example lease_licence_proposal_2
              (ad_approval_type lease_licence_details) CoverLetter))), approval_example)"
    by blast
  then have t3: "final_approval True None (Date 2024 6 1) lease_licence_proposal_2 approver
        lease_licence_details approval_example
      = (Inl (ExactlyOne CoverLetter 0), approval_example)"
    unfolding n0 .
  from h1 h2 h3 t2 t3 show ?thesis by blast
qed

end
